theory Spec2Isabelle
  imports Main "HOL-Library.AList"
begin

section \<open>The Lucky 7 round engine (class GameManager) and its storage calls\<close>

text \<open>
  A shallow embedding of the server-side round engine: the class \<open>GameManager\<close> and the
  methods of \<open>DatabaseStorage\<close> it calls. Chip amounts are the integer columns of the
  schema (\<open>chips\<close>, \<open>bet_amount\<close>, \<open>win_amount\<close>): in the engine they are JavaScript
  numbers, here \<open>int\<close>, and a write of a value outside the 32-bit range of the column
  fails. Bet types and override results are the strings the sockets and the admin route
  deliver.
  \<open>crypto.randomInt(lo, hi)\<close> draws from an entropy source; the draw is an explicit
  argument \<open>r\<close>, and the value returned is \<open>lo + r mod (hi - lo)\<close>, which ranges over
  exactly \<open>lo .. hi - 1\<close>. The SHA-256 digest of the tie-break seed is a library call: its
  first four bytes, read as a big-endian unsigned number, are the parameter \<open>sha\<close>.
\<close>

subsection \<open>Cards and bets\<close>

datatype suit = Spades | Hearts | Diamonds | Clubs

datatype color = Red | Black

datatype status = Waiting | Countdown | Playing | Finished

record Card =
  number :: int
  suit :: suit
  color :: color
  revealed :: bool

text \<open>An element of \<open>room.activeBets\<close>: the fields \<open>id\<close>, \<open>betType\<close> and \<open>betAmount\<close> are the
  only ones the engine reads, both of a row returned by \<open>storage.placeBet\<close> and of the
  objects \<open>handlePlayerAuth\<close> builds.\<close>

record ActiveBet =
  a_id :: nat
  a_betType :: string
  a_betAmount :: int

text \<open>An element of \<open>lockedBets\<close> and \<open>unlockedBets\<close>: \<open>{ betType, amount, betId }\<close>.\<close>

record TrackedBet =
  betType :: string
  amount :: int
  betId :: nat

text \<open>A room player; \<open>id\<close> repeats \<open>socketId\<close> and is left out.\<close>

record Player =
  socketId :: string
  name :: string
  chips :: int
  dbId :: "nat option"

text \<open>The house statistics; \<open>houseEdgePercent\<close> is a floating-point quotient derived from
  the other fields and is left out.\<close>

record HouseStats =
  totalWagered :: int
  totalPaidOut :: int
  houseProfitThisRound :: int
  houseProfitTotal :: int
  roundCount :: nat

text \<open>The room. \<open>activeBets\<close> is a \<open>Map\<close> in insertion order, here an association list
  with distinct keys; it and \<open>houseStats\<close> are optional fields. The constant fields \<open>id\<close>
  and \<open>maxPlayers\<close> are left out.\<close>

record GameRoom =
  players :: "Player list"
  status :: status
  currentCard :: "Card option"
  countdownTime :: int
  gameStartTime :: "int option"
  currentGameId :: "nat option"
  activeBets :: "(string \<times> ActiveBet list) list option"
  roundNumber :: nat
  houseStats :: "HouseStats option"

subsection \<open>Win condition and payout\<close>

definition isBetWinner :: "ActiveBet \<Rightarrow> Card \<Rightarrow> bool" where
  "isBetWinner bet c =
     (if a_betType bet = ''red'' then color c = Red \<and> number c \<noteq> 7
      else if a_betType bet = ''black'' then color c = Black \<and> number c \<noteq> 7
      else if a_betType bet = ''high'' then number c \<ge> 8
      else if a_betType bet = ''low'' then number c \<ge> 1 \<and> number c \<le> 6
      else if a_betType bet = ''lucky7'' then number c = 7
      else False)"

definition payoutMultipliers :: "string \<Rightarrow> int option" where
  "payoutMultipliers t =
     map_of [(''red'', 2), (''black'', 2), (''high'', 2), (''low'', 2), (''lucky7'', 12)] t"

text \<open>\<open>Math.round(amount * 100) / 100\<close>: on an integer amount the rounding is exact and the
  division by 100 undoes the multiplication.\<close>

definition roundToCents :: "int \<Rightarrow> int" where
  "roundToCents amt = (let cents = amt * 100 in cents div 100)"

text \<open>\<open>payoutMultipliers[bet.betType] || 0\<close>: a missing key counts as 0.\<close>

definition calculateWinAmount :: "ActiveBet \<Rightarrow> int" where
  "calculateWinAmount bet =
     (let rawAmount = a_betAmount bet *
        (case payoutMultipliers (a_betType bet) of None \<Rightarrow> 0 | Some m \<Rightarrow> m)
      in roundToCents rawAmount)"

subsection \<open>Outcome selection\<close>

definition randomInt :: "int \<Rightarrow> int \<Rightarrow> nat \<Rightarrow> int" where
  "randomInt lo hi r = lo + int r mod (hi - lo)"

text \<open>Array indexing \<open>xs[i]\<close>: \<open>undefined\<close> out of range.\<close>

definition at :: "'a list \<Rightarrow> int \<Rightarrow> 'a option" where
  "at xs i = (if 0 \<le> i \<and> i < int (length xs) then Some (xs ! nat i) else None)"

record BetTotals =
  lowBetTotal :: int
  highBetTotal :: int
  lucky7BetTotal :: int
  redBetTotal :: int
  blackBetTotal :: int

definition noBets :: BetTotals where
  "noBets = \<lparr>lowBetTotal = 0, highBetTotal = 0, lucky7BetTotal = 0, redBetTotal = 0,
     blackBetTotal = 0\<rparr>"

definition addBet :: "ActiveBet \<Rightarrow> BetTotals \<Rightarrow> BetTotals" where
  "addBet bet t =
     (if a_betType bet = ''low'' then t\<lparr>lowBetTotal := lowBetTotal t + a_betAmount bet\<rparr>
      else if a_betType bet = ''high'' then t\<lparr>highBetTotal := highBetTotal t + a_betAmount bet\<rparr>
      else if a_betType bet = ''lucky7'' then
        t\<lparr>lucky7BetTotal := lucky7BetTotal t + a_betAmount bet\<rparr>
      else if a_betType bet = ''red'' then t\<lparr>redBetTotal := redBetTotal t + a_betAmount bet\<rparr>
      else if a_betType bet = ''black'' then
        t\<lparr>blackBetTotal := blackBetTotal t + a_betAmount bet\<rparr>
      else t)"

text \<open>The two nested \<open>forEach\<close> loops over \<open>room.activeBets\<close> (a \<open>Map\<close> from socket id to
  a bet array, iterated in insertion order); an absent map contributes nothing.\<close>

definition betTotals :: "(string \<times> ActiveBet list) list option \<Rightarrow> BetTotals" where
  "betTotals ab =
     (case ab of None \<Rightarrow> noBets
      | Some m \<Rightarrow> fold (\<lambda>(socketId, bets) t. fold addBet bets t) m noBets)"

definition totalBets :: "BetTotals \<Rightarrow> int" where
  "totalBets t =
     lowBetTotal t + highBetTotal t + lucky7BetTotal t + redBetTotal t + blackBetTotal t"

record Outcome =
  otype :: string
  totalPayout :: int
  ocolor :: color
  validNumbers :: "int list"

definition outcomes :: "BetTotals \<Rightarrow> Outcome list" where
  "outcomes t =
     [\<lparr>otype = ''red-low'', totalPayout = (redBetTotal t * 2) + (lowBetTotal t * 2),
        ocolor = Red, validNumbers = [1, 2, 3, 4, 5, 6]\<rparr>,
      \<lparr>otype = ''red-high'', totalPayout = (redBetTotal t * 2) + (highBetTotal t * 2),
        ocolor = Red, validNumbers = [8, 9, 10, 11, 12, 13]\<rparr>,
      \<lparr>otype = ''black-low'', totalPayout = (blackBetTotal t * 2) + (lowBetTotal t * 2),
        ocolor = Black, validNumbers = [1, 2, 3, 4, 5, 6]\<rparr>,
      \<lparr>otype = ''black-high'', totalPayout = (blackBetTotal t * 2) + (highBetTotal t * 2),
        ocolor = Black, validNumbers = [8, 9, 10, 11, 12, 13]\<rparr>]"

definition minPayout :: "BetTotals \<Rightarrow> int" where
  "minPayout t = Min (set (map totalPayout (outcomes t)))"

definition minPayoutOutcomes :: "BetTotals \<Rightarrow> Outcome list" where
  "minPayoutOutcomes t = filter (\<lambda>out. totalPayout out = minPayout t) (outcomes t)"

text \<open>\<open>seed.toString()\<close> of an integer: its decimal digits, with a minus sign below zero.\<close>

fun digitsOf :: "nat \<Rightarrow> string" where
  "digitsOf n =
     (if n < 10 then [char_of (48 + n)] else digitsOf (n div 10) @ [char_of (48 + n mod 10)])"

definition toString :: "int \<Rightarrow> string" where
  "toString n = (if n < 0 then CHR ''-'' # digitsOf (nat (- n)) else digitsOf (nat n))"

text \<open>The number a string of decimal digits stands for.\<close>

definition decimalValue :: "string \<Rightarrow> nat" where
  "decimalValue s = foldl (\<lambda>a ch. 10 * a + (of_char ch - 48)) 0 s"

text \<open>\<open>x || 0\<close> on an optional number.\<close>

definition orZero :: "int option \<Rightarrow> int" where
  "orZero x = (case x of None \<Rightarrow> 0 | Some v \<Rightarrow> v)"

text \<open>The seed of the tie-breaker: \<open>(room.currentGameId || 0) + (room.gameStartTime || 0)\<close>.\<close>

definition tieSeed :: "nat option \<Rightarrow> int option \<Rightarrow> int" where
  "tieSeed gameId startTime = orZero (map_option int gameId) + orZero startTime"

text \<open>The outcome chosen in the branch with bets: the single minimum, or the element of
  the tie set the hash of the seed names.\<close>

definition selectedOutcome ::
  "(string \<Rightarrow> nat) \<Rightarrow> BetTotals \<Rightarrow> nat option \<Rightarrow> int option \<Rightarrow> Outcome option" where
  "selectedOutcome sha t gameId startTime =
     (if length (minPayoutOutcomes t) = 1 then at (minPayoutOutcomes t) 0
      else
        (let seed = tieSeed gameId startTime;
             randomIndex = int (sha (toString seed)) mod int (length (minPayoutOutcomes t))
         in at (minPayoutOutcomes t) randomIndex))"

datatype error = TypeError | Error string

definition colorOfSuit :: "suit \<Rightarrow> color" where
  "colorOfSuit s = (if s = Hearts \<or> s = Diamonds then Red else Black)"

text \<open>\<open>generateSmartCard\<close>, with the two random draws in the order the code makes them.
  Reading a property of \<open>undefined\<close> throws.\<close>

definition generateSmartCard ::
  "(string \<Rightarrow> nat) \<Rightarrow> GameRoom \<Rightarrow> nat \<Rightarrow> nat \<Rightarrow> error + Card" where
  "generateSmartCard sha room r1 r2 =
     (let t = betTotals (activeBets room) in
      if totalBets t = 0 then
        (let suits = [Spades, Hearts, Diamonds, Clubs];
             validNums = [1, 2, 3, 4, 5, 6, 8, 9, 10, 11, 12, 13]
         in case at suits (randomInt 0 (int (length suits)) r1) of
              None \<Rightarrow> Inl TypeError
            | Some s \<Rightarrow>
               (case at validNums (randomInt 0 (int (length validNums)) r2) of
                  None \<Rightarrow> Inl TypeError
                | Some n \<Rightarrow>
                    Inr \<lparr>number = n, suit = s, color = colorOfSuit s, revealed = False\<rparr>))
      else
        (case selectedOutcome sha t (currentGameId room) (gameStartTime room) of
           None \<Rightarrow> Inl TypeError
         | Some sel \<Rightarrow>
            (case at (validNumbers sel)
                    (randomInt 0 (int (length (validNumbers sel))) r1) of
               None \<Rightarrow> Inl TypeError
             | Some n \<Rightarrow>
                (if ocolor sel = Red then
                   (case at [Hearts, Diamonds] (randomInt 0 2 r2) of
                      None \<Rightarrow> Inl TypeError
                    | Some s \<Rightarrow> Inr \<lparr>number = n, suit = s, color = Red, revealed = False\<rparr>)
                 else
                   (case at [Spades, Clubs] (randomInt 0 2 r2) of
                      None \<Rightarrow> Inl TypeError
                    | Some s \<Rightarrow>
                        Inr \<lparr>number = n, suit = s, color = Black, revealed = False\<rparr>)))))"

text \<open>\<open>generateCardForResult\<close>: the suit is drawn first, then the number where the case
  draws one.\<close>

definition generateCardForResult :: "string \<Rightarrow> nat \<Rightarrow> nat \<Rightarrow> error + Card" where
  "generateCardForResult result r1 r2 =
     (let suits = [Spades, Hearts, Diamonds, Clubs] in
      case at suits (randomInt 0 (int (length suits)) r1) of
        None \<Rightarrow> Inl TypeError
      | Some s \<Rightarrow>
         (if result = ''red'' \<or> result = ''black'' then
            (let nums = [1, 2, 3, 4, 5, 6, 8, 9, 10, 11, 12, 13] in
             case at nums (randomInt 0 (int (length nums)) r2) of
               None \<Rightarrow> Inl TypeError
             | Some n \<Rightarrow>
                 Inr \<lparr>number = n, suit = s,
                      color = (if result = ''red'' then Red else Black), revealed = False\<rparr>)
          else if result = ''low'' then
            Inr \<lparr>number = randomInt 1 7 r2, suit = s, color = colorOfSuit s, revealed = False\<rparr>
          else if result = ''high'' then
            Inr \<lparr>number = randomInt 8 14 r2, suit = s, color = colorOfSuit s, revealed = False\<rparr>
          else if result = ''lucky7'' then
            Inr \<lparr>number = 7, suit = s, color = colorOfSuit s, revealed = False\<rparr>
          else
            Inr \<lparr>number = randomInt 1 7 r2, suit = s, color = colorOfSuit s,
                 revealed = False\<rparr>))"

subsection \<open>Storage\<close>

text \<open>The tables the engine touches, each a map from the serial primary key to the row,
  with the next value of each sequence. Only the columns the engine reads or writes are
  kept. A call fails where the method itself throws, and where it writes a number that
  the \<open>integer\<close> column (\<open>chips\<close>, \<open>total_wins\<close>, \<open>total_losses\<close>, \<open>win_amount\<close>) cannot
  hold: the database rejects the statement with \<open>value "..." is out of range for type
  integer\<close>.\<close>

definition int4 :: "int \<Rightarrow> bool" where
  "int4 x = (- 2147483648 \<le> x \<and> x \<le> 2147483647)"

definition outOfRange :: "int \<Rightarrow> error" where
  "outOfRange x =
     Error (''value '' @ [CHR 0x22] @ toString x @ [CHR 0x22] @
            '' is out of range for type integer'')"

record DBPlayer =
  p_userId :: nat
  p_socketId :: string
  p_name :: string
  p_chips :: int
  totalWins :: int
  totalLosses :: int

record BetRow =
  gameId :: nat
  playerId :: nat
  betAmount :: int
  b_betType :: string
  betValue :: string
  won :: bool
  winAmount :: int

record GameRow =
  cardNumber :: int
  cardColor :: string
  totalPlayers :: nat
  g_status :: string

record Storage =
  playersTbl :: "nat \<rightharpoonup> DBPlayer"
  betsTbl :: "nat \<rightharpoonup> BetRow"
  gamesTbl :: "nat \<rightharpoonup> GameRow"
  nextPlayerId :: nat
  nextBetId :: nat
  nextGameId :: nat

definition getPlayer :: "Storage \<Rightarrow> nat \<Rightarrow> DBPlayer option" where
  "getPlayer st i = playersTbl st i"

definition updatePlayerChips :: "Storage \<Rightarrow> nat \<Rightarrow> int \<Rightarrow> error + Storage" where
  "updatePlayerChips st pid c =
     (if c < 0 then Inl (Error ''Chip balance cannot be negative'')
      else if \<not> int4 c then Inl (outOfRange c)
      else
        (case playersTbl st pid of
           None \<Rightarrow> Inr st
         | Some p \<Rightarrow> Inr (st\<lparr>playersTbl := (playersTbl st)(pid \<mapsto> p\<lparr>p_chips := c\<rparr>)\<rparr>)))"

text \<open>\<open>placeBet\<close>: one transaction. It returns the id of the new bet row, the updated
  player row and the new tables; a throw rolls the transaction back, so the tables are
  then the ones before the call. The numbers it writes, the stake and the balance less
  the stake, lie between 0 and the balance stored.\<close>

definition placeBet ::
  "Storage \<Rightarrow> nat \<Rightarrow> int \<Rightarrow> string \<Rightarrow> string \<Rightarrow> nat \<Rightarrow> error + (nat \<times> DBPlayer \<times> Storage)" where
  "placeBet st pid amt btype bvalue gid =
     (case playersTbl st pid of
        None \<Rightarrow> Inl (Error ''Player not found'')
      | Some p \<Rightarrow>
         (if p_chips p < amt then Inl (Error ''Insufficient chips'')
          else
            (let bid = nextBetId st;
                 bet = \<lparr>gameId = gid, playerId = pid, betAmount = amt, b_betType = btype,
                        betValue = bvalue, won = False, winAmount = 0\<rparr>;
                 updatedPlayer = p\<lparr>p_chips := p_chips p - amt\<rparr>
             in Inr (bid, updatedPlayer,
                  st\<lparr>betsTbl := (betsTbl st)(bid \<mapsto> bet), nextBetId := Suc bid,
                     playersTbl := (playersTbl st)(pid \<mapsto> updatedPlayer)\<rparr>))))"

text \<open>\<open>resolveBet\<close>: one transaction. The first statement writes \<open>won\<close> and \<open>win_amount\<close>
  to the bet row; where no bet row has the id, \<open>bet[0]\<close> is \<open>undefined\<close> and reading its
  \<open>playerId\<close> throws. The second writes the balance with the winnings and the wins
  counter, or the losses counter. A statement the database rejects throws, and the
  transaction is rolled back: nothing is written. The result is the updated player (with
  its id) where there is one.\<close>

definition resolveBet ::
  "Storage \<Rightarrow> nat \<Rightarrow> bool \<Rightarrow> int \<Rightarrow> error + ((nat \<times> DBPlayer) option \<times> Storage)" where
  "resolveBet st bid w wamt =
     (if \<not> int4 wamt then Inl (outOfRange wamt)
      else
        (case betsTbl st bid of
           None \<Rightarrow> Inl TypeError
         | Some b \<Rightarrow>
            (let st1 = st\<lparr>betsTbl := (betsTbl st)(bid \<mapsto> b\<lparr>won := w, winAmount := wamt\<rparr>)\<rparr> in
             case playersTbl st1 (playerId b) of
               None \<Rightarrow> Inr (None, st1)
             | Some p \<Rightarrow>
                (if w \<and> wamt > 0 then
                   (if \<not> int4 (p_chips p + wamt) then Inl (outOfRange (p_chips p + wamt))
                    else if \<not> int4 (totalWins p + 1) then Inl (outOfRange (totalWins p + 1))
                    else
                      (let p' = p\<lparr>p_chips := p_chips p + wamt, totalWins := totalWins p + 1\<rparr>
                       in Inr (Some (playerId b, p'),
                            st1\<lparr>playersTbl := (playersTbl st1)(playerId b \<mapsto> p')\<rparr>)))
                 else
                   (if \<not> int4 (totalLosses p + 1) then Inl (outOfRange (totalLosses p + 1))
                    else
                      (let p' = p\<lparr>totalLosses := totalLosses p + 1\<rparr>
                       in Inr (Some (playerId b, p'),
                            st1\<lparr>playersTbl := (playersTbl st1)(playerId b \<mapsto> p')\<rparr>)))))))"

definition deleteBet :: "Storage \<Rightarrow> nat \<Rightarrow> Storage" where
  "deleteBet st bid = st\<lparr>betsTbl := (betsTbl st)(bid := None)\<rparr>"

text \<open>\<open>getPlayerByUserId\<close>: the first row of the user, by id. The ids in use lie below the
  sequence's next value.\<close>

definition getPlayerByUserId :: "Storage \<Rightarrow> nat \<Rightarrow> (nat \<times> DBPlayer) option" where
  "getPlayerByUserId st uid =
     (case find (\<lambda>i. case playersTbl st i of None \<Rightarrow> False | Some p \<Rightarrow> p_userId p = uid)
             [0..<nextPlayerId st] of
        None \<Rightarrow> None
      | Some i \<Rightarrow> map_option (Pair i) (playersTbl st i))"

text \<open>\<open>createOrUpdatePlayerByUserId\<close>; the engine keeps one player row per user, which
  is the row the update changes and returns.\<close>

definition createOrUpdatePlayerByUserId ::
  "Storage \<Rightarrow> nat \<Rightarrow> string \<Rightarrow> string \<Rightarrow> nat \<times> DBPlayer \<times> Storage" where
  "createOrUpdatePlayerByUserId st uid sock nm =
     (case getPlayerByUserId st uid of
        Some (i, p) \<Rightarrow>
         (let p' = p\<lparr>p_socketId := sock, p_name := nm\<rparr>
          in (i, p', st\<lparr>playersTbl := (playersTbl st)(i \<mapsto> p')\<rparr>))
      | None \<Rightarrow>
         (let i = nextPlayerId st;
              p' = \<lparr>p_userId = uid, p_socketId = sock, p_name = nm, p_chips = 0,
                     totalWins = 0, totalLosses = 0\<rparr>
          in (i, p', st\<lparr>playersTbl := (playersTbl st)(i \<mapsto> p'), nextPlayerId := Suc i\<rparr>)))"

definition createGame :: "Storage \<Rightarrow> nat \<Rightarrow> nat \<times> Storage" where
  "createGame st n =
     (let gid = nextGameId st
      in (gid, st\<lparr>gamesTbl := (gamesTbl st)(gid \<mapsto>
                 \<lparr>cardNumber = 0, cardColor = ''red'', totalPlayers = n,
                  g_status = ''in_progress''\<rparr>),
               nextGameId := Suc gid\<rparr>))"

definition colorName :: "color \<Rightarrow> string" where
  "colorName c = (case c of Red \<Rightarrow> ''red'' | Black \<Rightarrow> ''black'')"

definition updateGameCard :: "Storage \<Rightarrow> nat \<Rightarrow> int \<Rightarrow> string \<Rightarrow> Storage" where
  "updateGameCard st gid n c =
     (case gamesTbl st gid of
        None \<Rightarrow> st
      | Some g \<Rightarrow> st\<lparr>gamesTbl := (gamesTbl st)(gid \<mapsto> g\<lparr>cardNumber := n, cardColor := c\<rparr>)\<rparr>)"

definition markGameCompleted :: "Storage \<Rightarrow> nat \<Rightarrow> Storage" where
  "markGameCompleted st gid =
     (case gamesTbl st gid of
        None \<Rightarrow> st
      | Some g \<Rightarrow> st\<lparr>gamesTbl := (gamesTbl st)(gid \<mapsto> g\<lparr>g_status := ''completed''\<rparr>)\<rparr>)"

subsection \<open>The manager's state and what it emits\<close>

text \<open>The fields of \<open>GameManager\<close>, with the storage module it calls. The timers
  (\<open>countdownIntervals\<close>, \<open>setTimeout\<close>) are the environment: it calls \<open>countdownTick\<close> once
  a second while the interval is set and \<open>startNextRound\<close> six seconds after a reveal.\<close>

record GameManager =
  globalRoom :: GameRoom
  playerRooms :: "string \<rightharpoonup> string"
  adminOverrides :: "nat \<rightharpoonup> string"
  lockedBets :: "nat \<rightharpoonup> TrackedBet list"
  unlockedBets :: "string \<rightharpoonup> TrackedBet list"
  storage :: Storage

datatype event =
    RoomUpdated GameRoom
  | GameState status int "Card option" GameRoom
  | GameStarting GameRoom int
  | CountdownTick int GameRoom
  | CardRevealed "Card option" GameRoom
  | RoundEnded GameRoom
  | BetError string
  | BetPlaced ActiveBet int bool
  | BetsLocked "TrackedBet list" int
  | BetsCancelled nat int
  | LockedBetsCancelled nat int

text \<open>\<open>io.to('GLOBAL').emit\<close> and \<open>socket.emit\<close>.\<close>

datatype emit = ToRoom event | ToSocket string event

text \<open>Truthiness of an optional id: \<open>undefined\<close> and \<open>0\<close> are falsy.\<close>

definition truthy :: "nat option \<Rightarrow> bool" where
  "truthy x = (case x of None \<Rightarrow> False | Some n \<Rightarrow> n \<noteq> 0)"

definition cardRevealed :: "Card option \<Rightarrow> bool" where
  "cardRevealed c = (case c of None \<Rightarrow> False | Some k \<Rightarrow> revealed k)"

definition sanitizeRoomForBroadcast :: "GameRoom \<Rightarrow> GameRoom" where
  "sanitizeRoomForBroadcast room =
     room\<lparr>currentCard :=
            (if status room = Playing \<and> cardRevealed (currentCard room) then currentCard room
             else None),
          activeBets := None\<rparr>"

text \<open>\<open>room.players.find(p => p.socketId === socket.id)\<close>, and an in-place change of the
  player found.\<close>

definition findPlayer :: "GameRoom \<Rightarrow> string \<Rightarrow> Player option" where
  "findPlayer room sock = find (\<lambda>p. socketId p = sock) (players room)"

fun updateFirst :: "('a \<Rightarrow> bool) \<Rightarrow> ('a \<Rightarrow> 'a) \<Rightarrow> 'a list \<Rightarrow> 'a list" where
  "updateFirst P f [] = []"
| "updateFirst P f (x # xs) = (if P x then f x # xs else x # updateFirst P f xs)"

text \<open>\<open>findIndex(b => b.id === betId)\<close> followed by \<open>splice(betIndex, 1)\<close>.\<close>

fun spliceBet :: "nat \<Rightarrow> ActiveBet list \<Rightarrow> ActiveBet list" where
  "spliceBet i [] = []"
| "spliceBet i (b # bs) = (if a_id b = i then bs else b # spliceBet i bs)"

text \<open>The loop that \<open>leaveRoom\<close>, \<open>handleCancelBet\<close> and \<open>handleCancelLockedBets\<close> share
  word for word: each bet is deleted from the store, its amount added to \<open>totalRefund\<close>,
  and its entry spliced out of the socket's array in \<open>activeBets\<close>.\<close>

definition cancelOne :: "string \<Rightarrow> TrackedBet \<Rightarrow> GameManager \<times> int \<Rightarrow> GameManager \<times> int" where
  "cancelOne sock bet acc =
     (let gm = fst acc; totalRefund = snd acc;
          gm1 = gm\<lparr>storage := deleteBet (storage gm) (betId bet)\<rparr>;
          room = globalRoom gm1;
          room' =
            (case activeBets room of
               None \<Rightarrow> room
             | Some m \<Rightarrow>
                (case map_of m sock of
                   None \<Rightarrow> room
                 | Some playerBets \<Rightarrow>
                     room\<lparr>activeBets :=
                       Some (AList.update sock (spliceBet (betId bet) playerBets) m)\<rparr>))
      in (gm1\<lparr>globalRoom := room'\<rparr>, totalRefund + amount bet))"

definition cancelLoop :: "string \<Rightarrow> TrackedBet list \<Rightarrow> GameManager \<Rightarrow> GameManager \<times> int" where
  "cancelLoop sock bets gm = fold (cancelOne sock) bets (gm, 0)"

text \<open>\<open>if (activeBets?.get(socket.id)?.length === 0) activeBets.delete(socket.id)\<close>.\<close>

definition dropEmptyEntry :: "string \<Rightarrow> GameRoom \<Rightarrow> GameRoom" where
  "dropEmptyEntry sock room =
     (case activeBets room of
        None \<Rightarrow> room
      | Some m \<Rightarrow>
         (if map_of m sock = Some [] then room\<lparr>activeBets := Some (AList.delete sock m)\<rparr>
          else room))"

text \<open>The id behind \<open>player?.dbId\<close> where that is truthy: \<open>None\<close> stands for
  \<open>!player || !player.dbId\<close>.\<close>

definition authId :: "Player option \<Rightarrow> nat option" where
  "authId player =
     (case player of
        None \<Rightarrow> None
      | Some pl \<Rightarrow> (if truthy (dbId pl) then dbId pl else None))"

subsection \<open>Joining, leaving and authenticating\<close>

definition leaveRoom :: "GameManager \<Rightarrow> string \<Rightarrow> GameManager \<times> emit list" where
  "leaveRoom gm sock =
     (case playerRooms gm sock of
        None \<Rightarrow> (gm, [])
      | Some roomId \<Rightarrow>
         (let gm1 = gm\<lparr>playerRooms := (playerRooms gm)(sock := None)\<rparr>;
              player = findPlayer (globalRoom gm1) sock;
              gm2 =
                (case unlockedBets gm1 sock of
                   None \<Rightarrow> gm1
                 | Some ubets \<Rightarrow>
                    (let lp = cancelLoop sock ubets gm1;
                         totalRefund = snd lp;
                         gmD = (fst lp)\<lparr>globalRoom := dropEmptyEntry sock (globalRoom (fst lp))\<rparr>;
                         gmR =
                           (case authId player of
                              None \<Rightarrow> gmD
                            | Some d \<Rightarrow>
                               (if totalRefund > 0 then
                                  (case getPlayer (storage gmD) d of
                                     None \<Rightarrow> gmD
                                   | Some dbPlayer \<Rightarrow>
                                      (case updatePlayerChips (storage gmD) d
                                              (p_chips dbPlayer + totalRefund) of
                                         Inl e \<Rightarrow> gmD
                                       | Inr st' \<Rightarrow> gmD\<lparr>storage := st'\<rparr>))
                                else gmD))
                     in gmR\<lparr>unlockedBets := (unlockedBets gmR)(sock := None)\<rparr>));
              room' = (globalRoom gm2)
                 \<lparr>players := filter (\<lambda>p. socketId p \<noteq> sock) (players (globalRoom gm2))\<rparr>
          in (gm2\<lparr>globalRoom := room'\<rparr>,
              [ToRoom (RoomUpdated (sanitizeRoomForBroadcast room'))])))"

definition joinRoom :: "GameManager \<Rightarrow> string \<Rightarrow> GameManager \<times> emit list" where
  "joinRoom gm sock =
     (let lv = leaveRoom gm sock;
          gm1 = fst lv;
          room = globalRoom gm1;
          player = \<lparr>socketId = sock,
                    name = ''Player '' @ toString (int (length (players room)) + 1),
                    chips = 0, dbId = None\<rparr>;
          room' = room\<lparr>players := players room @ [player]\<rparr>;
          gm2 = gm1\<lparr>globalRoom := room', playerRooms := (playerRooms gm1)(sock \<mapsto> ''GLOBAL'')\<rparr>;
          sanitizedRoom = sanitizeRoomForBroadcast room'
      in (gm2,
          snd lv @
          [ToRoom (RoomUpdated sanitizedRoom),
           ToSocket sock
             (GameState (status room') (countdownTime room')
                (if status room' = Playing then currentCard room' else None) sanitizedRoom)] @
          (if status room' = Countdown
           then [ToSocket sock (GameStarting sanitizedRoom (countdownTime room'))] else [])))"

text \<open>The pass of \<open>handlePlayerAuth\<close> over a snapshot of the entries of \<open>activeBets\<close>,
  taking the bets about to be restored out of every entry.\<close>

definition dropStale ::
  "nat set \<Rightarrow> string \<times> ActiveBet list \<Rightarrow> (string \<times> ActiveBet list) list
     \<Rightarrow> (string \<times> ActiveBet list) list" where
  "dropStale betIdsToRestore entry m =
     (let oldSocketId = fst entry; bets = snd entry;
          filteredBets = filter (\<lambda>bet. a_id bet \<notin> betIdsToRestore) bets
      in if length filteredBets = 0 then AList.delete oldSocketId m
         else if length filteredBets \<noteq> length bets then AList.update oldSocketId filteredBets m
         else m)"

definition toActive :: "TrackedBet \<Rightarrow> ActiveBet" where
  "toActive bet = \<lparr>a_id = betId bet, a_betType = betType bet, a_betAmount = amount bet\<rparr>"

definition handlePlayerAuth ::
  "GameManager \<Rightarrow> string \<Rightarrow> nat \<Rightarrow> string \<Rightarrow> GameManager \<times> emit list" where
  "handlePlayerAuth gm sock uid username =
     (let room = globalRoom gm in
      case findPlayer room sock of
        None \<Rightarrow> (gm, [])
      | Some roomPlayer \<Rightarrow>
         (let cr = createOrUpdatePlayerByUserId (storage gm) uid sock username;
              pid = fst cr; dbPlayer = fst (snd cr);
              room1 = room\<lparr>players :=
                 updateFirst (\<lambda>p. socketId p = sock)
                   (\<lambda>p. p\<lparr>name := p_name dbPlayer, chips := p_chips dbPlayer, dbId := Some pid\<rparr>)
                   (players room)\<rparr>;
              restored =
                (case lockedBets gm pid of
                   None \<Rightarrow> (room1, [])
                 | Some locked \<Rightarrow>
                    (let betIdsToRestore = set (map betId locked);
                         m1 = (case activeBets room1 of
                                 None \<Rightarrow> []
                               | Some m \<Rightarrow> fold (dropStale betIdsToRestore) m m);
                         m2 = AList.update sock (map toActive locked) m1
                     in (room1\<lparr>activeBets := Some m2\<rparr>,
                         [ToSocket sock (BetsLocked locked (p_chips dbPlayer))])));
              room2 = fst restored
          in (gm\<lparr>globalRoom := room2, storage := snd (snd cr)\<rparr>,
              snd restored @ [ToRoom (RoomUpdated (sanitizeRoomForBroadcast room2))])))"

subsection \<open>Placing, locking and cancelling bets\<close>

definition validBetTypes :: "string list" where
  "validBetTypes = [''red'', ''black'', ''high'', ''low'', ''lucky7'']"

definition setChips :: "string \<Rightarrow> int \<Rightarrow> GameRoom \<Rightarrow> GameRoom" where
  "setChips sock c room =
     room\<lparr>players := updateFirst (\<lambda>p. socketId p = sock) (\<lambda>p. p\<lparr>chips := c\<rparr>) (players room)\<rparr>"

definition errorMessage :: "error \<Rightarrow> string" where
  "errorMessage e = (case e of TypeError \<Rightarrow> ''TypeError'' | Error m \<Rightarrow> m)"

definition handlePlaceBet ::
  "GameManager \<Rightarrow> string \<Rightarrow> string \<Rightarrow> string \<Rightarrow> int \<Rightarrow> GameManager \<times> emit list" where
  "handlePlaceBet gm sock btype bvalue amt =
     (let room = globalRoom gm in
      if status room \<noteq> Countdown \<or> countdownTime room \<le> 10 then
        (gm, [ToSocket sock (BetError ''Cannot place bet at this time'')])
      else
        (case findPlayer room sock of
           None \<Rightarrow> (gm, [ToSocket sock (BetError ''You must be in the game to place bets'')])
         | Some playerInRoom \<Rightarrow>
            (case authId (Some playerInRoom) of
               None \<Rightarrow> (gm, [ToSocket sock (BetError ''Authentication required to place bets'')])
             | Some d \<Rightarrow>
                (case getPlayer (storage gm) d of
                   None \<Rightarrow> (gm, [ToSocket sock (BetError ''Player record not found'')])
                 | Some dbPlayer \<Rightarrow>
                    (if btype \<notin> set validBetTypes then
                       (gm, [ToSocket sock (BetError ''Invalid bet type'')])
                     else if amt \<le> 0 \<or> amt > p_chips dbPlayer then
                       (gm, [ToSocket sock (BetError ''Invalid bet amount'')])
                     else if \<not> truthy (currentGameId room) then
                       (gm, [ToSocket sock (BetError ''Game not ready for betting'')])
                     else
                       (case placeBet (storage gm) d amt btype bvalue
                               (case currentGameId room of None \<Rightarrow> 0 | Some g \<Rightarrow> g) of
                          Inl e \<Rightarrow> (gm, [ToSocket sock (BetError ''Failed to place bet'')])
                        | Inr res \<Rightarrow>
                           (let bid = fst res; updatedPlayer = fst (snd res);
                                bet = \<lparr>a_id = bid, a_betType = btype, a_betAmount = amt\<rparr>;
                                room1 = setChips sock (p_chips updatedPlayer) room;
                                m = (case activeBets room1 of None \<Rightarrow> [] | Some m \<Rightarrow> m);
                                playerBets = (case map_of m sock of None \<Rightarrow> [] | Some bs \<Rightarrow> bs);
                                room2 = room1
                                  \<lparr>activeBets := Some (AList.update sock (playerBets @ [bet]) m)\<rparr>;
                                unlockedBetsList =
                                  (case unlockedBets gm sock of None \<Rightarrow> [] | Some bs \<Rightarrow> bs)
                            in (gm\<lparr>globalRoom := room2,
                                   unlockedBets := (unlockedBets gm)(sock \<mapsto>
                                     unlockedBetsList @
                                       [\<lparr>betType = btype, amount = amt, betId = bid\<rparr>]),
                                   storage := snd (snd res)\<rparr>,
                                [ToRoom (RoomUpdated (sanitizeRoomForBroadcast room2)),
                                 ToSocket sock
                                   (BetPlaced bet (p_chips updatedPlayer) False)]))))))))"

definition handleLockBet :: "GameManager \<Rightarrow> string \<Rightarrow> GameManager \<times> emit list" where
  "handleLockBet gm sock =
     (let player = findPlayer (globalRoom gm) sock in
      case authId player of
        None \<Rightarrow> (gm, [ToSocket sock (BetError ''Player not found'')])
      | Some d \<Rightarrow>
         (if status (globalRoom gm) \<noteq> Countdown \<or> countdownTime (globalRoom gm) \<le> 10 then
            (gm, [ToSocket sock (BetError ''Betting window closed'')])
          else if lockedBets gm d \<noteq> None then
            (gm, [ToSocket sock
               (BetError ''You already have locked bets. Locked bets cannot be changed.'')])
          else
            (case unlockedBets gm sock of
               None \<Rightarrow>
                 (gm, [ToSocket sock (BetError ''No bets to lock. Please place a bet first.'')])
             | Some betsToLock \<Rightarrow>
                (if length betsToLock = 0 then
                   (gm, [ToSocket sock
                      (BetError ''No bets to lock. Please place a bet first.'')])
                 else
                   (gm\<lparr>lockedBets := (lockedBets gm)(d \<mapsto> betsToLock),
                       unlockedBets := (unlockedBets gm)(sock := None)\<rparr>,
                    [ToSocket sock
                       (BetsLocked betsToLock
                          (case player of None \<Rightarrow> 0 | Some pl \<Rightarrow> chips pl))])))))"

text \<open>What the two cancel handlers do once they hold a non-empty partition: the shared
  loop, the removal of an emptied entry, and the refund. A throw of \<open>updatePlayerChips\<close>
  is caught after the loop has run, and answers with the message.\<close>

definition cancelAndRefund ::
  "GameManager \<Rightarrow> string \<Rightarrow> nat \<Rightarrow> TrackedBet list \<Rightarrow> error + GameManager" where
  "cancelAndRefund gm sock d bets =
     (let lp = cancelLoop sock bets gm;
          totalRefund = snd lp;
          gmD = (fst lp)\<lparr>globalRoom := dropEmptyEntry sock (globalRoom (fst lp))\<rparr>
      in case getPlayer (storage gmD) d of
           None \<Rightarrow> Inr gmD
         | Some dbPlayer \<Rightarrow>
            (case updatePlayerChips (storage gmD) d (p_chips dbPlayer + totalRefund) of
               Inl e \<Rightarrow> Inl e
             | Inr st' \<Rightarrow>
                 Inr (gmD\<lparr>storage := st',
                        globalRoom :=
                          setChips sock (p_chips dbPlayer + totalRefund) (globalRoom gmD)\<rparr>)))"

definition playerChips :: "GameManager \<Rightarrow> string \<Rightarrow> int" where
  "playerChips gm sock =
     (case findPlayer (globalRoom gm) sock of None \<Rightarrow> 0 | Some pl \<Rightarrow> chips pl)"

definition handleCancelLockedBets :: "GameManager \<Rightarrow> string \<Rightarrow> GameManager \<times> emit list" where
  "handleCancelLockedBets gm sock =
     (case authId (findPlayer (globalRoom gm) sock) of
        None \<Rightarrow> (gm, [ToSocket sock (BetError ''Player not found'')])
      | Some d \<Rightarrow>
         (case lockedBets gm d of
            None \<Rightarrow> (gm, [ToSocket sock (BetError ''No locked bets to cancel'')])
          | Some locked \<Rightarrow>
             (if length locked = 0 then
                (gm, [ToSocket sock (BetError ''No locked bets to cancel'')])
              else
                (case cancelAndRefund gm sock d locked of
                   Inl e \<Rightarrow>
                     (let lp = cancelLoop sock locked gm
                      in ((fst lp)\<lparr>globalRoom := dropEmptyEntry sock (globalRoom (fst lp))\<rparr>,
                          [ToSocket sock (BetError (errorMessage e))]))
                 | Inr gm' \<Rightarrow>
                     (gm'\<lparr>lockedBets := (lockedBets gm')(d := None)\<rparr>,
                      [ToSocket sock
                         (LockedBetsCancelled (length locked) (playerChips gm' sock))])))))"

definition handleCancelBet :: "GameManager \<Rightarrow> string \<Rightarrow> bool \<Rightarrow> GameManager \<times> emit list" where
  "handleCancelBet gm sock cancelLocked =
     (case authId (findPlayer (globalRoom gm) sock) of
        None \<Rightarrow> (gm, [ToSocket sock (BetError ''Player not found'')])
      | Some d \<Rightarrow>
         (if cancelLocked then handleCancelLockedBets gm sock
          else if lockedBets gm d \<noteq> None then
            (gm, [ToSocket sock (BetError
               ''Cannot cancel unlocked bets when you have locked bets. Cancel locked bets first.'')])
          else
            (case unlockedBets gm sock of
               None \<Rightarrow> (gm, [ToSocket sock (BetError ''No unlocked bets to cancel'')])
             | Some ubets \<Rightarrow>
                (if length ubets = 0 then
                   (gm, [ToSocket sock (BetError ''No unlocked bets to cancel'')])
                 else
                   (case cancelAndRefund gm sock d ubets of
                      Inl e \<Rightarrow>
                        (let lp = cancelLoop sock ubets gm
                         in ((fst lp)\<lparr>globalRoom := dropEmptyEntry sock (globalRoom (fst lp))\<rparr>,
                             [ToSocket sock (BetError (errorMessage e))]))
                    | Inr gm' \<Rightarrow>
                        (gm'\<lparr>unlockedBets := (unlockedBets gm')(sock := None)\<rparr>,
                         [ToSocket sock
                            (BetsCancelled (length ubets) (playerChips gm' sock))]))))))"

subsection \<open>Settlement\<close>

definition updateHouseStats :: "GameRoom \<Rightarrow> int \<Rightarrow> int \<Rightarrow> GameRoom" where
  "updateHouseStats room rw rp =
     (case houseStats room of
        None \<Rightarrow> room
      | Some hs \<Rightarrow>
         (let profit = rw - rp
          in room\<lparr>houseStats := Some (hs
               \<lparr>totalWagered := totalWagered hs + rw,
                totalPaidOut := totalPaidOut hs + rp,
                houseProfitThisRound := profit,
                houseProfitTotal := houseProfitTotal hs + profit,
                roundCount := roundCount hs + 1\<rparr>)\<rparr>))"

text \<open>The local variables of \<open>resolveBets\<close> and what its loop changes. The \<open>Set\<close> of
  processed ids keeps insertion order.\<close>

record Settlement =
  processedBetIds :: "nat list"
  roundWagered :: int
  roundPaidOut :: int
  s_storage :: Storage
  s_players :: "Player list"

text \<open>The body of the inner loop after the duplicate check: the bet is evaluated, the
  round totals grow, and \<open>storage.resolveBet\<close> is called; its throw is caught and logged.
  The chips of the room player (found by socket id, else by the id of the updated row)
  follow the store.\<close>

definition settleBet :: "Card \<Rightarrow> string \<times> ActiveBet \<Rightarrow> Settlement \<Rightarrow> Settlement" where
  "settleBet c entry acc =
     (let sid = fst entry; bet = snd entry;
          w = isBetWinner bet c;
          wamt = (if w then calculateWinAmount bet else 0);
          acc1 = acc\<lparr>roundWagered := roundWagered acc + a_betAmount bet,
                     roundPaidOut := roundPaidOut acc + wamt\<rparr>
      in case resolveBet (s_storage acc1) (a_id bet) w wamt of
           Inl e \<Rightarrow> acc1
         | Inr res \<Rightarrow>
            (let acc2 = acc1\<lparr>s_storage := snd res\<rparr>
             in case fst res of
                  None \<Rightarrow> acc2
                | Some up \<Rightarrow>
                   (if find (\<lambda>p. socketId p = sid) (s_players acc2) \<noteq> None then
                      acc2\<lparr>s_players := updateFirst (\<lambda>p. socketId p = sid)
                              (\<lambda>p. p\<lparr>chips := p_chips (snd up)\<rparr>) (s_players acc2)\<rparr>
                    else
                      acc2\<lparr>s_players := updateFirst (\<lambda>p. dbId p = Some (fst up))
                              (\<lambda>p. p\<lparr>chips := p_chips (snd up)\<rparr>) (s_players acc2)\<rparr>)))"

definition resolveStep :: "Card \<Rightarrow> string \<times> ActiveBet \<Rightarrow> Settlement \<Rightarrow> Settlement" where
  "resolveStep c entry acc =
     (if a_id (snd entry) \<in> set (processedBetIds acc) then acc
      else settleBet c entry
             (acc\<lparr>processedBetIds := processedBetIds acc @ [a_id (snd entry)]\<rparr>))"

text \<open>The entries of the map with their bets, in the order the two nested loops visit.\<close>

definition flatten :: "(string \<times> ActiveBet list) list \<Rightarrow> (string \<times> ActiveBet) list" where
  "flatten m = concat (map (\<lambda>(sid, bets). map (Pair sid) bets) m)"

definition settlement :: "GameManager \<Rightarrow> Card \<Rightarrow> (string \<times> ActiveBet list) list \<Rightarrow> Settlement" where
  "settlement gm c m =
     fold (resolveStep c) (flatten m)
       \<lparr>processedBetIds = [], roundWagered = 0, roundPaidOut = 0, s_storage = storage gm,
        s_players = players (globalRoom gm)\<rparr>"

definition resolveBets :: "GameManager \<Rightarrow> GameManager" where
  "resolveBets gm =
     (let room = globalRoom gm in
      case activeBets room of
        None \<Rightarrow> gm
      | Some m \<Rightarrow>
         (case currentCard room of
            None \<Rightarrow> gm
          | Some c \<Rightarrow>
             (if \<not> truthy (currentGameId room) \<or> houseStats room = None then gm
              else
                (let acc = settlement gm c m;
                     room1 = updateHouseStats (room\<lparr>players := s_players acc\<rparr>)
                               (roundWagered acc) (roundPaidOut acc)
                 in gm\<lparr>globalRoom := room1\<lparr>activeBets := Some []\<rparr>,
                       storage := s_storage acc,
                       lockedBets := Map.empty\<rparr>))))"

subsection \<open>The round: start, countdown, reveal, next round\<close>

definition startGame :: "GameManager \<Rightarrow> int \<Rightarrow> GameManager \<times> emit list" where
  "startGame gm now =
     (let room = globalRoom gm in
      if status room \<noteq> Waiting then (gm, [])
      else
        (let room1 = room\<lparr>status := Countdown, countdownTime := 30, gameStartTime := Some now,
                          currentCard := None\<rparr>;
             cg = createGame (storage gm) (length (players room1));
             room2 = room1\<lparr>currentGameId := Some (fst cg)\<rparr>
         in (gm\<lparr>globalRoom := room2, storage := snd cg\<rparr>,
             [ToRoom (GameStarting (sanitizeRoomForBroadcast room2) (countdownTime room2))])))"

text \<open>\<open>revealCard\<close>, with the two draws \<open>generateCardForResult\<close> makes under an override.\<close>

definition revealCard :: "GameManager \<Rightarrow> nat \<Rightarrow> nat \<Rightarrow> error + (GameManager \<times> emit list)" where
  "revealCard gm r1 r2 =
     (let room = globalRoom gm in
      case currentCard room of
        None \<Rightarrow> Inr (gm, [])
      | Some c0 \<Rightarrow>
         (case (case currentGameId room of
                  None \<Rightarrow> Inr gm
                | Some g \<Rightarrow>
                   (if g = 0 then Inr gm
                    else
                      (case adminOverrides gm g of
                         None \<Rightarrow> Inr gm
                       | Some overrideResult \<Rightarrow>
                          (case generateCardForResult overrideResult r1 r2 of
                             Inl e \<Rightarrow> Inl e
                           | Inr c \<Rightarrow>
                               Inr (gm\<lparr>globalRoom := room\<lparr>currentCard := Some c\<rparr>,
                                       adminOverrides := (adminOverrides gm)(g := None)\<rparr>))))) of
            Inl e \<Rightarrow> Inl e
          | Inr gm1 \<Rightarrow>
             (let room1 = globalRoom gm1;
                  room2 = room1\<lparr>status := Playing,
                    currentCard := map_option (\<lambda>c. c\<lparr>revealed := True\<rparr>) (currentCard room1)\<rparr>;
                  gm2 = resolveBets (gm1\<lparr>globalRoom := room2\<rparr>);
                  room3 = globalRoom gm2;
                  st' =
                    (case currentGameId room3 of
                       None \<Rightarrow> storage gm2
                     | Some g \<Rightarrow>
                        (case currentCard room3 of
                           None \<Rightarrow> storage gm2
                         | Some c \<Rightarrow>
                            (if g = 0 then storage gm2
                             else markGameCompleted
                                    (updateGameCard (storage gm2) g (number c)
                                       (colorName (color c))) g)))
              in Inr (gm2\<lparr>storage := st'\<rparr>,
                      [ToRoom (CardRevealed (currentCard room3) room3)]))))"

text \<open>The callback of the countdown interval: \<open>r1\<close>, \<open>r2\<close> are the draws of
  \<open>generateSmartCard\<close>, \<open>r3\<close>, \<open>r4\<close> those of \<open>revealCard\<close>.\<close>

definition countdownTick ::
  "(string \<Rightarrow> nat) \<Rightarrow> GameManager \<Rightarrow> nat \<Rightarrow> nat \<Rightarrow> nat \<Rightarrow> nat
     \<Rightarrow> error + (GameManager \<times> emit list)" where
  "countdownTick sha gm r1 r2 r3 r4 =
     (let room = globalRoom gm;
          room1 = room\<lparr>countdownTime := countdownTime room - 1\<rparr>
      in case (if countdownTime room1 = 10 \<and> currentCard room1 = None then
                 (case generateSmartCard sha room1 r1 r2 of
                    Inl e \<Rightarrow> Inl e
                  | Inr c \<Rightarrow> Inr (room1\<lparr>currentCard := Some c\<rparr>))
               else Inr room1) of
           Inl e \<Rightarrow> Inl e
         | Inr room2 \<Rightarrow>
            (let gm2 = gm\<lparr>globalRoom := room2\<rparr>;
                 tick = ToRoom (CountdownTick (countdownTime room2)
                          (sanitizeRoomForBroadcast room2))
             in if countdownTime room2 \<le> 0 then
                  (case revealCard gm2 r3 r4 of
                     Inl e \<Rightarrow> Inl e
                   | Inr res \<Rightarrow> Inr (fst res, tick # snd res))
                else Inr (gm2, [tick])))"

definition startNextRound :: "GameManager \<Rightarrow> int \<Rightarrow> GameManager \<times> emit list" where
  "startNextRound gm now =
     (let room = globalRoom gm;
          room1 = room\<lparr>status := Waiting, currentCard := None, countdownTime := 30,
                       currentGameId := None,
                       activeBets := map_option (\<lambda>m. []) (activeBets room),
                       roundNumber := (if roundNumber room = 0 then 1 else roundNumber room) + 1\<rparr>;
          gm1 = gm\<lparr>globalRoom := room1, lockedBets := Map.empty, unlockedBets := Map.empty\<rparr>;
          sg = startGame gm1 now
      in (fst sg, ToRoom (RoundEnded (sanitizeRoomForBroadcast room1)) # snd sg))"

definition setAdminOverride :: "GameManager \<Rightarrow> nat \<Rightarrow> string \<Rightarrow> GameManager \<times> bool" where
  "setAdminOverride gm g overrideResult =
     (if status (globalRoom gm) \<noteq> Countdown \<or> currentGameId (globalRoom gm) \<noteq> Some g then
        (gm, False)
      else if overrideResult \<notin> set [''red'', ''black'', ''low'', ''high'', ''lucky7''] then
        (gm, False)
      else (gm\<lparr>adminOverrides := (adminOverrides gm)(g \<mapsto> overrideResult)\<rparr>, True))"

text \<open>The state the constructor builds, over a given store.\<close>

definition newGameManager :: "Storage \<Rightarrow> GameManager" where
  "newGameManager st =
     \<lparr>globalRoom =
        \<lparr>players = [], status = Waiting, currentCard = None, countdownTime = 30,
         gameStartTime = None, currentGameId = None, activeBets = Some [], roundNumber = 1,
         houseStats = Some \<lparr>totalWagered = 0, totalPaidOut = 0, houseProfitThisRound = 0,
           houseProfitTotal = 0, roundCount = 0\<rparr>\<rparr>,
      playerRooms = Map.empty, adminOverrides = Map.empty, lockedBets = Map.empty,
      unlockedBets = Map.empty, storage = st\<rparr>"

subsection \<open>The events the engine reacts to\<close>

text \<open>The socket events (\<open>setupBettingHandlers\<close>, join and disconnect) and the timer
  callbacks, with the random draws and the clock reading each one consumes.\<close>

datatype input =
    Join string
  | Disconnect string
  | UpdatePlayerAuth string nat string
  | PlaceBet string string string int
  | LockBet string
  | CancelBet string bool
  | StartGame int
  | Tick nat nat nat nat
  | NextRound int

definition dispatch ::
  "(string \<Rightarrow> nat) \<Rightarrow> input \<Rightarrow> GameManager \<Rightarrow> error + (GameManager \<times> emit list)" where
  "dispatch sha i gm =
     (case i of
        Join sock \<Rightarrow> Inr (joinRoom gm sock)
      | Disconnect sock \<Rightarrow> Inr (leaveRoom gm sock)
      | UpdatePlayerAuth sock uid username \<Rightarrow> Inr (handlePlayerAuth gm sock uid username)
      | PlaceBet sock btype bvalue amt \<Rightarrow> Inr (handlePlaceBet gm sock btype bvalue amt)
      | LockBet sock \<Rightarrow> Inr (handleLockBet gm sock)
      | CancelBet sock cancelLocked \<Rightarrow> Inr (handleCancelBet gm sock cancelLocked)
      | StartGame now \<Rightarrow> Inr (startGame gm now)
      | Tick r1 r2 r3 r4 \<Rightarrow> countdownTick sha gm r1 r2 r3 r4
      | NextRound now \<Rightarrow> Inr (startNextRound gm now))"

subsection \<open>Notions the properties are stated with\<close>

text \<open>The stake on a bet type among a list of wagers, the wagers pending in a room, and
  what \<open>handlePlaceBet\<close> lets through: a listed type and a positive amount.\<close>

definition stakeOn :: "string \<Rightarrow> ActiveBet list \<Rightarrow> int" where
  "stakeOn ty bets = sum_list (map a_betAmount (filter (\<lambda>b. a_betType b = ty) bets))"

definition pendingWagers :: "GameRoom \<Rightarrow> ActiveBet list" where
  "pendingWagers room = (case activeBets room of None \<Rightarrow> [] | Some m \<Rightarrow> map snd (flatten m))"

definition placeable :: "ActiveBet \<Rightarrow> bool" where
  "placeable bet = (a_betType bet \<in> set validBetTypes \<and> 0 < a_betAmount bet)"

text \<open>An empty store, and the room of the spec's example: 100 on low and 50 on red.\<close>

definition emptyStorage :: Storage where
  "emptyStorage = \<lparr>playersTbl = Map.empty, betsTbl = Map.empty, gamesTbl = Map.empty,
     nextPlayerId = 1, nextBetId = 1, nextGameId = 1\<rparr>"

definition exampleStakes :: GameRoom where
  "exampleStakes = (globalRoom (newGameManager emptyStorage))
     \<lparr>status := Countdown, countdownTime := 11, gameStartTime := Some 1000,
      currentGameId := Some 1,
      activeBets := Some [(''s1'',
        [\<lparr>a_id = 1, a_betType = ''low'', a_betAmount = 100\<rparr>,
         \<lparr>a_id = 2, a_betType = ''red'', a_betAmount = 50\<rparr>])]\<rparr>"

text \<open>A room in which the four categories tie: 50 on red and 50 on black in round 1,
  started at time 1000, so the seed is 1001. And a digest under which the string \<open>1001\<close>
  hashes to 6 and every other string to 0.\<close>

definition exampleTie :: GameRoom where
  "exampleTie = exampleStakes
     \<lparr>activeBets := Some [(''s1'', [\<lparr>a_id = 1, a_betType = ''red'', a_betAmount = 50\<rparr>]),
        (''s2'', [\<lparr>a_id = 2, a_betType = ''black'', a_betAmount = 50\<rparr>])]\<rparr>"

definition exampleSha :: "string \<Rightarrow> nat" where
  "exampleSha s = (if s = ''1001'' then 6 else 0)"

subsection \<open>An example run\<close>

text \<open>A store with one account (user 7, 1000 chips), and a round in which the account
  connects as socket \<open>A\<close>, authenticates, stakes 50 on red and locks the bet.\<close>

definition store0 :: Storage where
  "store0 = emptyStorage
     \<lparr>playersTbl := [1 \<mapsto> \<lparr>p_userId = 7, p_socketId = ''old'', p_name = ''ann'',
        p_chips = 1000, totalWins = 0, totalLosses = 0\<rparr>],
      nextPlayerId := 2\<rparr>"

definition runStarted :: GameManager where
  "runStarted = fst (startGame (newGameManager store0) 1000)"

definition runJoined :: GameManager where
  "runJoined = fst (joinRoom runStarted ''A'')"

definition runAuthed :: GameManager where
  "runAuthed = fst (handlePlayerAuth runJoined ''A'' 7 ''ann'')"

definition runBet :: GameManager where
  "runBet = fst (handlePlaceBet runAuthed ''A'' ''red'' ''red'' 50)"

definition runLocked :: GameManager where
  "runLocked = fst (handleLockBet runBet ''A'')"

text \<open>What a client can read off an emission: the room in its payload, and a card sent
  beside it.\<close>

fun eventOf :: "emit \<Rightarrow> event" where
  "eventOf (ToRoom e) = e"
| "eventOf (ToSocket sock e) = e"

fun payloadRoom :: "event \<Rightarrow> GameRoom option" where
  "payloadRoom (RoomUpdated r) = Some r"
| "payloadRoom (GameState s t c r) = Some r"
| "payloadRoom (GameStarting r t) = Some r"
| "payloadRoom (CountdownTick t r) = Some r"
| "payloadRoom (CardRevealed c r) = Some r"
| "payloadRoom (RoundEnded r) = Some r"
| "payloadRoom e = None"

fun payloadCard :: "event \<Rightarrow> Card option" where
  "payloadCard (GameState s t c r) = c"
| "payloadCard (CardRevealed c r) = c"
| "payloadCard e = None"

text \<open>An emission hides the outcome when it carries no card at all, or the room in its
  payload is not in countdown.\<close>

definition hidesOutcome :: "emit \<Rightarrow> bool" where
  "hidesOutcome em =
     (case payloadRoom (eventOf em) of
        None \<Rightarrow> payloadCard (eventOf em) = None
      | Some r \<Rightarrow>
          status r \<noteq> Countdown \<or> (currentCard r = None \<and> payloadCard (eventOf em) = None))"

text \<open>The room of a \<open>room-updated\<close>, \<open>game-starting\<close> or \<open>countdown-tick\<close> emission is one
  that \<open>sanitizeRoomForBroadcast\<close> returns.\<close>

definition sanitizedPayload :: "emit \<Rightarrow> bool" where
  "sanitizedPayload em =
     (case eventOf em of
        RoomUpdated r \<Rightarrow> r \<in> range sanitizeRoomForBroadcast
      | GameStarting r t \<Rightarrow> r \<in> range sanitizeRoomForBroadcast
      | CountdownTick t r \<Rightarrow> r \<in> range sanitizeRoomForBroadcast
      | _ \<Rightarrow> True)"

text \<open>Both properties of an emission at once.\<close>

definition quiet :: "emit \<Rightarrow> bool" where
  "quiet em = (hidesOutcome em \<and> sanitizedPayload em)"

text \<open>The countdown of the example run: \<open>n\<close> ticks, every draw 0 and every hash 0. After
  19 ticks 11 seconds remain, after 20 the card has been generated and betting is closed,
  after 29 one second remains, after 30 the card is revealed and the round settled.\<close>

fun runTicks :: "nat \<Rightarrow> GameManager \<Rightarrow> error + GameManager" where
  "runTicks 0 gm = Inr gm"
| "runTicks (Suc n) gm =
     (case countdownTick (\<lambda>s. 0) gm 0 0 0 0 of
        Inl e \<Rightarrow> Inl e
      | Inr res \<Rightarrow> runTicks n (fst res))"

definition afterTicks :: "nat \<Rightarrow> GameManager \<Rightarrow> GameManager" where
  "afterTicks n gm = (case runTicks n gm of Inl e \<Rightarrow> gm | Inr gm' \<Rightarrow> gm')"

definition runAt11 :: GameManager where
  "runAt11 = afterTicks 19 runBet"

definition runClosed :: GameManager where
  "runClosed = afterTicks 20 runBet"


definition runRevealed :: GameManager where
  "runRevealed = afterTicks 30 runBet"

text \<open>The same round when the administrator forces the result \<open>lucky7\<close> once betting
  has closed, one second before the countdown ends.\<close>

definition runForced :: GameManager where
  "runForced = afterTicks 9 (fst (setAdminOverride runClosed 1 ''lucky7''))"

text \<open>Notions for settlement: the entries of the index a settlement acts on (the first
  occurrence of each bet id not yet processed), the loop body without its duplicate check,
  the account a bet row belongs to, and what \<open>resolveBet\<close> credits for a bet under a
  card.\<close>

fun firstOccurrences :: "nat list \<Rightarrow> (string \<times> ActiveBet) list \<Rightarrow> (string \<times> ActiveBet) list" where
  "firstOccurrences seen [] = []"
| "firstOccurrences seen (e # es) =
     (if a_id (snd e) \<in> set seen then firstOccurrences seen es
      else e # firstOccurrences (seen @ [a_id (snd e)]) es)"

definition settleOnce :: "Card \<Rightarrow> string \<times> ActiveBet \<Rightarrow> Settlement \<Rightarrow> Settlement" where
  "settleOnce c entry acc =
     settleBet c entry (acc\<lparr>processedBetIds := processedBetIds acc @ [a_id (snd entry)]\<rparr>)"

definition indexIds :: "(string \<times> ActiveBet list) list \<Rightarrow> nat set" where
  "indexIds m = set (map (\<lambda>e. a_id (snd e)) (flatten m))"

definition owner :: "Storage \<Rightarrow> nat \<Rightarrow> nat option" where
  "owner st bid = map_option playerId (betsTbl st bid)"

definition credit :: "Card \<Rightarrow> ActiveBet \<Rightarrow> int" where
  "credit c bet =
     (let w = isBetWinner bet c; wamt = (if w then calculateWinAmount bet else 0)
      in if w \<and> wamt > 0 then wamt else 0)"

text \<open>An account row after the given entries have been settled on it, once each: the
  balance grows by their credits, and one counter grows by one per entry, the wins counter
  where the entry is credited and the losses counter otherwise.\<close>

definition settledWith :: "Card \<Rightarrow> (string \<times> ActiveBet) list \<Rightarrow> DBPlayer \<Rightarrow> DBPlayer" where
  "settledWith c es p =
     p\<lparr>p_chips := p_chips p + sum_list (map (\<lambda>e. credit c (snd e)) es),
       totalWins := totalWins p + int (length (filter (\<lambda>e. 0 < credit c (snd e)) es)),
       totalLosses := totalLosses p + int (length (filter (\<lambda>e. \<not> 0 < credit c (snd e)) es))\<rparr>"

text \<open>The numbers of an account row lie in the range of their columns.\<close>

definition inRange :: "DBPlayer \<Rightarrow> bool" where
  "inRange p = (int4 (p_chips p) \<and> int4 (totalWins p) \<and> int4 (totalLosses p))"

text \<open>The entries an account owns among a list of entries, by the bet rows of a store. And
  what lets every write of a settlement through: each win amount fits its column, and each
  account row is in range both before the settlement and with all its entries settled.\<close>

definition ownedBy :: "Storage \<Rightarrow> nat \<Rightarrow> (string \<times> ActiveBet) list \<Rightarrow> (string \<times> ActiveBet) list" where
  "ownedBy st q es = filter (\<lambda>e. owner st (a_id (snd e)) = Some q) es"

definition fits :: "Storage \<Rightarrow> Card \<Rightarrow> (string \<times> ActiveBet) list \<Rightarrow> bool" where
  "fits st c es =
     ((\<forall>e \<in> set es. int4 (if isBetWinner (snd e) c then calculateWinAmount (snd e) else 0)) \<and>
      (\<forall>q p. playersTbl st q = Some p \<longrightarrow>
         inRange p \<and> inRange (settledWith c (ownedBy st q es) p)))"

text \<open>The example round with betting closed, where the same bet is indexed under two
  sockets.\<close>

definition runDuplicated :: GameManager where
  "runDuplicated = runClosed\<lparr>globalRoom := (globalRoom runClosed)
     \<lparr>activeBets := Some
        [(''A'', [\<lparr>a_id = 1, a_betType = ''red'', a_betAmount = 50\<rparr>]),
         (''B'', [\<lparr>a_id = 1, a_betType = ''red'', a_betAmount = 50\<rparr>])]\<rparr>\<rparr>"

text \<open>What remains of the index once the shared cancel loop has spliced the given bet ids
  out of a socket's entry.\<close>

definition spliced ::
  "string \<Rightarrow> nat list \<Rightarrow> (string \<times> ActiveBet list) list option
     \<Rightarrow> (string \<times> ActiveBet list) list option" where
  "spliced sock ids ab =
     (case ab of
        None \<Rightarrow> None
      | Some m \<Rightarrow>
         (case map_of m sock of
            None \<Rightarrow> Some m
          | Some pb \<Rightarrow> Some (AList.update sock (fold spliceBet ids pb) m)))"

text \<open>The unlocked bets of a socket, none where the map has no entry.\<close>

definition unlockedOf :: "GameManager \<Rightarrow> string \<Rightarrow> TrackedBet list" where
  "unlockedOf gm sock = (case unlockedBets gm sock of None \<Rightarrow> [] | Some ubs \<Rightarrow> ubs)"


text \<open>Two states agree on the clock, the card, the status, the id and the statistics of
  the round. A state holds no bets: the index and both partitions are empty.\<close>

definition sameRound :: "GameManager \<Rightarrow> GameManager \<Rightarrow> bool" where
  "sameRound gm gm' =
     (currentCard (globalRoom gm') = currentCard (globalRoom gm) \<and>
      countdownTime (globalRoom gm') = countdownTime (globalRoom gm) \<and>
      status (globalRoom gm') = status (globalRoom gm) \<and>
      currentGameId (globalRoom gm') = currentGameId (globalRoom gm) \<and>
      houseStats (globalRoom gm') = houseStats (globalRoom gm))"



text \<open>A sequence of events handled one after the other, every hash 0.\<close>

fun runInputs :: "input list \<Rightarrow> GameManager \<Rightarrow> error + GameManager" where
  "runInputs [] gm = Inr gm"
| "runInputs (i # inputs) gm =
     (case dispatch (\<lambda>s. 0) i gm of
        Inl e \<Rightarrow> Inl e
      | Inr res \<Rightarrow> runInputs inputs (fst res))"

text \<open>The example round with a second unlocked bet, 50 on black, and that round after its
  thirty ticks: the card is revealed and both bets are settled. The events of that round,
  followed by the disconnect of the socket before the next round starts.\<close>

definition runTwoBets :: GameManager where
  "runTwoBets = fst (handlePlaceBet runBet ''A'' ''black'' ''black'' 50)"

definition runWon :: GameManager where
  "runWon = afterTicks 30 runTwoBets"

text \<open>The example round with its bet placed, after the socket has authenticated again, as
  user 8.\<close>

definition runSwitched :: GameManager where
  "runSwitched = fst (handlePlayerAuth runBet ''A'' 8 ''bob'')"

definition disconnectAfterReveal :: "input list" where
  "disconnectAfterReveal =
     [StartGame 1000, Join ''A'', UpdatePlayerAuth ''A'' 7 ''ann'',
      PlaceBet ''A'' ''red'' ''red'' 50, PlaceBet ''A'' ''black'' ''black'' 50] @
     replicate 30 (Tick 0 0 0 0) @ [Disconnect ''A'']"

text \<open>The example round after the locked bet's owner has disconnected.\<close>

definition runLeft :: GameManager where
  "runLeft = fst (leaveRoom runLocked ''A'')"

section \<open>Properties\<close>

subsection \<open>Outcome selection\<close>

lemma randomInt_range: "lo < hi \<Longrightarrow> lo \<le> randomInt lo hi r \<and> randomInt lo hi r < hi"
proof -
  assume "lo < hi"
  then have "0 < hi - lo" by simp
  then have "0 \<le> int r mod (hi - lo) \<and> int r mod (hi - lo) < hi - lo"
    using pos_mod_bound [of "hi - lo" "int r"] pos_mod_sign [of "hi - lo" "int r"] by simp
  then show ?thesis by (simp add: randomInt_def)
qed

lemma at_randomInt:
  "xs \<noteq> [] \<Longrightarrow> \<exists>x. at xs (randomInt 0 (int (length xs)) r) = Some x \<and> x \<in> set xs"
  using randomInt_range [of 0 "int (length xs)" r]
  by (auto simp: at_def)

lemma at_Some_mem: "at xs i = Some x \<Longrightarrow> x \<in> set xs"
  by (auto simp: at_def split: if_splits)

lemma minPayout_attained: "minPayout t \<in> set (map totalPayout (outcomes t))"
  unfolding minPayout_def
  by (rule Min_in) (simp_all add: outcomes_def)

lemma minPayoutOutcomes_nonempty: "minPayoutOutcomes t \<noteq> []"
proof -
  from minPayout_attained [of t] obtain out where
    "out \<in> set (outcomes t)" "totalPayout out = minPayout t" by auto
  then have "out \<in> set (minPayoutOutcomes t)" by (simp add: minPayoutOutcomes_def)
  then show ?thesis by auto
qed

lemma selectedOutcome_Some:
  "\<exists>sel. selectedOutcome sha t g s = Some sel \<and> sel \<in> set (minPayoutOutcomes t)"
proof -
  let ?xs = "minPayoutOutcomes t"
  have ne: "?xs \<noteq> []" by (rule minPayoutOutcomes_nonempty)
  then have pos: "0 < int (length ?xs)" by simp
  show ?thesis
  proof (cases "length ?xs = 1")
    case True
    then show ?thesis by (auto simp: selectedOutcome_def at_def)
  next
    case False
    let ?i = "int (sha (toString (tieSeed g s))) mod int (length ?xs)"
    from pos have "0 \<le> ?i" "?i < int (length ?xs)" by simp_all
    then show ?thesis using False by (auto simp: selectedOutcome_def at_def Let_def)
  qed
qed

lemma minPayoutOutcomes_subset: "set (minPayoutOutcomes t) \<subseteq> set (outcomes t)"
  by (auto simp: minPayoutOutcomes_def)

lemma outcome_numbers:
  "out \<in> set (outcomes t) \<Longrightarrow> validNumbers out \<noteq> [] \<and> 7 \<notin> set (validNumbers out)
     \<and> set (validNumbers out) \<subseteq> {1..13}"
  by (auto simp: outcomes_def)

lemma generateSmartCard_ok:
  "\<exists>c. generateSmartCard sha room r1 r2 = Inr c \<and> number c \<noteq> 7 \<and> 1 \<le> number c \<and> number c \<le> 13
     \<and> \<not> revealed c"
proof (cases "totalBets (betTotals (activeBets room)) = 0")
  case True
  obtain s where s: "at [Spades, Hearts, Diamonds, Clubs] (randomInt 0 4 r1) = Some s"
    using at_randomInt [of "[Spades, Hearts, Diamonds, Clubs]" r1] by auto
  obtain n where n: "at [1, 2, 3, 4, 5, 6, 8, 9, 10, 11, 12, 13] (randomInt 0 12 r2) = Some (n::int)"
    "n \<in> set [1, 2, 3, 4, 5, 6, 8, 9, 10, 11, 12, 13]"
    using at_randomInt [of "[1, 2, 3, 4, 5, 6, 8, 9, 10, 11, 12, 13::int]" r2] by auto
  from n(2) have "n \<noteq> 7 \<and> 1 \<le> n \<and> n \<le> 13" by auto
  with True s n(1) show ?thesis by (simp add: generateSmartCard_def Let_def)
next
  case False
  let ?t = "betTotals (activeBets room)"
  obtain sel where sel: "selectedOutcome sha ?t (currentGameId room) (gameStartTime room) = Some sel"
    "sel \<in> set (minPayoutOutcomes ?t)"
    using selectedOutcome_Some by blast
  then have mem: "sel \<in> set (outcomes ?t)" using minPayoutOutcomes_subset by blast
  note on = outcome_numbers [OF mem]
  obtain n where n: "at (validNumbers sel) (randomInt 0 (int (length (validNumbers sel))) r1) = Some n"
    "n \<in> set (validNumbers sel)"
    using at_randomInt [of "validNumbers sel" r1] on by auto
  with on have nn: "n \<noteq> 7 \<and> 1 \<le> n \<and> n \<le> 13" by auto
  obtain s1 where s1: "at [Hearts, Diamonds] (randomInt 0 2 r2) = Some s1"
    using at_randomInt [of "[Hearts, Diamonds]" r2] by auto
  obtain s2 where s2: "at [Spades, Clubs] (randomInt 0 2 r2) = Some s2"
    using at_randomInt [of "[Spades, Clubs]" r2] by auto
  from False sel(1) n(1) nn s1 s2 show ?thesis
    by (simp add: generateSmartCard_def Let_def)
qed

lemma generateCardForResult_ok:
  "\<exists>c. generateCardForResult result r1 r2 = Inr c \<and> (number c = 7 \<longleftrightarrow> result = ''lucky7'')
      \<and> 1 \<le> number c \<and> number c \<le> 13 \<and> \<not> revealed c"
proof -
  obtain s where s: "at [Spades, Hearts, Diamonds, Clubs] (randomInt 0 4 r1) = Some s"
    using at_randomInt [of "[Spades, Hearts, Diamonds, Clubs]" r1] by auto
  obtain n where n: "at [1, 2, 3, 4, 5, 6, 8, 9, 10, 11, 12, 13] (randomInt 0 12 r2) = Some (n::int)"
    "n \<in> set [1, 2, 3, 4, 5, 6, 8, 9, 10, 11, 12, 13]"
    using at_randomInt [of "[1, 2, 3, 4, 5, 6, 8, 9, 10, 11, 12, 13::int]" r2] by auto
  from n(2) have nn: "n \<noteq> 7 \<and> 1 \<le> n \<and> n \<le> 13" by auto
  have lo: "1 \<le> randomInt 1 7 r2 \<and> randomInt 1 7 r2 < 7"
    using randomInt_range [of 1 7 r2] by simp
  have hi: "8 \<le> randomInt 8 14 r2 \<and> randomInt 8 14 r2 < 14"
    using randomInt_range [of 8 14 r2] by simp
  from s n(1) nn lo hi show ?thesis
    by (auto simp: generateCardForResult_def Let_def)
qed

lemma fold_addBet_totals:
  "lowBetTotal (fold addBet bs t) = lowBetTotal t + stakeOn ''low'' bs \<and>
   highBetTotal (fold addBet bs t) = highBetTotal t + stakeOn ''high'' bs \<and>
   lucky7BetTotal (fold addBet bs t) = lucky7BetTotal t + stakeOn ''lucky7'' bs \<and>
   redBetTotal (fold addBet bs t) = redBetTotal t + stakeOn ''red'' bs \<and>
   blackBetTotal (fold addBet bs t) = blackBetTotal t + stakeOn ''black'' bs"
  by (induction bs arbitrary: t) (simp_all add: stakeOn_def addBet_def)

lemma fold_entries_flatten:
  "fold (\<lambda>(socketId, bets) t. fold addBet bets t) m t = fold addBet (map snd (flatten m)) t"
proof (induction m arbitrary: t)
  case Nil
  then show ?case by (simp add: flatten_def)
next
  case (Cons e m)
  obtain sid bets where e: "e = (sid, bets)" by (cases e)
  have "map snd (flatten (e # m)) = bets @ map snd (flatten m)"
    by (simp add: flatten_def e comp_def)
  with Cons show ?case by (simp add: e flatten_def)
qed

lemma betTotals_stakes:
  "lowBetTotal (betTotals (activeBets room)) = stakeOn ''low'' (pendingWagers room) \<and>
   highBetTotal (betTotals (activeBets room)) = stakeOn ''high'' (pendingWagers room) \<and>
   lucky7BetTotal (betTotals (activeBets room)) = stakeOn ''lucky7'' (pendingWagers room) \<and>
   redBetTotal (betTotals (activeBets room)) = stakeOn ''red'' (pendingWagers room) \<and>
   blackBetTotal (betTotals (activeBets room)) = stakeOn ''black'' (pendingWagers room)"
proof (cases "activeBets room")
  case None
  then show ?thesis by (simp add: betTotals_def pendingWagers_def noBets_def stakeOn_def)
next
  case (Some m)
  then show ?thesis
    using fold_addBet_totals [of "map snd (flatten m)" noBets]
    by (simp add: betTotals_def pendingWagers_def fold_entries_flatten noBets_def)
qed

lemma stakeOn_nonneg: "list_all placeable bs \<Longrightarrow> 0 \<le> stakeOn ty bs"
  by (induction bs) (auto simp: stakeOn_def placeable_def)

lemma stakes_positive:
  "list_all placeable bs \<Longrightarrow> bs \<noteq> [] \<Longrightarrow>
     0 < stakeOn ''low'' bs + stakeOn ''high'' bs + stakeOn ''lucky7'' bs + stakeOn ''red'' bs
         + stakeOn ''black'' bs"
proof (induction bs)
  case Nil
  then show ?case by simp
next
  case (Cons b bs)
  then have pb: "placeable b" and rest: "list_all placeable bs" by simp_all
  have nn: "0 \<le> stakeOn ''low'' bs + stakeOn ''high'' bs + stakeOn ''lucky7'' bs
               + stakeOn ''red'' bs + stakeOn ''black'' bs"
    using stakeOn_nonneg [OF rest, of "''low''"] stakeOn_nonneg [OF rest, of "''high''"]
      stakeOn_nonneg [OF rest, of "''lucky7''"] stakeOn_nonneg [OF rest, of "''red''"]
      stakeOn_nonneg [OF rest, of "''black''"] by linarith
  from pb have "a_betType b = ''red'' \<or> a_betType b = ''black'' \<or> a_betType b = ''high''
      \<or> a_betType b = ''low'' \<or> a_betType b = ''lucky7''" "0 < a_betAmount b"
    by (auto simp: placeable_def validBetTypes_def)
  with nn show ?case by (auto simp: stakeOn_def)
qed

lemma totalBets_positive:
  assumes "list_all placeable (pendingWagers room)" "pendingWagers room \<noteq> []"
  shows "0 < totalBets (betTotals (activeBets room))"
  using stakes_positive [OF assms] betTotals_stakes [of room]
  by (simp add: totalBets_def)

lemma selected_is_minimal:
  assumes "sel \<in> set (minPayoutOutcomes t)"
  shows "sel \<in> set (outcomes t) \<and> (\<forall>out \<in> set (outcomes t). totalPayout sel \<le> totalPayout out)
    \<and> minPayoutOutcomes t = filter (\<lambda>out. totalPayout out = totalPayout sel) (outcomes t)"
proof -
  from assms have m: "sel \<in> set (outcomes t)" and eq: "totalPayout sel = minPayout t"
    by (auto simp: minPayoutOutcomes_def)
  have "\<forall>out \<in> set (outcomes t). minPayout t \<le> totalPayout out"
    unfolding minPayout_def by (auto intro: Min_le)
  with m eq show ?thesis by (simp add: minPayoutOutcomes_def)
qed

lemma selectedOutcome_index:
  "selectedOutcome sha t g s =
     Some (minPayoutOutcomes t ! (sha (toString (tieSeed g s)) mod length (minPayoutOutcomes t)))"
proof -
  let ?xs = "minPayoutOutcomes t"
  let ?h = "sha (toString (tieSeed g s))"
  have ne: "?xs \<noteq> []" by (rule minPayoutOutcomes_nonempty)
  then have lt: "?h mod length ?xs < length ?xs" by simp
  have idx: "int ?h mod int (length ?xs) = int (?h mod length ?xs)"
    by (simp add: zmod_int)
  show ?thesis
  proof (cases "length ?xs = 1")
    case True
    then show ?thesis by (simp add: selectedOutcome_def at_def)
  next
    case False
    then show ?thesis using lt
      by (simp add: selectedOutcome_def at_def Let_def idx del: of_nat_mod)
  qed
qed

lemma generateSmartCard_in_category:
  assumes "totalBets (betTotals (activeBets room)) \<noteq> 0"
    and "selectedOutcome sha (betTotals (activeBets room)) (currentGameId room) (gameStartTime room)
           = Some sel"
  shows "\<exists>c. generateSmartCard sha room r1 r2 = Inr c \<and> color c = ocolor sel
            \<and> number c \<in> set (validNumbers sel)"
proof -
  let ?t = "betTotals (activeBets room)"
  from assms(2) selectedOutcome_Some [of sha ?t "currentGameId room" "gameStartTime room"]
  have "sel \<in> set (minPayoutOutcomes ?t)" by auto
  then have mem: "sel \<in> set (outcomes ?t)" using minPayoutOutcomes_subset by blast
  note on = outcome_numbers [OF mem]
  obtain n where n: "at (validNumbers sel) (randomInt 0 (int (length (validNumbers sel))) r1) = Some n"
    "n \<in> set (validNumbers sel)"
    using at_randomInt [of "validNumbers sel" r1] on by auto
  obtain s1 where s1: "at [Hearts, Diamonds] (randomInt 0 2 r2) = Some s1"
    using at_randomInt [of "[Hearts, Diamonds]" r2] by auto
  obtain s2 where s2: "at [Spades, Clubs] (randomInt 0 2 r2) = Some s2"
    using at_randomInt [of "[Spades, Clubs]" r2] by auto
  from assms n s1 s2 show ?thesis
    by (cases "ocolor sel") (simp_all add: generateSmartCard_def Let_def)
qed

lemma exampleStakes_totals:
  "betTotals (activeBets exampleStakes) =
     \<lparr>lowBetTotal = 100, highBetTotal = 0, lucky7BetTotal = 0, redBetTotal = 50,
      blackBetTotal = 0\<rparr>"
  by (simp add: exampleStakes_def newGameManager_def betTotals_def addBet_def noBets_def)

lemma exampleStakes_selected:
  "map totalPayout (outcomes (betTotals (activeBets exampleStakes))) = [300, 100, 200, 0] \<and>
   (\<exists>sel. selectedOutcome sha (betTotals (activeBets exampleStakes))
            (currentGameId exampleStakes) (gameStartTime exampleStakes) = Some sel \<and>
          otype sel = ''black-high'')"
  by (simp add: exampleStakes_totals selectedOutcome_def minPayoutOutcomes_def minPayout_def
      outcomes_def at_def)

text \<open>\<open>toString\<close> writes a number that is not negative in decimal digits.\<close>

lemma decimalValue_digitsOf: "decimalValue (digitsOf n) = n"
proof (induction n rule: digitsOf.induct)
  case (1 n)
  show ?case
  proof (cases "n < 10")
    case True
    then have "digitsOf n = [char_of (48 + n)]"
      by (subst digitsOf.simps) (simp del: digitsOf.simps)
    with True show ?thesis by (simp add: decimalValue_def del: digitsOf.simps)
  next
    case False
    then have d: "digitsOf n = digitsOf (n div 10) @ [char_of (48 + n mod 10)]"
      by (subst digitsOf.simps) (simp del: digitsOf.simps)
    from False 1 have ih: "decimalValue (digitsOf (n div 10)) = n div 10"
      by (simp del: digitsOf.simps)
    have m: "n mod 10 < 10" by simp
    have "decimalValue (digitsOf n) = 10 * decimalValue (digitsOf (n div 10)) + n mod 10"
      unfolding d using m by (simp add: decimalValue_def del: digitsOf.simps)
    with ih show ?thesis by (simp del: digitsOf.simps)
  qed
qed

lemma toString_decimal: "0 \<le> x \<Longrightarrow> decimalValue (toString x) = nat x"
  by (simp add: toString_def decimalValue_digitsOf del: digitsOf.simps)

text \<open>
  Claim C2. When at least one wager is pending (each pending wager being one
  \<open>handlePlaceBet\<close> lets through), the outcome selected is one of exactly four categories,
  red-low, red-high, black-low and black-high, whose payouts are twice the stakes on the
  two bet types that win under it; its payout is the minimum of the four. The seed of the
  tie-break is the sum of \<open>currentGameId\<close> and \<open>gameStartTime\<close>, each counted as 0 where it
  is absent, and the outcome selected is the element of the tie set (the categories of
  minimum payout, in the order of the list) at the index that the hash of the seed's
  decimal digits (\<open>seed.toString()\<close>, read back by \<open>decimalValue\<close>) gives modulo the size
  of the tie set. So the category is a function of
  the stakes, the round's id and its start time alone, and every card generated lies in
  it whatever the random draws. With 100 on low and 50 on red the category selected is
  black-high.
\<close>

theorem C2_minimum_payout_selection:
  fixes room :: GameRoom and sha :: "string \<Rightarrow> nat"
  defines "t \<equiv> betTotals (activeBets room)"
  defines "pw \<equiv> pendingWagers room"
  defines "seed \<equiv> (case currentGameId room of None \<Rightarrow> 0 | Some g \<Rightarrow> int g) +
                   (case gameStartTime room of None \<Rightarrow> 0 | Some s \<Rightarrow> s)"
  assumes "pendingWagers room \<noteq> []" and "list_all placeable (pendingWagers room)"
  shows
    "map otype (outcomes t) = [''red-low'', ''red-high'', ''black-low'', ''black-high''] \<and>
     map totalPayout (outcomes t) =
       [2 * (stakeOn ''red'' pw + stakeOn ''low'' pw), 2 * (stakeOn ''red'' pw + stakeOn ''high'' pw),
        2 * (stakeOn ''black'' pw + stakeOn ''low'' pw),
        2 * (stakeOn ''black'' pw + stakeOn ''high'' pw)] \<and>
     tieSeed (currentGameId room) (gameStartTime room) = seed \<and>
     (0 \<le> seed \<longrightarrow> decimalValue (toString seed) = nat seed) \<and>
     (\<exists>sel. selectedOutcome sha t (currentGameId room) (gameStartTime room) = Some sel \<and>
        sel \<in> set (outcomes t) \<and>
        (\<forall>out \<in> set (outcomes t). totalPayout sel \<le> totalPayout out) \<and>
        minPayoutOutcomes t = filter (\<lambda>out. totalPayout out = totalPayout sel) (outcomes t) \<and>
        sel = minPayoutOutcomes t ! (sha (toString seed) mod length (minPayoutOutcomes t)) \<and>
        (\<forall>r1 r2. \<exists>c. generateSmartCard sha room r1 r2 = Inr c \<and> color c = ocolor sel \<and>
           number c \<in> set (validNumbers sel))) \<and>
     (\<exists>sel. selectedOutcome sha (betTotals (activeBets exampleStakes))
              (currentGameId exampleStakes) (gameStartTime exampleStakes) = Some sel \<and>
        otype sel = ''black-high'')"
proof -
  have names: "map otype (outcomes t) = [''red-low'', ''red-high'', ''black-low'', ''black-high'']"
    by (simp add: outcomes_def)
  have pays: "map totalPayout (outcomes t) =
       [2 * (stakeOn ''red'' pw + stakeOn ''low'' pw), 2 * (stakeOn ''red'' pw + stakeOn ''high'' pw),
        2 * (stakeOn ''black'' pw + stakeOn ''low'' pw),
        2 * (stakeOn ''black'' pw + stakeOn ''high'' pw)]"
    using betTotals_stakes [of room] by (simp add: outcomes_def t_def pw_def)
  have sd: "tieSeed (currentGameId room) (gameStartTime room) = seed"
    by (simp add: tieSeed_def orZero_def seed_def split: option.splits)
  have pos: "totalBets t \<noteq> 0"
    using totalBets_positive [OF assms(5) assms(4)] by (simp add: t_def)
  obtain sel where sel: "selectedOutcome sha t (currentGameId room) (gameStartTime room) = Some sel"
    and mem: "sel \<in> set (minPayoutOutcomes t)"
    using selectedOutcome_Some by blast
  note mn = selected_is_minimal [OF mem]
  have idx: "sel = minPayoutOutcomes t ! (sha (toString seed) mod length (minPayoutOutcomes t))"
    using sel selectedOutcome_index [of sha t "currentGameId room" "gameStartTime room"]
    unfolding sd by simp
  have cat: "\<forall>r1 r2. \<exists>c. generateSmartCard sha room r1 r2 = Inr c \<and> color c = ocolor sel \<and>
           number c \<in> set (validNumbers sel)"
    using generateSmartCard_in_category [of room sha sel] pos sel by (simp add: t_def)
  have dec: "0 \<le> seed \<longrightarrow> decimalValue (toString seed) = nat seed"
    by (simp add: toString_decimal del: digitsOf.simps)
  from names pays sd dec sel mn idx cat exampleStakes_selected [of sha] show ?thesis by blast
qed

lemma toString_1001: "toString 1001 = ''1001''"
  by code_simp

lemma toString_1002: "toString 1002 = ''1002''"
  by code_simp

lemma exampleTie_totals:
  "betTotals (activeBets exampleTie) =
     \<lparr>lowBetTotal = 0, highBetTotal = 0, lucky7BetTotal = 0, redBetTotal = 50,
      blackBetTotal = 50\<rparr>"
  by (simp add: exampleTie_def exampleStakes_def newGameManager_def betTotals_def addBet_def
      noBets_def)

lemma exampleTie_tieset:
  "map otype (minPayoutOutcomes (betTotals (activeBets exampleTie))) =
     [''red-low'', ''red-high'', ''black-low'', ''black-high'']"
  by (simp add: exampleTie_totals minPayoutOutcomes_def minPayout_def outcomes_def)

theorem C2_minimum_payout_selection_witness:
  "pendingWagers exampleStakes \<noteq> [] \<and> list_all placeable (pendingWagers exampleStakes) \<and>
   map totalPayout (outcomes (betTotals (activeBets exampleStakes))) = [300, 100, 200, 0] \<and>
   (\<forall>sha. \<exists>sel. selectedOutcome sha (betTotals (activeBets exampleStakes))
              (currentGameId exampleStakes) (gameStartTime exampleStakes) = Some sel \<and>
        otype sel = ''black-high'' \<and> totalPayout sel = 0) \<and>
   pendingWagers exampleTie \<noteq> [] \<and> list_all placeable (pendingWagers exampleTie) \<and>
   map totalPayout (outcomes (betTotals (activeBets exampleTie))) = [100, 100, 100, 100] \<and>
   currentGameId exampleTie = Some 1 \<and> gameStartTime exampleTie = Some 1000 \<and>
   tieSeed (currentGameId exampleTie) (gameStartTime exampleTie) = 1001 \<and>
   toString 1001 = ''1001'' \<and> exampleSha ''1001'' mod 4 = 2 \<and>
   (\<exists>sel. selectedOutcome exampleSha (betTotals (activeBets exampleTie))
            (currentGameId exampleTie) (gameStartTime exampleTie) = Some sel \<and>
      otype sel = ''black-low'') \<and>
   (\<exists>sel. selectedOutcome exampleSha (betTotals (activeBets exampleTie))
            (Some 2) (gameStartTime exampleTie) = Some sel \<and>
      otype sel = ''red-low'')"
proof -
  have a: "pendingWagers exampleStakes \<noteq> []"
    by (simp add: pendingWagers_def exampleStakes_def flatten_def)
  have b: "list_all placeable (pendingWagers exampleStakes)"
    by (simp add: pendingWagers_def exampleStakes_def flatten_def placeable_def validBetTypes_def)
  have c: "stakeOn ''red'' (pendingWagers exampleStakes) = 50 \<and>
           stakeOn ''low'' (pendingWagers exampleStakes) = 100 \<and>
           stakeOn ''black'' (pendingWagers exampleStakes) = 0 \<and>
           stakeOn ''high'' (pendingWagers exampleStakes) = 0"
    by (simp add: pendingWagers_def exampleStakes_def flatten_def stakeOn_def)
  have d: "\<exists>sel. selectedOutcome sha (betTotals (activeBets exampleStakes))
              (currentGameId exampleStakes) (gameStartTime exampleStakes) = Some sel \<and>
        otype sel = ''black-high'' \<and> totalPayout sel = 0" for sha
  proof -
    from C2_minimum_payout_selection [OF a b, of sha] obtain sel where
      s: "selectedOutcome sha (betTotals (activeBets exampleStakes))
              (currentGameId exampleStakes) (gameStartTime exampleStakes) = Some sel"
      and ps: "map totalPayout (outcomes (betTotals (activeBets exampleStakes))) = [300, 100, 200, 0]"
      and mn: "\<forall>out \<in> set (outcomes (betTotals (activeBets exampleStakes))).
                 totalPayout sel \<le> totalPayout out"
      and mem: "sel \<in> set (outcomes (betTotals (activeBets exampleStakes)))"
      using c by auto
    from mem mn show ?thesis using s
      by (auto simp: outcomes_def exampleStakes_totals)
  qed
  have e: "map totalPayout (outcomes (betTotals (activeBets exampleStakes))) = [300, 100, 200, 0]"
    using C2_minimum_payout_selection [OF a b] c by simp
  have a': "pendingWagers exampleTie \<noteq> []"
    by (simp add: pendingWagers_def exampleTie_def exampleStakes_def flatten_def)
  have b': "list_all placeable (pendingWagers exampleTie)"
    by (simp add: pendingWagers_def exampleTie_def exampleStakes_def flatten_def placeable_def
        validBetTypes_def)
  have c': "stakeOn ''red'' (pendingWagers exampleTie) = 50 \<and>
           stakeOn ''low'' (pendingWagers exampleTie) = 0 \<and>
           stakeOn ''black'' (pendingWagers exampleTie) = 50 \<and>
           stakeOn ''high'' (pendingWagers exampleTie) = 0"
    by (simp add: pendingWagers_def exampleTie_def exampleStakes_def flatten_def stakeOn_def)
  have ids: "currentGameId exampleTie = Some 1" "gameStartTime exampleTie = Some 1000"
    by (simp_all add: exampleTie_def exampleStakes_def)
  have h: "exampleSha ''1001'' mod 4 = 2" by (simp add: exampleSha_def)
  note tie = C2_minimum_payout_selection [OF a' b', of exampleSha]
  have e': "map totalPayout (outcomes (betTotals (activeBets exampleTie))) = [100, 100, 100, 100]"
    using tie c' by simp
  have sd: "tieSeed (currentGameId exampleTie) (gameStartTime exampleTie) = 1001"
    using tie by (simp add: ids)
  from tie obtain sel where
    s: "selectedOutcome exampleSha (betTotals (activeBets exampleTie))
              (currentGameId exampleTie) (gameStartTime exampleTie) = Some sel"
    and ix: "sel = minPayoutOutcomes (betTotals (activeBets exampleTie)) !
        (exampleSha (toString 1001) mod
           length (minPayoutOutcomes (betTotals (activeBets exampleTie))))"
    by (auto simp: ids)
  have len: "length (minPayoutOutcomes (betTotals (activeBets exampleTie))) = 4"
    using exampleTie_tieset [THEN arg_cong, of length] by simp
  have "otype sel = map otype (minPayoutOutcomes (betTotals (activeBets exampleTie))) ! 2"
    unfolding ix len toString_1001 h by (simp add: len)
  then have f: "otype sel = ''black-low''" unfolding exampleTie_tieset by simp
  have g: "\<exists>sel. selectedOutcome exampleSha (betTotals (activeBets exampleTie))
            (Some 2) (gameStartTime exampleTie) = Some sel \<and> otype sel = ''red-low''"
    by (simp add: ids exampleTie_totals selectedOutcome_def minPayoutOutcomes_def minPayout_def
        outcomes_def at_def tieSeed_def orZero_def toString_1002 exampleSha_def Let_def)
  from a b d e a' b' e' ids sd toString_1001 h s f g show ?thesis by blast
qed

text \<open>
  Claim C10. A red (black) bet wins exactly when the card is red (black) and its number is
  not 7; low wins exactly on 1 to 6, high exactly from 8 up, lucky7 exactly on 7. So on a
  card numbered 7 a bet wins exactly when it is a lucky7 bet, which is paid 12 times its
  stake; the other four types are paid twice theirs.
\<close>

theorem C10_win_condition:
  "(a_betType bet = ''red'' \<longrightarrow> (isBetWinner bet c \<longleftrightarrow> color c = Red \<and> number c \<noteq> 7)) \<and>
   (a_betType bet = ''black'' \<longrightarrow> (isBetWinner bet c \<longleftrightarrow> color c = Black \<and> number c \<noteq> 7)) \<and>
   (a_betType bet = ''low'' \<longrightarrow> (isBetWinner bet c \<longleftrightarrow> 1 \<le> number c \<and> number c \<le> 6)) \<and>
   (a_betType bet = ''high'' \<longrightarrow> (isBetWinner bet c \<longleftrightarrow> 8 \<le> number c)) \<and>
   (a_betType bet = ''lucky7'' \<longrightarrow> (isBetWinner bet c \<longleftrightarrow> number c = 7)) \<and>
   (number c = 7 \<longrightarrow> (isBetWinner bet c \<longleftrightarrow> a_betType bet = ''lucky7'')) \<and>
   (a_betType bet = ''lucky7'' \<longrightarrow> calculateWinAmount bet = 12 * a_betAmount bet) \<and>
   (a_betType bet \<in> {''red'', ''black'', ''low'', ''high''} \<longrightarrow>
      calculateWinAmount bet = 2 * a_betAmount bet)"
  by (auto simp: isBetWinner_def calculateWinAmount_def payoutMultipliers_def roundToCents_def)

theorem C10_win_condition_witness:
  "isBetWinner \<lparr>a_id = 1, a_betType = ''lucky7'', a_betAmount = 10\<rparr>
     \<lparr>number = 7, suit = Hearts, color = Red, revealed = True\<rparr> \<and>
   calculateWinAmount \<lparr>a_id = 1, a_betType = ''lucky7'', a_betAmount = 10\<rparr> = 120 \<and>
   \<not> isBetWinner \<lparr>a_id = 2, a_betType = ''red'', a_betAmount = 10\<rparr>
     \<lparr>number = 7, suit = Hearts, color = Red, revealed = True\<rparr> \<and>
   \<not> isBetWinner \<lparr>a_id = 3, a_betType = ''low'', a_betAmount = 10\<rparr>
     \<lparr>number = 7, suit = Hearts, color = Red, revealed = True\<rparr> \<and>
   \<not> isBetWinner \<lparr>a_id = 4, a_betType = ''high'', a_betAmount = 10\<rparr>
     \<lparr>number = 7, suit = Hearts, color = Red, revealed = True\<rparr> \<and>
   isBetWinner \<lparr>a_id = 2, a_betType = ''red'', a_betAmount = 10\<rparr>
     \<lparr>number = 3, suit = Hearts, color = Red, revealed = True\<rparr>"
  using C10_win_condition [of "\<lparr>a_id = 1, a_betType = ''lucky7'', a_betAmount = 10\<rparr>"
      "\<lparr>number = 7, suit = Hearts, color = Red, revealed = True\<rparr>"]
    C10_win_condition [of "\<lparr>a_id = 2, a_betType = ''red'', a_betAmount = 10\<rparr>"
      "\<lparr>number = 7, suit = Hearts, color = Red, revealed = True\<rparr>"]
    C10_win_condition [of "\<lparr>a_id = 3, a_betType = ''low'', a_betAmount = 10\<rparr>"
      "\<lparr>number = 7, suit = Hearts, color = Red, revealed = True\<rparr>"]
    C10_win_condition [of "\<lparr>a_id = 4, a_betType = ''high'', a_betAmount = 10\<rparr>"
      "\<lparr>number = 7, suit = Hearts, color = Red, revealed = True\<rparr>"]
    C10_win_condition [of "\<lparr>a_id = 2, a_betType = ''red'', a_betAmount = 10\<rparr>"
      "\<lparr>number = 3, suit = Hearts, color = Red, revealed = True\<rparr>"]
  by simp

subsection \<open>Placing and locking bets\<close>

text \<open>
  Claim C7. \<open>handleLockBet\<close> answers with an error and leaves the state as it is when the
  socket has no authenticated player, when locked bets are already recorded for the
  player's database id, when the status is not countdown or at most 10 seconds remain, or
  when the socket has no unlocked bets. In every other case it records all unlocked bets
  of the socket as locked under the player's database id and removes them from the
  unlocked partition, changing nothing else.
\<close>

theorem C7_lock_bet:
  fixes gm :: GameManager and sock :: string
  defines "room \<equiv> globalRoom gm"
  shows
    "(authId (findPlayer room sock) = None \<or>
      (\<exists>d. authId (findPlayer room sock) = Some d \<and> lockedBets gm d \<noteq> None) \<or>
      status room \<noteq> Countdown \<or> countdownTime room \<le> 10 \<or>
      unlockedBets gm sock = None \<or> unlockedBets gm sock = Some []
      \<longrightarrow> (\<exists>msg. handleLockBet gm sock = (gm, [ToSocket sock (BetError msg)]))) \<and>
     (\<forall>d bets. authId (findPlayer room sock) = Some d \<and> lockedBets gm d = None \<and>
        status room = Countdown \<and> 10 < countdownTime room \<and>
        unlockedBets gm sock = Some bets \<and> bets \<noteq> []
        \<longrightarrow> handleLockBet gm sock =
             (gm\<lparr>lockedBets := (lockedBets gm)(d \<mapsto> bets),
                 unlockedBets := (unlockedBets gm)(sock := None)\<rparr>,
              [ToSocket sock (BetsLocked bets (playerChips gm sock))]))"
  unfolding room_def
  by (auto simp: handleLockBet_def Let_def playerChips_def split: option.splits)

text \<open>The conditions under which \<open>handlePlaceBet\<close> goes through.\<close>

lemma handlePlaceBet_reject:
  assumes "\<not> (status (globalRoom gm) = Countdown \<and> 10 < countdownTime (globalRoom gm) \<and>
       btype \<in> set validBetTypes \<and>
       (\<exists>d p g. authId (findPlayer (globalRoom gm) sock) = Some d \<and>
          playersTbl (storage gm) d = Some p \<and> 0 < amt \<and> amt \<le> p_chips p \<and>
          currentGameId (globalRoom gm) = Some g \<and> g \<noteq> 0))"
  shows "\<exists>msg. handlePlaceBet gm sock btype bvalue amt = (gm, [ToSocket sock (BetError msg)])"
proof (cases "status (globalRoom gm) \<noteq> Countdown \<or> countdownTime (globalRoom gm) \<le> 10")
  case True
  then show ?thesis by (auto simp: handlePlaceBet_def Let_def)
next
  case win: False
  show ?thesis
  proof (cases "findPlayer (globalRoom gm) sock")
    case None
    with win show ?thesis by (simp add: handlePlaceBet_def Let_def)
  next
    case (Some pl)
    show ?thesis
    proof (cases "authId (Some pl)")
      case None
      with win Some show ?thesis by (simp add: handlePlaceBet_def Let_def)
    next
      case auth: (Some d)
      show ?thesis
      proof (cases "playersTbl (storage gm) d")
        case None
        with win Some auth show ?thesis by (simp add: handlePlaceBet_def Let_def getPlayer_def)
      next
        case row: (Some p)
        from assms win Some auth row
        have "btype \<notin> set validBetTypes \<or> amt \<le> 0 \<or> amt > p_chips p \<or>
              \<not> truthy (currentGameId (globalRoom gm))"
          by (auto simp: truthy_def split: option.splits)
        with win Some auth row show ?thesis
          by (auto simp: handlePlaceBet_def Let_def getPlayer_def)
      qed
    qed
  qed
qed

lemma handlePlaceBet_success:
  assumes "status (globalRoom gm) = Countdown" "10 < countdownTime (globalRoom gm)"
    and "btype \<in> set validBetTypes"
    and "authId (findPlayer (globalRoom gm) sock) = Some d"
    and "playersTbl (storage gm) d = Some p" "0 < amt" "amt \<le> p_chips p"
    and "currentGameId (globalRoom gm) = Some g" "g \<noteq> 0"
  shows "handlePlaceBet gm sock btype bvalue amt =
    (let bid = nextBetId (storage gm);
         room1 = setChips sock (p_chips p - amt) (globalRoom gm);
         m = (case activeBets room1 of None \<Rightarrow> [] | Some m \<Rightarrow> m);
         playerBets = (case map_of m sock of None \<Rightarrow> [] | Some bs \<Rightarrow> bs);
         bet = \<lparr>a_id = bid, a_betType = btype, a_betAmount = amt\<rparr>;
         room2 = room1\<lparr>activeBets := Some (AList.update sock (playerBets @ [bet]) m)\<rparr>
     in (gm\<lparr>globalRoom := room2,
            unlockedBets := (unlockedBets gm)(sock \<mapsto>
              (case unlockedBets gm sock of None \<Rightarrow> [] | Some bs \<Rightarrow> bs) @
                [\<lparr>betType = btype, amount = amt, betId = bid\<rparr>]),
            storage := (storage gm)
              \<lparr>betsTbl := (betsTbl (storage gm))(bid \<mapsto>
                 \<lparr>gameId = g, playerId = d, betAmount = amt, b_betType = btype,
                  betValue = bvalue, won = False, winAmount = 0\<rparr>),
               nextBetId := Suc bid,
               playersTbl := (playersTbl (storage gm))(d \<mapsto> p\<lparr>p_chips := p_chips p - amt\<rparr>)\<rparr>\<rparr>,
         [ToRoom (RoomUpdated (sanitizeRoomForBroadcast room2)),
          ToSocket sock (BetPlaced bet (p_chips p - amt) False)]))"
proof -
  from assms(4) obtain pl where pl: "findPlayer (globalRoom gm) sock = Some pl"
    by (auto simp: authId_def split: option.splits)
  with assms(4) have auth: "authId (Some pl) = Some d" by simp
  from assms(8,9) have tr: "truthy (currentGameId (globalRoom gm))" by (simp add: truthy_def)
  have pb: "placeBet (storage gm) d amt btype bvalue g =
      Inr (nextBetId (storage gm), p\<lparr>p_chips := p_chips p - amt\<rparr>,
        (storage gm)\<lparr>betsTbl := (betsTbl (storage gm))(nextBetId (storage gm) \<mapsto>
                 \<lparr>gameId = g, playerId = d, betAmount = amt, b_betType = btype,
                  betValue = bvalue, won = False, winAmount = 0\<rparr>),
               nextBetId := Suc (nextBetId (storage gm)),
               playersTbl := (playersTbl (storage gm))(d \<mapsto> p\<lparr>p_chips := p_chips p - amt\<rparr>)\<rparr>)"
    using assms(5,7) by (simp add: placeBet_def Let_def)
  show ?thesis
    using assms(1,2,3,5,6,7,8) pl auth tr pb
    by (simp add: handlePlaceBet_def Let_def getPlayer_def)
qed


text \<open>
  Claim C4. \<open>handlePlaceBet\<close> either answers with an error and leaves the state as it is,
  or the status is countdown with more than 10 seconds remaining, the bet type is one of
  the five listed, and the stake is positive and at most the chip balance of the
  authenticated account; then the balance in the store is debited by the stake and stays
  at or above zero, a pending bet row is created, and the bet enters the socket's unlocked
  partition and the wager index. Debit and row come from the one \<open>placeBet\<close> transaction,
  which fails as a whole on an insufficient balance.
\<close>

theorem C4_place_bet:
  fixes gm :: GameManager and sock btype bvalue :: string and amt :: int
    and accepted placed :: "nat \<Rightarrow> DBPlayer \<Rightarrow> nat \<Rightarrow> bool"
  defines "room \<equiv> globalRoom gm"
  defines "st \<equiv> storage gm"
  defines "res \<equiv> handlePlaceBet gm sock btype bvalue amt"
  defines "accepted \<equiv> \<lambda>d p g. status room = Countdown \<and> 10 < countdownTime room \<and>
         btype \<in> {''red'', ''black'', ''high'', ''low'', ''lucky7''} \<and>
         authId (findPlayer room sock) = Some d \<and> playersTbl st d = Some p \<and>
         0 < amt \<and> amt \<le> p_chips p \<and> currentGameId room = Some g \<and> g \<noteq> 0"
  defines "placed \<equiv> \<lambda>d p g.
         playersTbl (storage (fst res)) = (playersTbl st)(d \<mapsto> p\<lparr>p_chips := p_chips p - amt\<rparr>) \<and>
         0 \<le> p_chips p - amt \<and>
         betsTbl (storage (fst res)) = (betsTbl st)(nextBetId st \<mapsto>
            \<lparr>gameId = g, playerId = d, betAmount = amt, b_betType = btype, betValue = bvalue,
             won = False, winAmount = 0\<rparr>) \<and>
         unlockedBets (fst res) = (unlockedBets gm)(sock \<mapsto>
            (case unlockedBets gm sock of None \<Rightarrow> [] | Some bs \<Rightarrow> bs) @
              [\<lparr>betType = btype, amount = amt, betId = nextBetId st\<rparr>]) \<and>
         (\<exists>m bs. activeBets (globalRoom (fst res)) = Some m \<and> map_of m sock = Some
            (bs @ [\<lparr>a_id = nextBetId st, a_betType = btype, a_betAmount = amt\<rparr>])) \<and>
         snd res = [ToRoom (RoomUpdated (sanitizeRoomForBroadcast (globalRoom (fst res)))),
                    ToSocket sock (BetPlaced
                      \<lparr>a_id = nextBetId st, a_betType = btype, a_betAmount = amt\<rparr>
                      (p_chips p - amt) False)]"
  shows
    "((fst res = gm \<and> (\<exists>msg. snd res = [ToSocket sock (BetError msg)])) \<or>
      (\<exists>d p g. accepted d p g \<and> placed d p g)) \<and>
     (\<forall>d p g. accepted d p g \<longrightarrow> placed d p g) \<and>
     (\<forall>pid p g. playersTbl st pid = Some p \<and> p_chips p < amt \<longrightarrow>
        placeBet st pid amt btype bvalue g = Inl (Error ''Insufficient chips''))"
proof -
  have storage_part: "\<forall>pid p g. playersTbl st pid = Some p \<and> p_chips p < amt \<longrightarrow>
        placeBet st pid amt btype bvalue g = Inl (Error ''Insufficient chips'')"
    by (simp add: placeBet_def)
  have success: "placed d p g" if acc: "accepted d p g" for d p g
  proof -
    from acc have v: "btype \<in> set validBetTypes" by (simp add: accepted_def validBetTypes_def)
    from acc have eq: "res = (let bid = nextBetId (storage gm);
         room1 = setChips sock (p_chips p - amt) (globalRoom gm);
         m = (case activeBets room1 of None \<Rightarrow> [] | Some m \<Rightarrow> m);
         playerBets = (case map_of m sock of None \<Rightarrow> [] | Some bs \<Rightarrow> bs);
         bet = \<lparr>a_id = bid, a_betType = btype, a_betAmount = amt\<rparr>;
         room2 = room1\<lparr>activeBets := Some (AList.update sock (playerBets @ [bet]) m)\<rparr>
     in (gm\<lparr>globalRoom := room2,
            unlockedBets := (unlockedBets gm)(sock \<mapsto>
              (case unlockedBets gm sock of None \<Rightarrow> [] | Some bs \<Rightarrow> bs) @
                [\<lparr>betType = btype, amount = amt, betId = bid\<rparr>]),
            storage := (storage gm)
              \<lparr>betsTbl := (betsTbl (storage gm))(bid \<mapsto>
                 \<lparr>gameId = g, playerId = d, betAmount = amt, b_betType = btype,
                  betValue = bvalue, won = False, winAmount = 0\<rparr>),
               nextBetId := Suc bid,
               playersTbl := (playersTbl (storage gm))(d \<mapsto> p\<lparr>p_chips := p_chips p - amt\<rparr>)\<rparr>\<rparr>,
         [ToRoom (RoomUpdated (sanitizeRoomForBroadcast room2)),
          ToSocket sock (BetPlaced bet (p_chips p - amt) False)]))"
      unfolding res_def
      by (intro handlePlaceBet_success) (simp_all add: accepted_def room_def st_def v)
    from acc have nn: "0 \<le> p_chips p - amt" by (simp add: accepted_def)
    show ?thesis
      unfolding placed_def eq using nn
      by (simp add: Let_def st_def update_conv')
  qed
  have either: "(fst res = gm \<and> (\<exists>msg. snd res = [ToSocket sock (BetError msg)])) \<or>
      (\<exists>d p g. accepted d p g \<and> placed d p g)"
  proof (cases "\<exists>d p g. accepted d p g")
    case True
    with success show ?thesis by blast
  next
    case False
    then have "\<not> (status (globalRoom gm) = Countdown \<and> 10 < countdownTime (globalRoom gm) \<and>
       btype \<in> set validBetTypes \<and>
       (\<exists>d p g. authId (findPlayer (globalRoom gm) sock) = Some d \<and>
          playersTbl (storage gm) d = Some p \<and> 0 < amt \<and> amt \<le> p_chips p \<and>
          currentGameId (globalRoom gm) = Some g \<and> g \<noteq> 0))"
      by (auto simp: accepted_def room_def st_def validBetTypes_def)
    from handlePlaceBet_reject [OF this, of bvalue] show ?thesis
      by (auto simp: res_def)
  qed
  from either success storage_part show ?thesis by blast
qed

subsection \<open>The example run, evaluated\<close>

lemmas run_defs = newGameManager_def store0_def emptyStorage_def startGame_def createGame_def
  Let_def sanitizeRoomForBroadcast_def joinRoom_def leaveRoom_def handlePlayerAuth_def
  findPlayer_def createOrUpdatePlayerByUserId_def getPlayerByUserId_def handlePlaceBet_def
  authId_def truthy_def getPlayer_def validBetTypes_def placeBet_def setChips_def toString_def
  handleLockBet_def upt_conv_Cons

lemma runAuthed_val:
  "runAuthed =
     \<lparr>globalRoom =
        \<lparr>players = [\<lparr>socketId = ''A'', name = ''ann'', chips = 1000, dbId = Some 1\<rparr>],
         status = Countdown, currentCard = None, countdownTime = 30,
         gameStartTime = Some 1000, currentGameId = Some 1, activeBets = Some [],
         roundNumber = 1,
         houseStats = Some \<lparr>totalWagered = 0, totalPaidOut = 0, houseProfitThisRound = 0,
           houseProfitTotal = 0, roundCount = 0\<rparr>\<rparr>,
      playerRooms = [''A'' \<mapsto> ''GLOBAL''], adminOverrides = Map.empty,
      lockedBets = Map.empty, unlockedBets = Map.empty,
      storage =
        \<lparr>playersTbl = [1 \<mapsto> \<lparr>p_userId = 7, p_socketId = ''A'', p_name = ''ann'',
           p_chips = 1000, totalWins = 0, totalLosses = 0\<rparr>],
         betsTbl = Map.empty,
         gamesTbl = [1 \<mapsto> \<lparr>cardNumber = 0, cardColor = ''red'', totalPlayers = 0,
           g_status = ''in_progress''\<rparr>],
         nextPlayerId = 2, nextBetId = 1, nextGameId = 2\<rparr>\<rparr>"
  by (simp add: runAuthed_def runJoined_def runStarted_def run_defs)

lemma runBet_val:
  "runBet =
     \<lparr>globalRoom =
        \<lparr>players = [\<lparr>socketId = ''A'', name = ''ann'', chips = 950, dbId = Some 1\<rparr>],
         status = Countdown, currentCard = None, countdownTime = 30,
         gameStartTime = Some 1000, currentGameId = Some 1,
         activeBets = Some [(''A'', [\<lparr>a_id = 1, a_betType = ''red'', a_betAmount = 50\<rparr>])],
         roundNumber = 1,
         houseStats = Some \<lparr>totalWagered = 0, totalPaidOut = 0, houseProfitThisRound = 0,
           houseProfitTotal = 0, roundCount = 0\<rparr>\<rparr>,
      playerRooms = [''A'' \<mapsto> ''GLOBAL''], adminOverrides = Map.empty,
      lockedBets = Map.empty,
      unlockedBets = [''A'' \<mapsto> [\<lparr>betType = ''red'', amount = 50, betId = 1\<rparr>]],
      storage =
        \<lparr>playersTbl = [1 \<mapsto> \<lparr>p_userId = 7, p_socketId = ''A'', p_name = ''ann'',
           p_chips = 950, totalWins = 0, totalLosses = 0\<rparr>],
         betsTbl = [1 \<mapsto> \<lparr>gameId = 1, playerId = 1, betAmount = 50, b_betType = ''red'',
           betValue = ''red'', won = False, winAmount = 0\<rparr>],
         gamesTbl = [1 \<mapsto> \<lparr>cardNumber = 0, cardColor = ''red'', totalPlayers = 0,
           g_status = ''in_progress''\<rparr>],
         nextPlayerId = 2, nextBetId = 2, nextGameId = 2\<rparr>\<rparr>"
  by (simp add: runBet_def runAuthed_val handlePlaceBet_def findPlayer_def authId_def truthy_def
      getPlayer_def validBetTypes_def placeBet_def setChips_def Let_def)

lemma runLocked_val:
  "runLocked = runBet
     \<lparr>lockedBets := [1 \<mapsto> [\<lparr>betType = ''red'', amount = 50, betId = 1\<rparr>]],
      unlockedBets := Map.empty\<rparr>"
  by (simp add: runLocked_def runBet_val handleLockBet_def findPlayer_def authId_def truthy_def
      Let_def)

theorem C4_place_bet_witness:
  "status (globalRoom runAuthed) = Countdown \<and> 10 < countdownTime (globalRoom runAuthed) \<and>
   authId (findPlayer (globalRoom runAuthed) ''A'') = Some 1 \<and>
   map_option p_chips (playersTbl (storage runAuthed) 1) = Some 1000 \<and>
   map_option p_chips
     (playersTbl (storage (fst (handlePlaceBet runAuthed ''A'' ''red'' ''red'' 50))) 1) = Some 950 \<and>
   betsTbl (storage (fst (handlePlaceBet runAuthed ''A'' ''red'' ''red'' 50))) 1 =
     Some \<lparr>gameId = 1, playerId = 1, betAmount = 50, b_betType = ''red'', betValue = ''red'',
       won = False, winAmount = 0\<rparr> \<and>
   fst (handlePlaceBet runAuthed ''A'' ''red'' ''red'' 1001) = runAuthed \<and>
   fst (handlePlaceBet runAuthed ''A'' ''green'' ''green'' 50) = runAuthed \<and>
   fst (handlePlaceBet (runAuthed\<lparr>globalRoom := (globalRoom runAuthed)\<lparr>countdownTime := 10\<rparr>\<rparr>)
          ''A'' ''red'' ''red'' 50) =
     runAuthed\<lparr>globalRoom := (globalRoom runAuthed)\<lparr>countdownTime := 10\<rparr>\<rparr>"
proof -
  let ?p = "\<lparr>p_userId = 7, p_socketId = ''A'', p_name = ''ann'', p_chips = 1000,
              totalWins = 0, totalLosses = 0\<rparr>"
  have acc: "status (globalRoom runAuthed) = Countdown \<and> 10 < countdownTime (globalRoom runAuthed) \<and>
      authId (findPlayer (globalRoom runAuthed) ''A'') = Some 1 \<and>
      playersTbl (storage runAuthed) 1 = Some ?p \<and> currentGameId (globalRoom runAuthed) = Some 1"
    by (simp add: runAuthed_val findPlayer_def authId_def truthy_def)
  note ok = C4_place_bet [where gm = runAuthed and sock = "''A''" and btype = "''red''"
      and bvalue = "''red''" and amt = 50, THEN conjunct2, THEN conjunct1, rule_format, of 1 ?p 1]
  note bad1 = C4_place_bet [where gm = runAuthed and sock = "''A''" and btype = "''red''"
      and bvalue = "''red''" and amt = 1001, THEN conjunct1]
  note bad2 = C4_place_bet [where gm = runAuthed and sock = "''A''" and btype = "''green''"
      and bvalue = "''green''" and amt = 50, THEN conjunct1]
  note bad3 = C4_place_bet
    [where gm = "runAuthed\<lparr>globalRoom := (globalRoom runAuthed)\<lparr>countdownTime := 10\<rparr>\<rparr>"
      and sock = "''A''" and btype = "''red''" and bvalue = "''red''" and amt = 50,
      THEN conjunct1]
  from acc ok have placed:
    "map_option p_chips
       (playersTbl (storage (fst (handlePlaceBet runAuthed ''A'' ''red'' ''red'' 50))) 1) = Some 950 \<and>
     betsTbl (storage (fst (handlePlaceBet runAuthed ''A'' ''red'' ''red'' 50))) 1 =
       Some \<lparr>gameId = 1, playerId = 1, betAmount = 50, b_betType = ''red'', betValue = ''red'',
         won = False, winAmount = 0\<rparr>"
    by (simp add: runAuthed_val)
  from acc bad1 have r1: "fst (handlePlaceBet runAuthed ''A'' ''red'' ''red'' 1001) = runAuthed"
    by auto
  from acc bad2 have r2: "fst (handlePlaceBet runAuthed ''A'' ''green'' ''green'' 50) = runAuthed"
    by auto
  from bad3 have r3:
    "fst (handlePlaceBet (runAuthed\<lparr>globalRoom := (globalRoom runAuthed)\<lparr>countdownTime := 10\<rparr>\<rparr>)
          ''A'' ''red'' ''red'' 50) =
     runAuthed\<lparr>globalRoom := (globalRoom runAuthed)\<lparr>countdownTime := 10\<rparr>\<rparr>"
    by auto
  from acc placed r1 r2 r3 show ?thesis by simp
qed

theorem C7_lock_bet_witness:
  "authId (findPlayer (globalRoom runBet) ''A'') = Some 1 \<and> lockedBets runBet 1 = None \<and>
   status (globalRoom runBet) = Countdown \<and> 10 < countdownTime (globalRoom runBet) \<and>
   unlockedBets runBet ''A'' = Some [\<lparr>betType = ''red'', amount = 50, betId = 1\<rparr>] \<and>
   lockedBets (fst (handleLockBet runBet ''A'')) 1 =
     Some [\<lparr>betType = ''red'', amount = 50, betId = 1\<rparr>] \<and>
   unlockedBets (fst (handleLockBet runBet ''A'')) ''A'' = None \<and>
   lockedBets runLocked 1 \<noteq> None \<and>
   (\<exists>msg. handleLockBet runLocked ''A'' = (runLocked, [ToSocket ''A'' (BetError msg)]))"
proof -
  have pre: "authId (findPlayer (globalRoom runBet) ''A'') = Some 1 \<and> lockedBets runBet 1 = None \<and>
     status (globalRoom runBet) = Countdown \<and> 10 < countdownTime (globalRoom runBet) \<and>
     unlockedBets runBet ''A'' = Some [\<lparr>betType = ''red'', amount = 50, betId = 1\<rparr>]"
    by (simp add: runBet_val findPlayer_def authId_def truthy_def)
  note moved = C7_lock_bet [of runBet "''A''", THEN conjunct2, rule_format,
      of 1 "[\<lparr>betType = ''red'', amount = 50, betId = 1\<rparr>]"]
  from pre moved have m: "lockedBets (fst (handleLockBet runBet ''A'')) 1 =
       Some [\<lparr>betType = ''red'', amount = 50, betId = 1\<rparr>] \<and>
     unlockedBets (fst (handleLockBet runBet ''A'')) ''A'' = None"
    by simp
  have pre2: "authId (findPlayer (globalRoom runLocked) ''A'') = Some 1 \<and>
      lockedBets runLocked 1 \<noteq> None"
    by (simp add: runLocked_val runBet_val findPlayer_def authId_def truthy_def)
  note rej = C7_lock_bet [of runLocked "''A''", THEN conjunct1]
  from pre2 rej have r: "\<exists>msg. handleLockBet runLocked ''A'' = (runLocked, [ToSocket ''A'' (BetError msg)])"
    by blast
  from pre m pre2 r show ?thesis by simp
qed

subsection \<open>Reveal\<close>

lemma updateHouseStats_keeps:
  "status (updateHouseStats room a b) = status room \<and>
   currentCard (updateHouseStats room a b) = currentCard room \<and>
   currentGameId (updateHouseStats room a b) = currentGameId room \<and>
   countdownTime (updateHouseStats room a b) = countdownTime room \<and>
   activeBets (updateHouseStats room a b) = activeBets room \<and>
   players (updateHouseStats room a b) = players room"
  by (simp add: updateHouseStats_def Let_def split: option.splits)

lemma resolveBets_keeps:
  "status (globalRoom (resolveBets gm)) = status (globalRoom gm) \<and>
   currentCard (globalRoom (resolveBets gm)) = currentCard (globalRoom gm) \<and>
   currentGameId (globalRoom (resolveBets gm)) = currentGameId (globalRoom gm) \<and>
   countdownTime (globalRoom (resolveBets gm)) = countdownTime (globalRoom gm)"
  by (simp add: resolveBets_def Let_def updateHouseStats_keeps split: option.splits)

lemma resolveBets_clears:
  assumes "activeBets (globalRoom gm) \<noteq> None" "currentCard (globalRoom gm) \<noteq> None"
    "truthy (currentGameId (globalRoom gm))" "houseStats (globalRoom gm) \<noteq> None"
  shows "activeBets (globalRoom (resolveBets gm)) = Some [] \<and> lockedBets (resolveBets gm) = Map.empty"
  using assms by (auto simp: resolveBets_def Let_def)

lemma revealCard_no_card:
  "currentCard (globalRoom gm) = None \<Longrightarrow> revealCard gm r1 r2 = Inr (gm, [])"
  by (simp add: revealCard_def)

lemma revealCard_with_card:
  assumes "currentCard (globalRoom gm) = Some c"
  shows "\<exists>gm' c'. revealCard gm r1 r2 =
            Inr (gm', [ToRoom (CardRevealed (Some c') (globalRoom gm'))]) \<and>
          status (globalRoom gm') = Playing \<and> currentCard (globalRoom gm') = Some c' \<and>
          revealed c' \<and>
          (activeBets (globalRoom gm) \<noteq> None \<and> truthy (currentGameId (globalRoom gm)) \<and>
           houseStats (globalRoom gm) \<noteq> None \<longrightarrow>
             activeBets (globalRoom gm') = Some [] \<and> lockedBets gm' = Map.empty) \<and>
          (number c' = number c \<or>
           (\<exists>g ov c1. currentGameId (globalRoom gm) = Some g \<and> adminOverrides gm g = Some ov \<and>
              generateCardForResult ov r1 r2 = Inr c1 \<and> number c' = number c1))"
proof -
  define ov where "ov =
    (case currentGameId (globalRoom gm) of
       None \<Rightarrow> Inr gm
     | Some g \<Rightarrow>
        (if g = 0 then Inr gm
         else
           (case adminOverrides gm g of
              None \<Rightarrow> Inr gm
            | Some overrideResult \<Rightarrow>
               (case generateCardForResult overrideResult r1 r2 of
                  Inl e \<Rightarrow> Inl e
                | Inr c \<Rightarrow>
                    Inr (gm\<lparr>globalRoom := (globalRoom gm)\<lparr>currentCard := Some c\<rparr>,
                            adminOverrides := (adminOverrides gm)(g := None)\<rparr>)))))"
  have ov_ok: "\<exists>gm1 c1. ov = Inr gm1 \<and> currentCard (globalRoom gm1) = Some c1 \<and>
      activeBets (globalRoom gm1) = activeBets (globalRoom gm) \<and>
      currentGameId (globalRoom gm1) = currentGameId (globalRoom gm) \<and>
      houseStats (globalRoom gm1) = houseStats (globalRoom gm) \<and>
      (c1 = c \<or>
       (\<exists>g ov'. currentGameId (globalRoom gm) = Some g \<and> adminOverrides gm g = Some ov' \<and>
          generateCardForResult ov' r1 r2 = Inr c1))"
  proof (cases "currentGameId (globalRoom gm)")
    case None
    with assms show ?thesis by (simp add: ov_def)
  next
    case (Some g)
    show ?thesis
    proof (cases "g = 0 \<or> adminOverrides gm g = None")
      case True
      with Some assms show ?thesis by (auto simp: ov_def)
    next
      case False
      then obtain r where r: "adminOverrides gm g = Some r" and g: "g \<noteq> 0" by auto
      from generateCardForResult_ok [of r r1 r2] obtain c2 where
        "generateCardForResult r r1 r2 = Inr c2" by blast
      with Some r g show ?thesis by (simp add: ov_def)
    qed
  qed
  then obtain gm1 c1 where gm1: "ov = Inr gm1" and c1: "currentCard (globalRoom gm1) = Some c1"
    and same: "activeBets (globalRoom gm1) = activeBets (globalRoom gm)"
      "currentGameId (globalRoom gm1) = currentGameId (globalRoom gm)"
      "houseStats (globalRoom gm1) = houseStats (globalRoom gm)"
    and src: "c1 = c \<or>
       (\<exists>g ov'. currentGameId (globalRoom gm) = Some g \<and> adminOverrides gm g = Some ov' \<and>
          generateCardForResult ov' r1 r2 = Inr c1)" by blast
  define room2 where "room2 = (globalRoom gm1)\<lparr>status := Playing,
     currentCard := map_option (\<lambda>c. c\<lparr>revealed := True\<rparr>) (currentCard (globalRoom gm1))\<rparr>"
  define gm2 where "gm2 = resolveBets (gm1\<lparr>globalRoom := room2\<rparr>)"
  have keeps: "status (globalRoom gm2) = Playing \<and>
      currentCard (globalRoom gm2) = Some (c1\<lparr>revealed := True\<rparr>)"
    using resolveBets_keeps [of "gm1\<lparr>globalRoom := room2\<rparr>"] c1
    by (simp add: gm2_def room2_def)
  have clears: "activeBets (globalRoom gm) \<noteq> None \<and> truthy (currentGameId (globalRoom gm)) \<and>
           houseStats (globalRoom gm) \<noteq> None \<longrightarrow>
             activeBets (globalRoom gm2) = Some [] \<and> lockedBets gm2 = Map.empty"
    using resolveBets_clears [of "gm1\<lparr>globalRoom := room2\<rparr>"] c1 same
    by (simp add: gm2_def room2_def)
  have "revealCard gm r1 r2 = (case ov of Inl e \<Rightarrow> Inl e | Inr gm1 \<Rightarrow>
     (let room1 = globalRoom gm1;
          room2 = room1\<lparr>status := Playing,
            currentCard := map_option (\<lambda>c. c\<lparr>revealed := True\<rparr>) (currentCard room1)\<rparr>;
          gm2 = resolveBets (gm1\<lparr>globalRoom := room2\<rparr>);
          room3 = globalRoom gm2;
          st' =
            (case currentGameId room3 of
               None \<Rightarrow> storage gm2
             | Some g \<Rightarrow>
                (case currentCard room3 of
                   None \<Rightarrow> storage gm2
                 | Some c \<Rightarrow>
                    (if g = 0 then storage gm2
                     else markGameCompleted
                            (updateGameCard (storage gm2) g (number c)
                               (colorName (color c))) g)))
      in Inr (gm2\<lparr>storage := st'\<rparr>,
              [ToRoom (CardRevealed (currentCard room3) room3)])))"
    using assms by (simp add: revealCard_def ov_def Let_def)
  then obtain st' where "revealCard gm r1 r2 =
      Inr (gm2\<lparr>storage := st'\<rparr>,
           [ToRoom (CardRevealed (currentCard (globalRoom gm2)) (globalRoom gm2))])"
    by (simp add: gm1 Let_def gm2_def room2_def)
  moreover have "number (c1\<lparr>revealed := True\<rparr>) = number c \<or>
           (\<exists>g ov c2. currentGameId (globalRoom gm) = Some g \<and> adminOverrides gm g = Some ov \<and>
              generateCardForResult ov r1 r2 = Inr c2 \<and>
              number (c1\<lparr>revealed := True\<rparr>) = number c2)"
    using src by auto
  ultimately show ?thesis using keeps clears by auto
qed

lemma countdownTick_materializes:
  assumes "countdownTime (globalRoom gm) = 11" "currentCard (globalRoom gm) = None"
  shows "\<exists>gm' c. countdownTick sha gm r1 r2 r3 r4 =
           Inr (gm', [ToRoom (CountdownTick 10 (sanitizeRoomForBroadcast (globalRoom gm')))]) \<and>
         globalRoom gm' = (globalRoom gm)\<lparr>countdownTime := 10, currentCard := Some c\<rparr> \<and>
         number c \<noteq> 7 \<and> \<not> revealed c"
proof -
  let ?room1 = "(globalRoom gm)\<lparr>countdownTime := countdownTime (globalRoom gm) - 1\<rparr>"
  from generateSmartCard_ok [of sha ?room1 r1 r2] obtain c where
    c: "generateSmartCard sha ?room1 r1 r2 = Inr c" "number c \<noteq> 7" "\<not> revealed c" by blast
  with assms show ?thesis
    by (auto simp: countdownTick_def Let_def)
qed

subsection \<open>What the clients are sent\<close>

lemma sanitize_card:
  "currentCard (sanitizeRoomForBroadcast room) =
     (if status room = Playing \<and> cardRevealed (currentCard room) then currentCard room else None)"
  by (simp add: sanitizeRoomForBroadcast_def)

lemma sanitize_status: "status (sanitizeRoomForBroadcast room) = status room"
  by (simp add: sanitizeRoomForBroadcast_def)

lemma quiet_simps:
  "quiet (ToRoom (RoomUpdated (sanitizeRoomForBroadcast r)))"
  "quiet (ToRoom (GameStarting (sanitizeRoomForBroadcast r) t))"
  "quiet (ToSocket sock (GameStarting (sanitizeRoomForBroadcast r) t))"
  "quiet (ToRoom (CountdownTick t (sanitizeRoomForBroadcast r)))"
  "quiet (ToRoom (RoundEnded (sanitizeRoomForBroadcast r)))"
  "quiet (ToSocket sock (BetError msg))"
  "quiet (ToSocket sock (BetPlaced b c l))"
  "quiet (ToSocket sock (BetsLocked bs c))"
  "quiet (ToSocket sock (BetsCancelled n c))"
  "quiet (ToSocket sock (LockedBetsCancelled n c))"
  "quiet (ToSocket sock (GameState s t k' (sanitizeRoomForBroadcast r))) =
     (status r = Countdown \<longrightarrow> k' = None)"
  "status r = Playing \<Longrightarrow> quiet (ToRoom (CardRevealed k r))"
  by (auto simp: quiet_def hidesOutcome_def sanitizedPayload_def sanitize_card sanitize_status)

lemma leaveRoom_quiet: "\<forall>em \<in> set (snd (leaveRoom gm sock)). quiet em"
  by (simp add: leaveRoom_def Let_def quiet_simps split: option.splits)

lemma joinRoom_quiet: "\<forall>em \<in> set (snd (joinRoom gm sock)). quiet em"
  using leaveRoom_quiet [of gm sock]
  by (auto simp: joinRoom_def Let_def quiet_simps)

lemma handlePlayerAuth_quiet: "\<forall>em \<in> set (snd (handlePlayerAuth gm sock uid nm)). quiet em"
  by (simp add: handlePlayerAuth_def Let_def quiet_simps split: option.splits)

lemma handlePlaceBet_quiet: "\<forall>em \<in> set (snd (handlePlaceBet gm sock bt bv amt)). quiet em"
  by (simp add: handlePlaceBet_def Let_def quiet_simps split: option.splits sum.splits)

lemma handleLockBet_quiet: "\<forall>em \<in> set (snd (handleLockBet gm sock)). quiet em"
  by (simp add: handleLockBet_def Let_def quiet_simps split: option.splits)

lemma handleCancelLockedBets_quiet: "\<forall>em \<in> set (snd (handleCancelLockedBets gm sock)). quiet em"
  by (simp add: handleCancelLockedBets_def Let_def quiet_simps split: option.splits sum.splits)

lemma handleCancelBet_quiet: "\<forall>em \<in> set (snd (handleCancelBet gm sock cl)). quiet em"
  using handleCancelLockedBets_quiet [of gm sock]
  by (simp add: handleCancelBet_def Let_def quiet_simps split: option.splits sum.splits)

lemma startGame_quiet: "\<forall>em \<in> set (snd (startGame gm now)). quiet em"
  by (simp add: startGame_def Let_def quiet_simps)

lemma startNextRound_quiet: "\<forall>em \<in> set (snd (startNextRound gm now)). quiet em"
  using startGame_quiet
  by (simp add: startNextRound_def Let_def quiet_simps)

lemma revealCard_quiet:
  assumes "revealCard gm r1 r2 = Inr res"
  shows "\<forall>em \<in> set (snd res). quiet em"
proof (cases "currentCard (globalRoom gm)")
  case None
  with assms revealCard_no_card [of gm r1 r2] show ?thesis by auto
next
  case (Some c)
  from revealCard_with_card [OF Some, of r1 r2] assms show ?thesis
    by (auto simp: quiet_simps)
qed

lemma countdownTick_quiet:
  assumes "countdownTick sha gm r1 r2 r3 r4 = Inr res"
  shows "\<forall>em \<in> set (snd res). quiet em"
  using assms revealCard_quiet
  by (auto simp: countdownTick_def Let_def quiet_simps split: sum.splits if_splits)

lemma dispatch_quiet:
  assumes "dispatch sha i gm = Inr res"
  shows "\<forall>em \<in> set (snd res). quiet em"
proof (cases i)
  case (Tick r1 r2 r3 r4)
  with assms countdownTick_quiet show ?thesis by (simp add: dispatch_def)
qed (use assms leaveRoom_quiet joinRoom_quiet handlePlayerAuth_quiet handlePlaceBet_quiet
      handleLockBet_quiet handleCancelBet_quiet startGame_quiet startNextRound_quiet
     in \<open>auto simp: dispatch_def\<close>)


lemma runTicks_noReveal:
  "currentCard (globalRoom gm) = None \<Longrightarrow> int n < countdownTime (globalRoom gm) - 10 \<Longrightarrow>
   runTicks n gm = Inr (gm\<lparr>globalRoom := (globalRoom gm)
      \<lparr>countdownTime := countdownTime (globalRoom gm) - int n\<rparr>\<rparr>)"
proof (induction n arbitrary: gm)
  case 0
  then show ?case by simp
next
  case (Suc n)
  let ?gm1 = "gm\<lparr>globalRoom := (globalRoom gm)\<lparr>countdownTime := countdownTime (globalRoom gm) - 1\<rparr>\<rparr>"
  from Suc.prems have "countdownTick (\<lambda>s. 0) gm 0 0 0 0 =
      Inr (?gm1, [ToRoom (CountdownTick (countdownTime (globalRoom gm) - 1)
              (sanitizeRoomForBroadcast (globalRoom ?gm1)))])"
    by (simp add: countdownTick_def Let_def)
  moreover have "runTicks n ?gm1 = Inr (?gm1\<lparr>globalRoom := (globalRoom ?gm1)
      \<lparr>countdownTime := countdownTime (globalRoom ?gm1) - int n\<rparr>\<rparr>)"
    using Suc.prems by (intro Suc.IH) simp_all
  ultimately show ?case by (simp add: algebra_simps)
qed

lemma runAt11_val:
  "runAt11 = runBet\<lparr>globalRoom := (globalRoom runBet)\<lparr>countdownTime := 11\<rparr>\<rparr>"
  using runTicks_noReveal [of runBet 19]
  by (simp add: runAt11_def afterTicks_def runBet_val)

lemma runTicks_add:
  "runTicks (m + n) gm = (case runTicks m gm of Inl e \<Rightarrow> Inl e | Inr gm' \<Rightarrow> runTicks n gm')"
  by (induction m arbitrary: gm) (simp_all split: sum.splits)

lemma runTicks_withCard:
  "currentCard (globalRoom gm) \<noteq> None \<Longrightarrow> int n < countdownTime (globalRoom gm) \<Longrightarrow>
   runTicks n gm = Inr (gm\<lparr>globalRoom := (globalRoom gm)
      \<lparr>countdownTime := countdownTime (globalRoom gm) - int n\<rparr>\<rparr>)"
proof (induction n arbitrary: gm)
  case 0
  then show ?case by simp
next
  case (Suc n)
  let ?gm1 = "gm\<lparr>globalRoom := (globalRoom gm)\<lparr>countdownTime := countdownTime (globalRoom gm) - 1\<rparr>\<rparr>"
  from Suc.prems have "countdownTick (\<lambda>s. 0) gm 0 0 0 0 =
      Inr (?gm1, [ToRoom (CountdownTick (countdownTime (globalRoom gm) - 1)
              (sanitizeRoomForBroadcast (globalRoom ?gm1)))])"
    by (auto simp: countdownTick_def Let_def)
  moreover have "runTicks n ?gm1 = Inr (?gm1\<lparr>globalRoom := (globalRoom ?gm1)
      \<lparr>countdownTime := countdownTime (globalRoom ?gm1) - int n\<rparr>\<rparr>)"
    using Suc.prems by (intro Suc.IH) simp_all
  ultimately show ?case by (simp add: algebra_simps)
qed

lemmas card_defs = generateSmartCard_def betTotals_def addBet_def noBets_def totalBets_def
  selectedOutcome_def minPayoutOutcomes_def minPayout_def outcomes_def at_def randomInt_def

lemma runClosed_val:
  "runClosed = runBet\<lparr>globalRoom := (globalRoom runBet)
     \<lparr>countdownTime := 10,
      currentCard := Some \<lparr>number = 1, suit = Spades, color = Black, revealed = False\<rparr>\<rparr>\<rparr>"
  (is "_ = ?closed")
proof -
  have a: "runTicks 19 runBet = Inr runAt11"
    using runTicks_noReveal [of runBet 19] by (simp add: runAt11_val runBet_val)
  have b: "countdownTick (\<lambda>s. 0) runAt11 0 0 0 0 =
      Inr (?closed, [ToRoom (CountdownTick 10 (sanitizeRoomForBroadcast (globalRoom ?closed)))])"
    by (simp add: runAt11_val runBet_val countdownTick_def Let_def card_defs)
  have "runTicks (19 + 1) runBet = Inr ?closed"
    unfolding runTicks_add a using b by simp
  then show ?thesis by (simp add: runClosed_def afterTicks_def)
qed

lemmas settle_defs = revealCard_def resolveBets_def truthy_def settlement_def flatten_def
  resolveStep_def settleBet_def isBetWinner_def calculateWinAmount_def payoutMultipliers_def
  roundToCents_def resolveBet_def int4_def updateHouseStats_def updateGameCard_def
  markGameCompleted_def colorName_def sanitizeRoomForBroadcast_def cardRevealed_def

lemma runRevealed_val:
  "runRevealed = runBet
     \<lparr>globalRoom := (globalRoom runBet)
        \<lparr>status := Playing,
         currentCard := Some \<lparr>number = 1, suit = Spades, color = Black, revealed = True\<rparr>,
         countdownTime := 0, activeBets := Some [],
         houseStats := Some \<lparr>totalWagered = 50, totalPaidOut = 0, houseProfitThisRound = 50,
           houseProfitTotal = 50, roundCount = 1\<rparr>\<rparr>,
      storage := (storage runBet)
        \<lparr>playersTbl := [1 \<mapsto> \<lparr>p_userId = 7, p_socketId = ''A'', p_name = ''ann'',
           p_chips = 950, totalWins = 0, totalLosses = 1\<rparr>],
         gamesTbl := [1 \<mapsto> \<lparr>cardNumber = 1, cardColor = ''black'', totalPlayers = 0,
           g_status = ''completed''\<rparr>]\<rparr>\<rparr>"
  (is "_ = ?revealed")
proof -
  let ?at1 = "runClosed\<lparr>globalRoom := (globalRoom runClosed)\<lparr>countdownTime := 1\<rparr>\<rparr>"
  have a: "runTicks 19 runBet = Inr runAt11"
    using runTicks_noReveal [of runBet 19] by (simp add: runAt11_val runBet_val)
  have b: "runTicks 1 runAt11 = Inr runClosed"
    by (simp add: runClosed_val runAt11_val runBet_val countdownTick_def Let_def card_defs)
  have c: "runTicks 9 runClosed = Inr ?at1"
    using runTicks_withCard [of runClosed 9] by (simp add: runClosed_val runBet_val)
  have d: "runTicks 1 ?at1 = Inr ?revealed"
    by (simp add: runClosed_val runBet_val countdownTick_def Let_def settle_defs)
  have "runTicks (19 + (1 + (9 + 1))) runBet = Inr ?revealed"
    unfolding runTicks_add a using b c d by simp
  then show ?thesis by (simp add: runRevealed_def afterTicks_def)
qed

text \<open>
  Claim C6. \<open>sanitizeRoomForBroadcast\<close> returns the card only when the status is playing
  and the card is marked revealed, and no card otherwise. Every emission of every handler
  and timer callback hides the outcome: it carries no card at all, or the room in its
  payload is not in countdown; and the room of every \<open>room-updated\<close>, \<open>game-starting\<close> and
  \<open>countdown-tick\<close> emission is a sanitized one. In particular the tick from 11 to 10
  seconds stores a generated card and emits a room without it.
\<close>

theorem C6_no_card_during_countdown:
  "currentCard (sanitizeRoomForBroadcast room) =
     (if status room = Playing \<and> cardRevealed (currentCard room) then currentCard room else None) \<and>
   (\<forall>res. dispatch sha i gm = Inr res \<longrightarrow>
      (\<forall>em \<in> set (snd res). hidesOutcome em \<and> sanitizedPayload em)) \<and>
   (countdownTime (globalRoom gm) = 11 \<and> currentCard (globalRoom gm) = None \<longrightarrow>
      (\<exists>gm' c. dispatch sha (Tick r1 r2 r3 r4) gm =
           Inr (gm', [ToRoom (CountdownTick 10 (sanitizeRoomForBroadcast (globalRoom gm')))]) \<and>
         currentCard (globalRoom gm') = Some c \<and>
         (status (globalRoom gm) = Countdown \<longrightarrow>
            currentCard (sanitizeRoomForBroadcast (globalRoom gm')) = None)))"
proof -
  have a: "currentCard (sanitizeRoomForBroadcast room) =
     (if status room = Playing \<and> cardRevealed (currentCard room) then currentCard room else None)"
    by (rule sanitize_card)
  have b: "\<forall>res. dispatch sha i gm = Inr res \<longrightarrow>
      (\<forall>em \<in> set (snd res). hidesOutcome em \<and> sanitizedPayload em)"
    using dispatch_quiet [of sha i gm] by (simp add: quiet_def)
  have c: "\<exists>gm' c. dispatch sha (Tick r1 r2 r3 r4) gm =
           Inr (gm', [ToRoom (CountdownTick 10 (sanitizeRoomForBroadcast (globalRoom gm')))]) \<and>
         currentCard (globalRoom gm') = Some c \<and>
         (status (globalRoom gm) = Countdown \<longrightarrow>
            currentCard (sanitizeRoomForBroadcast (globalRoom gm')) = None)"
    if h: "countdownTime (globalRoom gm) = 11" "currentCard (globalRoom gm) = None"
  proof -
    from countdownTick_materializes [OF h, of sha r1 r2 r3 r4] obtain gm' c where
      t: "countdownTick sha gm r1 r2 r3 r4 =
           Inr (gm', [ToRoom (CountdownTick 10 (sanitizeRoomForBroadcast (globalRoom gm')))])"
      and g: "globalRoom gm' = (globalRoom gm)\<lparr>countdownTime := 10, currentCard := Some c\<rparr>"
      by blast
    from g have "currentCard (globalRoom gm') = Some c"
      "status (globalRoom gm) = Countdown \<longrightarrow>
         currentCard (sanitizeRoomForBroadcast (globalRoom gm')) = None"
      by (simp_all add: sanitize_card)
    with t show ?thesis by (auto simp: dispatch_def)
  qed
  from a b c show ?thesis by blast
qed

theorem C6_no_card_during_countdown_witness:
  "countdownTime (globalRoom runAt11) = 11 \<and> currentCard (globalRoom runAt11) = None \<and>
   status (globalRoom runAt11) = Countdown \<and>
   (\<exists>gm' c. dispatch (\<lambda>s. 0) (Tick 0 0 0 0) runAt11 =
           Inr (gm', [ToRoom (CountdownTick 10 (sanitizeRoomForBroadcast (globalRoom gm')))]) \<and>
         currentCard (globalRoom gm') = Some c \<and>
         currentCard (sanitizeRoomForBroadcast (globalRoom gm')) = None) \<and>
   status (globalRoom runClosed) = Countdown \<and> currentCard (globalRoom runClosed) \<noteq> None \<and>
   list_all hidesOutcome (snd (joinRoom runClosed ''B'')) \<and>
   list_all sanitizedPayload (snd (joinRoom runClosed ''B'')) \<and>
   length (snd (joinRoom runClosed ''B'')) = 3"
proof -
  have pre: "countdownTime (globalRoom runAt11) = 11 \<and> currentCard (globalRoom runAt11) = None \<and>
     status (globalRoom runAt11) = Countdown"
    by (simp add: runAt11_val runBet_val)
  from pre C6_no_card_during_countdown [where gm = runAt11 and sha = "\<lambda>s. 0" and ?r1.0 = 0
      and ?r2.0 = 0 and ?r3.0 = 0 and ?r4.0 = 0]
  have t: "\<exists>gm' c. dispatch (\<lambda>s. 0) (Tick 0 0 0 0) runAt11 =
           Inr (gm', [ToRoom (CountdownTick 10 (sanitizeRoomForBroadcast (globalRoom gm')))]) \<and>
         currentCard (globalRoom gm') = Some c \<and>
         currentCard (sanitizeRoomForBroadcast (globalRoom gm')) = None"
    by blast
  have cl: "status (globalRoom runClosed) = Countdown \<and> currentCard (globalRoom runClosed) \<noteq> None"
    by (simp add: runClosed_val runBet_val)
  have d: "dispatch (\<lambda>s. 0) (Join ''B'') runClosed = Inr (joinRoom runClosed ''B'')"
    by (simp add: dispatch_def)
  from C6_no_card_during_countdown [where gm = runClosed and sha = "\<lambda>s. 0" and i = "Join ''B''"] d
  have j: "list_all hidesOutcome (snd (joinRoom runClosed ''B'')) \<and>
           list_all sanitizedPayload (snd (joinRoom runClosed ''B''))"
    by (simp add: list_all_iff)
  have n: "length (snd (joinRoom runClosed ''B'')) = 3"
    by (simp add: joinRoom_def leaveRoom_def Let_def runClosed_val runBet_val)
  from pre t cl j n show ?thesis by blast
qed

subsection \<open>Settlement\<close>

lemma settleBet_processed: "processedBetIds (settleBet c e acc) = processedBetIds acc"
  by (simp add: settleBet_def Let_def split: sum.splits option.splits)

lemma fold_resolveStep:
  "fold (resolveStep c) es acc = fold (settleOnce c) (firstOccurrences (processedBetIds acc) es) acc"
proof (induction es arbitrary: acc)
  case Nil
  then show ?case by simp
next
  case (Cons e es)
  show ?case
  proof (cases "a_id (snd e) \<in> set (processedBetIds acc)")
    case True
    with Cons show ?thesis by (simp add: resolveStep_def)
  next
    case False
    have "processedBetIds (settleOnce c e acc) = processedBetIds acc @ [a_id (snd e)]"
      by (simp add: settleOnce_def settleBet_processed)
    with False Cons [of "settleOnce c e acc"] show ?thesis
      by (simp add: resolveStep_def settleOnce_def)
  qed
qed

lemma firstOccurrences_ids:
  "distinct (map (\<lambda>e. a_id (snd e)) (firstOccurrences seen es)) \<and>
   set (map (\<lambda>e. a_id (snd e)) (firstOccurrences seen es)) =
     set (map (\<lambda>e. a_id (snd e)) es) - set seen"
  by (induction es arbitrary: seen) auto

lemma firstOccurrences_subset: "set (firstOccurrences seen es) \<subseteq> set es"
  by (induction es arbitrary: seen) auto

lemma fold_settleOnce_processed:
  "processedBetIds (fold (settleOnce c) es acc) = processedBetIds acc @ map (\<lambda>e. a_id (snd e)) es"
  by (induction es arbitrary: acc) (simp_all add: settleOnce_def settleBet_processed)

text \<open>What one call of \<open>resolveBet\<close> does: it throws and writes nothing, or it writes the
  bet row and, where the owner has an account row, settles the bet on it.\<close>

lemma credit_nonneg: "0 \<le> credit c bet"
  by (simp add: credit_def Let_def)

lemma settledWith_Nil [simp]: "settledWith c [] p = p"
  by (simp add: settledWith_def)

lemma settledWith_Cons: "settledWith c (e # es) p = settledWith c es (settledWith c [e] p)"
  by (simp add: settledWith_def)

lemma resolveBet_cases:
  fixes c :: Card and bet :: ActiveBet
  defines "w \<equiv> isBetWinner bet c"
  defines "wamt \<equiv> (if isBetWinner bet c then calculateWinAmount bet else 0)"
  shows "(\<exists>e. resolveBet st bid w wamt = Inl e) \<or>
    (\<exists>row. betsTbl st bid = Some row \<and> playersTbl st (playerId row) = None \<and>
       resolveBet st bid w wamt =
         Inr (None, st\<lparr>betsTbl := (betsTbl st)(bid \<mapsto> row\<lparr>won := w, winAmount := wamt\<rparr>)\<rparr>)) \<or>
    (\<exists>row p. betsTbl st bid = Some row \<and> playersTbl st (playerId row) = Some p \<and>
       resolveBet st bid w wamt =
         Inr (Some (playerId row, settledWith c [(sid, bet)] p),
              st\<lparr>betsTbl := (betsTbl st)(bid \<mapsto> row\<lparr>won := w, winAmount := wamt\<rparr>),
                 playersTbl := (playersTbl st)(playerId row \<mapsto> settledWith c [(sid, bet)] p)\<rparr>))"
proof (cases "resolveBet st bid w wamt")
  case (Inl e)
  then show ?thesis by blast
next
  case (Inr res)
  then obtain row where row: "betsTbl st bid = Some row"
    by (auto simp: resolveBet_def split: if_splits option.splits)
  show ?thesis
  proof (cases "playersTbl st (playerId row)")
    case None
    with Inr row show ?thesis by (auto simp: resolveBet_def Let_def split: if_splits)
  next
    case (Some p)
    have cr: "credit c bet = (if w \<and> 0 < wamt then wamt else 0)"
      by (simp add: credit_def Let_def w_def wamt_def)
    have sw: "settledWith c [(sid, bet)] p =
        (if w \<and> 0 < wamt then p\<lparr>p_chips := p_chips p + wamt, totalWins := totalWins p + 1\<rparr>
         else p\<lparr>totalLosses := totalLosses p + 1\<rparr>)"
      by (simp add: settledWith_def cr)
    from Inr row Some show ?thesis
      by (auto simp: resolveBet_def Let_def sw split: if_splits)
  qed
qed

lemma settleOnce_s_storage:
  "s_storage (settleOnce c e acc) =
     (case resolveBet (s_storage acc) (a_id (snd e)) (isBetWinner (snd e) c)
             (if isBetWinner (snd e) c then calculateWinAmount (snd e) else 0) of
        Inl x \<Rightarrow> s_storage acc
      | Inr res \<Rightarrow> snd res)"
  by (simp add: settleOnce_def settleBet_def Let_def split: sum.splits option.splits)

lemma settleOnce_step:
  fixes acc :: Settlement and c :: Card and e :: "string \<times> ActiveBet"
  defines "st \<equiv> s_storage acc"
  defines "st1 \<equiv> s_storage (settleOnce c e acc)"
  shows "(\<forall>bid. owner st1 bid = owner st bid) \<and>
    (\<forall>q. playersTbl st1 q = playersTbl st q \<or>
       (owner st (a_id (snd e)) = Some q \<and>
        (\<exists>p. playersTbl st q = Some p \<and> playersTbl st1 q = Some (settledWith c [e] p))))"
proof -
  let ?w = "isBetWinner (snd e) c"
  let ?wamt = "if isBetWinner (snd e) c then calculateWinAmount (snd e) else 0"
  let ?bid = "a_id (snd e)"
  have e: "(fst e, snd e) = e" by simp
  from resolveBet_cases [of st ?bid "snd e" c "fst e"]
  consider (thrown) x where "resolveBet st ?bid ?w ?wamt = Inl x"
    | (orphan) row where "betsTbl st ?bid = Some row"
        "resolveBet st ?bid ?w ?wamt =
           Inr (None, st\<lparr>betsTbl := (betsTbl st)(?bid \<mapsto> row\<lparr>won := ?w, winAmount := ?wamt\<rparr>)\<rparr>)"
    | (settled) row p where "betsTbl st ?bid = Some row" "playersTbl st (playerId row) = Some p"
        "resolveBet st ?bid ?w ?wamt =
           Inr (Some (playerId row, settledWith c [e] p),
                st\<lparr>betsTbl := (betsTbl st)(?bid \<mapsto> row\<lparr>won := ?w, winAmount := ?wamt\<rparr>),
                   playersTbl := (playersTbl st)(playerId row \<mapsto> settledWith c [e] p)\<rparr>)"
    unfolding e by blast
  then show ?thesis
  proof cases
    case thrown
    then have "st1 = st" by (simp add: st1_def st_def settleOnce_s_storage)
    then show ?thesis by simp
  next
    case orphan
    then have "st1 = st\<lparr>betsTbl := (betsTbl st)(?bid \<mapsto> row\<lparr>won := ?w, winAmount := ?wamt\<rparr>)\<rparr>"
      by (simp add: st1_def st_def settleOnce_s_storage)
    with orphan(1) show ?thesis by (simp add: owner_def)
  next
    case settled
    then have "st1 = st\<lparr>betsTbl := (betsTbl st)(?bid \<mapsto> row\<lparr>won := ?w, winAmount := ?wamt\<rparr>),
                   playersTbl := (playersTbl st)(playerId row \<mapsto> settledWith c [e] p)\<rparr>"
      by (simp add: st1_def st_def settleOnce_s_storage)
    with settled(1,2) show ?thesis by (auto simp: owner_def)
  qed
qed

lemma settleOnce_exact:
  assumes "betsTbl (s_storage acc) (a_id (snd e)) = Some row"
    and "playersTbl (s_storage acc) (playerId row) = Some p"
    and "int4 (if isBetWinner (snd e) c then calculateWinAmount (snd e) else 0)"
    and "inRange (settledWith c [e] p)"
  shows "s_storage (settleOnce c e acc) =
      (s_storage acc)\<lparr>betsTbl := (betsTbl (s_storage acc))(a_id (snd e) \<mapsto>
           row\<lparr>won := isBetWinner (snd e) c,
               winAmount := (if isBetWinner (snd e) c then calculateWinAmount (snd e) else 0)\<rparr>),
         playersTbl := (playersTbl (s_storage acc))(playerId row \<mapsto> settledWith c [e] p)\<rparr>"
proof (cases "isBetWinner (snd e) c \<and> 0 < calculateWinAmount (snd e)")
  case True
  then have w: "isBetWinner (snd e) c" and pos: "0 < calculateWinAmount (snd e)" by simp_all
  have sw: "settledWith c [e] p =
      p\<lparr>p_chips := p_chips p + calculateWinAmount (snd e), totalWins := totalWins p + 1\<rparr>"
    using w pos by (simp add: settledWith_def credit_def Let_def)
  from assms(4) have "int4 (p_chips p + calculateWinAmount (snd e))" "int4 (totalWins p + 1)"
    unfolding sw by (simp_all add: inRange_def)
  with w pos assms(1-3) show ?thesis unfolding sw
    by (simp add: settleOnce_s_storage resolveBet_def Let_def)
next
  case False
  then have cr: "credit c (snd e) = 0" by (auto simp: credit_def Let_def)
  have sw: "settledWith c [e] p = p\<lparr>totalLosses := totalLosses p + 1\<rparr>"
    by (simp add: settledWith_def cr)
  from assms(4) have "int4 (totalLosses p + 1)"
    unfolding sw by (simp add: inRange_def)
  with False assms(1-3) show ?thesis unfolding sw
    by (auto simp: settleOnce_s_storage resolveBet_def Let_def)
qed

lemma ownedBy_cong:
  "(\<forall>bid. owner st1 bid = owner st bid) \<Longrightarrow> ownedBy st1 q es = ownedBy st q es"
  by (simp add: ownedBy_def)

text \<open>Settling a list of entries, one call each: the bet rows keep their owners, and each
  account row has been settled with some of the entries it owns, each at most once.\<close>

lemma fold_settleOnce_atmost:
  "(\<forall>bid. owner (s_storage (fold (settleOnce c) es acc)) bid = owner (s_storage acc) bid) \<and>
   (\<forall>q p. playersTbl (s_storage acc) q = Some p \<longrightarrow>
      (\<exists>sub \<in> set (subseqs (ownedBy (s_storage acc) q es)).
         playersTbl (s_storage (fold (settleOnce c) es acc)) q = Some (settledWith c sub p)))"
proof (induction es arbitrary: acc)
  case Nil
  then show ?case by (simp add: ownedBy_def)
next
  case (Cons e es)
  let ?st = "s_storage acc"
  let ?acc1 = "settleOnce c e acc"
  let ?st1 = "s_storage ?acc1"
  let ?st' = "s_storage (fold (settleOnce c) es ?acc1)"
  note step = settleOnce_step [of c e acc]
  from step have own1: "\<forall>bid. owner ?st1 bid = owner ?st bid" by blast
  note IH = Cons.IH [of ?acc1]
  note IH2 = IH [THEN conjunct2, rule_format]
  have own: "\<forall>bid. owner ?st' bid = owner ?st bid" using IH own1 by simp
  have acct: "\<exists>sub \<in> set (subseqs (ownedBy ?st q (e # es))).
      playersTbl ?st' q = Some (settledWith c sub p)"
    if qp: "playersTbl ?st q = Some p" for q p
  proof -
    from step have "playersTbl ?st1 q = playersTbl ?st q \<or>
       (owner ?st (a_id (snd e)) = Some q \<and>
        (\<exists>p. playersTbl ?st q = Some p \<and> playersTbl ?st1 q = Some (settledWith c [e] p)))"
      by blast
    then show ?thesis
    proof
      assume "playersTbl ?st1 q = playersTbl ?st q"
      with qp have "playersTbl ?st1 q = Some p" by simp
      from IH2 [OF this] obtain sub where sub: "sub \<in> set (subseqs (ownedBy ?st1 q es))"
        "playersTbl ?st' q = Some (settledWith c sub p)" by blast
      from sub(1) have "sub \<in> set (subseqs (ownedBy ?st q es))"
        using ownedBy_cong [OF own1] by simp
      then have "sub \<in> set (subseqs (ownedBy ?st q (e # es)))"
        by (cases "owner ?st (a_id (snd e)) = Some q") (simp_all add: ownedBy_def Let_def)
      with sub(2) show ?thesis by blast
    next
      assume "owner ?st (a_id (snd e)) = Some q \<and>
        (\<exists>p. playersTbl ?st q = Some p \<and> playersTbl ?st1 q = Some (settledWith c [e] p))"
      with qp have ow: "owner ?st (a_id (snd e)) = Some q"
        and q1: "playersTbl ?st1 q = Some (settledWith c [e] p)" by auto
      from IH2 [OF q1] obtain sub where sub: "sub \<in> set (subseqs (ownedBy ?st1 q es))"
        "playersTbl ?st' q = Some (settledWith c sub (settledWith c [e] p))" by blast
      from sub(1) have "sub \<in> set (subseqs (ownedBy ?st q es))"
        using ownedBy_cong [OF own1] by simp
      then have "e # sub \<in> set (subseqs (ownedBy ?st q (e # es)))"
        using ow by (simp add: ownedBy_def Let_def)
      moreover from sub(2) have "playersTbl ?st' q = Some (settledWith c (e # sub) p)"
        by (simp add: settledWith_Cons [of c e sub])
      ultimately show ?thesis by blast
    qed
  qed
  from own acct show ?case by simp
qed

lemma sum_credit_nonneg: "0 \<le> sum_list (map (\<lambda>e. credit c (snd e)) es)"
  by (induction es) (simp_all add: credit_nonneg)

lemma inRange_mid:
  assumes "inRange p" "inRange (settledWith c (e # es) p)"
  shows "inRange (settledWith c [e] p)"
proof -
  have a: "0 \<le> credit c (snd e)" by (rule credit_nonneg)
  have b: "0 \<le> sum_list (map (\<lambda>e. credit c (snd e)) es)" by (rule sum_credit_nonneg)
  from assms a b show ?thesis
    by (auto simp: inRange_def int4_def settledWith_def)
qed

text \<open>Where every entry has its bet row and its account row, and every write fits its
  column, each account row has been settled with all the entries it owns.\<close>

lemma fold_settleOnce_exact:
  assumes "\<forall>e \<in> set es. \<exists>row p. betsTbl (s_storage acc) (a_id (snd e)) = Some row \<and>
      playersTbl (s_storage acc) (playerId row) = Some p"
    and "fits (s_storage acc) c es"
  shows "\<forall>q p. playersTbl (s_storage acc) q = Some p \<longrightarrow>
      playersTbl (s_storage (fold (settleOnce c) es acc)) q =
        Some (settledWith c (ownedBy (s_storage acc) q es) p)"
  using assms
proof (induction es arbitrary: acc)
  case Nil
  then show ?case by (simp add: ownedBy_def)
next
  case (Cons e es)
  let ?st = "s_storage acc"
  let ?acc1 = "settleOnce c e acc"
  let ?st1 = "s_storage ?acc1"
  let ?st' = "s_storage (fold (settleOnce c) es ?acc1)"
  from Cons.prems(1) obtain row p0 where row: "betsTbl ?st (a_id (snd e)) = Some row"
    and p0: "playersTbl ?st (playerId row) = Some p0" by auto
  let ?q0 = "playerId row"
  from row have ow: "owner ?st (a_id (snd e)) = Some ?q0" by (simp add: owner_def)
  have ob0: "ownedBy ?st ?q0 (e # es) = e # ownedBy ?st ?q0 es"
    using ow by (simp add: ownedBy_def)
  have ob: "ownedBy ?st q (e # es) = ownedBy ?st q es" if "q \<noteq> ?q0" for q
    using ow that by (auto simp: ownedBy_def)
  from Cons.prems(2) have w4: "int4 (if isBetWinner (snd e) c then calculateWinAmount (snd e) else 0)"
    and acc4: "\<And>q p. playersTbl ?st q = Some p \<Longrightarrow>
        inRange p \<and> inRange (settledWith c (ownedBy ?st q (e # es)) p)"
    and rest4: "\<forall>e' \<in> set es. int4 (if isBetWinner (snd e') c then calculateWinAmount (snd e') else 0)"
    by (auto simp: fits_def)
  from acc4 [OF p0] have r0: "inRange p0" "inRange (settledWith c (e # ownedBy ?st ?q0 es) p0)"
    unfolding ob0 by simp_all
  then have r1: "inRange (settledWith c [e] p0)" by (rule inRange_mid)
  from settleOnce_exact [OF row p0 w4 r1] have
    st1: "?st1 = ?st\<lparr>betsTbl := (betsTbl ?st)(a_id (snd e) \<mapsto>
           row\<lparr>won := isBetWinner (snd e) c,
               winAmount := (if isBetWinner (snd e) c then calculateWinAmount (snd e) else 0)\<rparr>),
         playersTbl := (playersTbl ?st)(?q0 \<mapsto> settledWith c [e] p0)\<rparr>" .
  have own1: "\<forall>bid. owner ?st1 bid = owner ?st bid"
    using row by (simp add: st1 owner_def)
  note oc = ownedBy_cong [OF own1]
  have pre1: "\<forall>e' \<in> set es. \<exists>row' p'. betsTbl ?st1 (a_id (snd e')) = Some row' \<and>
      playersTbl ?st1 (playerId row') = Some p'"
  proof
    fix e' assume "e' \<in> set es"
    with Cons.prems(1) obtain r' q' where r': "betsTbl ?st (a_id (snd e')) = Some r'"
      and q': "playersTbl ?st (playerId r') = Some q'" by auto
    show "\<exists>row' p'. betsTbl ?st1 (a_id (snd e')) = Some row' \<and>
      playersTbl ?st1 (playerId row') = Some p'"
    proof (cases "a_id (snd e') = a_id (snd e)")
      case True
      with row p0 show ?thesis by (simp add: st1)
    next
      case False
      with r' q' show ?thesis by (simp add: st1)
    qed
  qed
  have fits1: "fits ?st1 c es"
    unfolding fits_def
  proof (intro conjI allI impI)
    show "\<forall>e' \<in> set es. int4 (if isBetWinner (snd e') c then calculateWinAmount (snd e') else 0)"
      by (rule rest4)
  next
    fix q p assume qp: "playersTbl ?st1 q = Some p"
    show "inRange p"
    proof (cases "q = ?q0")
      case True
      with qp have "p = settledWith c [e] p0" by (simp add: st1)
      with r1 show ?thesis by simp
    next
      case False
      with qp have "playersTbl ?st q = Some p" by (simp add: st1)
      from acc4 [OF this] show ?thesis by simp
    qed
  next
    fix q p assume qp: "playersTbl ?st1 q = Some p"
    show "inRange (settledWith c (ownedBy ?st1 q es) p)"
    proof (cases "q = ?q0")
      case True
      with qp have "p = settledWith c [e] p0" by (simp add: st1)
      with r0(2) True show ?thesis
        by (simp add: oc settledWith_Cons [of c e "ownedBy ?st ?q0 es"])
    next
      case False
      with qp have "playersTbl ?st q = Some p" by (simp add: st1)
      from acc4 [OF this] ob [OF False] show ?thesis by (simp add: oc)
    qed
  qed
  note IH = Cons.IH [OF pre1 fits1, rule_format]
  show ?case
  proof (intro allI impI)
    fix q p assume qp: "playersTbl ?st q = Some p"
    show "playersTbl (s_storage (fold (settleOnce c) (e # es) acc)) q =
        Some (settledWith c (ownedBy ?st q (e # es)) p)"
    proof (cases "q = ?q0")
      case True
      with qp p0 have pp: "p = p0" by simp
      from True have "playersTbl ?st1 q = Some (settledWith c [e] p0)" by (simp add: st1)
      from IH [OF this] True pp show ?thesis
        by (simp add: oc ob0 settledWith_Cons [of c e "ownedBy ?st ?q0 es"])
    next
      case False
      with qp have "playersTbl ?st1 q = Some p" by (simp add: st1)
      from IH [OF this] ob [OF False] show ?thesis by (simp add: oc)
    qed
  qed
qed

lemma distinct_count_card:
  assumes "distinct (map f es)"
  shows "length (filter (\<lambda>e. P (f e)) es) = card {i \<in> set (map f es). P i}"
  using assms
proof (induction es)
  case Nil
  then show ?case by simp
next
  case (Cons e es)
  then have ne: "f e \<notin> {i \<in> set (map f es). P i}" and d: "distinct (map f es)" by auto
  have fin: "finite {i \<in> set (map f es). P i}" by simp
  have eq: "{i \<in> set (map f (e # es)). P i} =
      (if P (f e) then insert (f e) {i \<in> set (map f es). P i} else {i \<in> set (map f es). P i})"
    by auto
  have ins: "card (insert (f e) {i \<in> set (map f es). P i}) =
      Suc (card {i \<in> set (map f es). P i})"
    using fin ne by (rule card_insert_disjoint)
  show ?case
  proof (cases "P (f e)")
    case True
    then show ?thesis unfolding eq using Cons.IH [OF d] ins by simp
  next
    case False
    then show ?thesis unfolding eq using Cons.IH [OF d] by simp
  qed
qed


lemma resolveBets_storage:
  assumes "activeBets (globalRoom gm) = Some m" "currentCard (globalRoom gm) = Some c"
    "truthy (currentGameId (globalRoom gm))" "houseStats (globalRoom gm) \<noteq> None"
  shows "storage (resolveBets gm) = s_storage (settlement gm c m) \<and>
    players (globalRoom (resolveBets gm)) = s_players (settlement gm c m) \<and>
    activeBets (globalRoom (resolveBets gm)) = Some [] \<and>
    lockedBets (resolveBets gm) = Map.empty \<and> unlockedBets (resolveBets gm) = unlockedBets gm"
  using assms by (auto simp: resolveBets_def Let_def updateHouseStats_keeps)

lemma settlement_firsts:
  "settlement gm c m = fold (settleOnce c) (firstOccurrences [] (flatten m))
     \<lparr>processedBetIds = [], roundWagered = 0, roundPaidOut = 0, s_storage = storage gm,
      s_players = players (globalRoom gm)\<rparr>"
  unfolding settlement_def by (subst fold_resolveStep) simp


text \<open>
  Claim C3. Settlement acts on the first occurrence of each bet id of the wager index and
  on nothing else: these entries carry every id of the index exactly once, the duplicate
  check only skips, and the processed ids are these ids. So, however many entries repeat
  an id, \<open>resolveBets\<close> leaves each account row settled with some of the first occurrences
  it owns, each at most once: a bet whose \<open>resolveBet\<close> throws is logged and not settled
  at all. Where every indexed bet has its row and its account in the store and every
  number written fits its column, each account row is settled with every first
  occurrence it owns, exactly once: its balance grows by their credits, and per bet one
  of its two counters grows by one.
\<close>

theorem C3_settled_once:
  fixes gm :: GameManager and c :: Card and m :: "(string \<times> ActiveBet list) list"
  defines "firsts \<equiv> firstOccurrences [] (flatten m)"
  defines "st \<equiv> storage gm"
  defines "st' \<equiv> storage (resolveBets gm)"
  assumes "activeBets (globalRoom gm) = Some m" and "currentCard (globalRoom gm) = Some c"
    and "truthy (currentGameId (globalRoom gm))" and "houseStats (globalRoom gm) \<noteq> None"
  shows
    "distinct (map (\<lambda>e. a_id (snd e)) firsts) \<and>
     set (map (\<lambda>e. a_id (snd e)) firsts) = indexIds m \<and>
     settlement gm c m = fold (settleOnce c) firsts
       \<lparr>processedBetIds = [], roundWagered = 0, roundPaidOut = 0, s_storage = st,
        s_players = players (globalRoom gm)\<rparr> \<and>
     processedBetIds (settlement gm c m) = map (\<lambda>e. a_id (snd e)) firsts \<and>
     st' = s_storage (settlement gm c m) \<and>
     (\<forall>q. length (ownedBy st q firsts) = card {i \<in> indexIds m. owner st i = Some q}) \<and>
     (\<forall>q p. playersTbl st q = Some p \<longrightarrow>
        (\<exists>sub \<in> set (subseqs (ownedBy st q firsts)).
           playersTbl st' q = Some (settledWith c sub p))) \<and>
     ((\<forall>i \<in> indexIds m. \<exists>row p. betsTbl st i = Some row \<and>
          playersTbl st (playerId row) = Some p) \<and> fits st c firsts \<longrightarrow>
      (\<forall>q p. playersTbl st q = Some p \<longrightarrow>
         playersTbl st' q = Some (settledWith c (ownedBy st q firsts) p)))"
proof -
  let ?acc0 = "\<lparr>processedBetIds = [], roundWagered = 0, roundPaidOut = 0, s_storage = st,
        s_players = players (globalRoom gm)\<rparr>"
  have ids: "distinct (map (\<lambda>e. a_id (snd e)) firsts)"
    "set (map (\<lambda>e. a_id (snd e)) firsts) = indexIds m"
    using firstOccurrences_ids [of "[]" "flatten m"] by (simp_all add: firsts_def indexIds_def)
  have fo: "settlement gm c m = fold (settleOnce c) firsts ?acc0"
    by (simp add: settlement_firsts firsts_def st_def)
  have pr: "processedBetIds (settlement gm c m) = map (\<lambda>e. a_id (snd e)) firsts"
    unfolding fo by (simp add: fold_settleOnce_processed)
  have rs: "st' = s_storage (settlement gm c m)"
    using resolveBets_storage [OF assms(4-7)] by (simp add: st'_def)
  have cnt: "\<forall>q. length (ownedBy st q firsts) = card {i \<in> indexIds m. owner st i = Some q}"
    using distinct_count_card [OF ids(1), of "\<lambda>i. owner st i = Some q" for q] ids(2)
    by (simp add: ownedBy_def)
  have atmost: "\<forall>q p. playersTbl st q = Some p \<longrightarrow>
        (\<exists>sub \<in> set (subseqs (ownedBy st q firsts)).
           playersTbl st' q = Some (settledWith c sub p))"
    using fold_settleOnce_atmost [of c firsts ?acc0] by (simp add: rs fo)
  have exact: "(\<forall>i \<in> indexIds m. \<exists>row p. betsTbl st i = Some row \<and>
          playersTbl st (playerId row) = Some p) \<and> fits st c firsts \<longrightarrow>
      (\<forall>q p. playersTbl st q = Some p \<longrightarrow>
         playersTbl st' q = Some (settledWith c (ownedBy st q firsts) p))"
  proof
    assume h: "(\<forall>i \<in> indexIds m. \<exists>row p. betsTbl st i = Some row \<and>
          playersTbl st (playerId row) = Some p) \<and> fits st c firsts"
    have rows: "\<forall>e \<in> set firsts. \<exists>row p. betsTbl (s_storage ?acc0) (a_id (snd e)) = Some row \<and>
        playersTbl (s_storage ?acc0) (playerId row) = Some p"
    proof
      fix e assume "e \<in> set firsts"
      then have "a_id (snd e) \<in> set (map (\<lambda>e. a_id (snd e)) firsts)" by force
      then have "a_id (snd e) \<in> indexIds m" using ids(2) by simp
      with h show "\<exists>row p. betsTbl (s_storage ?acc0) (a_id (snd e)) = Some row \<and>
        playersTbl (s_storage ?acc0) (playerId row) = Some p" by simp
    qed
    from h have "fits (s_storage ?acc0) c firsts" by simp
    from fold_settleOnce_exact [OF rows this]
    show "\<forall>q p. playersTbl st q = Some p \<longrightarrow>
         playersTbl st' q = Some (settledWith c (ownedBy st q firsts) p)"
      by (simp add: rs fo)
  qed
  from ids fo pr rs cnt atmost exact show ?thesis by blast
qed

lemma runDuplicated_val:
  "runDuplicated = runBet\<lparr>globalRoom := (globalRoom runBet)
     \<lparr>countdownTime := 10,
      currentCard := Some \<lparr>number = 1, suit = Spades, color = Black, revealed = False\<rparr>,
      activeBets := Some
        [(''A'', [\<lparr>a_id = 1, a_betType = ''red'', a_betAmount = 50\<rparr>]),
         (''B'', [\<lparr>a_id = 1, a_betType = ''red'', a_betAmount = 50\<rparr>])]\<rparr>\<rparr>"
  by (simp add: runDuplicated_def runClosed_val)

theorem C3_settled_once_witness:
  "activeBets (globalRoom runDuplicated) = Some
     [(''A'', [\<lparr>a_id = 1, a_betType = ''red'', a_betAmount = 50\<rparr>]),
      (''B'', [\<lparr>a_id = 1, a_betType = ''red'', a_betAmount = 50\<rparr>])] \<and>
   indexIds [(''A'', [\<lparr>a_id = 1, a_betType = ''red'', a_betAmount = 50\<rparr>]),
      (''B'', [\<lparr>a_id = 1, a_betType = ''red'', a_betAmount = 50\<rparr>])] = {1} \<and>
   playersTbl (storage runDuplicated) 1 =
     Some \<lparr>p_userId = 7, p_socketId = ''A'', p_name = ''ann'', p_chips = 950,
            totalWins = 0, totalLosses = 0\<rparr> \<and>
   fits (storage runDuplicated) \<lparr>number = 1, suit = Spades, color = Black, revealed = False\<rparr>
     [(''A'', \<lparr>a_id = 1, a_betType = ''red'', a_betAmount = 50\<rparr>)] \<and>
   playersTbl (storage (resolveBets runDuplicated)) 1 =
     Some \<lparr>p_userId = 7, p_socketId = ''A'', p_name = ''ann'', p_chips = 950,
            totalWins = 0, totalLosses = 1\<rparr> \<and>
   processedBetIds (settlement runDuplicated
     \<lparr>number = 1, suit = Spades, color = Black, revealed = False\<rparr>
     [(''A'', [\<lparr>a_id = 1, a_betType = ''red'', a_betAmount = 50\<rparr>]),
      (''B'', [\<lparr>a_id = 1, a_betType = ''red'', a_betAmount = 50\<rparr>])]) = [1] \<and>
   (\<exists>p st'. resolveBet (storage runDuplicated) 1 True 2147482697 = Inr (Some (1, p), st') \<and>
      p_chips p = 2147483647 \<and> totalWins p = 1) \<and>
   resolveBet (storage runDuplicated) 1 True 2147482698 = Inl (outOfRange 2147483648) \<and>
   (\<exists>p st'. resolveBet (storage runDuplicated) 1 False 2147483647 = Inr (Some (1, p), st') \<and>
      p_chips p = 950 \<and> totalLosses p = 1) \<and>
   resolveBet (storage runDuplicated) 1 False 2147483648 = Inl (outOfRange 2147483648) \<and>
   resolveBet (storage runDuplicated) 1 False (- 2147483649) = Inl (outOfRange (- 2147483649))"
proof -
  let ?m = "[(''A'', [\<lparr>a_id = 1, a_betType = ''red'', a_betAmount = 50\<rparr>]),
      (''B'', [\<lparr>a_id = 1, a_betType = ''red'', a_betAmount = 50\<rparr>])]"
  let ?c = "\<lparr>number = 1, suit = Spades, color = Black, revealed = False\<rparr>"
  let ?p = "\<lparr>p_userId = 7, p_socketId = ''A'', p_name = ''ann'', p_chips = 950,
              totalWins = 0, totalLosses = 0\<rparr>"
  let ?fs = "[(''A'', \<lparr>a_id = 1, a_betType = ''red'', a_betAmount = 50\<rparr>)]"
  have h1: "activeBets (globalRoom runDuplicated) = Some ?m"
    and h2: "currentCard (globalRoom runDuplicated) = Some ?c"
    and h3: "truthy (currentGameId (globalRoom runDuplicated))"
    and h4: "houseStats (globalRoom runDuplicated) \<noteq> None"
    by (simp_all add: runDuplicated_val runBet_val truthy_def)
  have ix: "indexIds ?m = {1}" by (simp add: indexIds_def flatten_def)
  have pt: "playersTbl (storage runDuplicated) = [1 \<mapsto> ?p]"
    by (simp add: runDuplicated_val runBet_val)
  have pl: "playersTbl (storage runDuplicated) 1 = Some ?p"
    by (simp add: pt)
  have h5: "\<forall>i \<in> indexIds ?m. \<exists>row p. betsTbl (storage runDuplicated) i = Some row \<and>
      playersTbl (storage runDuplicated) (playerId row) = Some p"
    unfolding ix by (simp add: runDuplicated_val runBet_val)
  have fs: "firstOccurrences [] (flatten ?m) = ?fs"
    by (simp add: flatten_def)
  have ob: "ownedBy (storage runDuplicated) 1 ?fs = ?fs"
    by (simp add: ownedBy_def owner_def runDuplicated_val runBet_val)
  have sw: "settledWith ?c ?fs ?p = ?p\<lparr>totalLosses := 1\<rparr>"
    by (simp add: settledWith_def credit_def isBetWinner_def)
  have ft: "fits (storage runDuplicated) ?c ?fs"
    unfolding fits_def
  proof (rule conjI)
    show "\<forall>e \<in> set ?fs. int4 (if isBetWinner (snd e) ?c then calculateWinAmount (snd e) else 0)"
      by (simp add: isBetWinner_def int4_def)
  next
    show "\<forall>q p. playersTbl (storage runDuplicated) q = Some p \<longrightarrow>
        inRange p \<and> inRange (settledWith ?c (ownedBy (storage runDuplicated) q ?fs) p)"
    proof (intro allI impI)
      fix q p assume "playersTbl (storage runDuplicated) q = Some p"
      then have q: "q = 1" and p: "p = ?p" by (auto simp: pt split: if_splits)
      show "inRange p \<and> inRange (settledWith ?c (ownedBy (storage runDuplicated) q ?fs) p)"
        unfolding q p ob sw by (simp add: inRange_def int4_def)
    qed
  qed
  note once = C3_settled_once [OF h1 h2 h3 h4]
  have pr: "processedBetIds (settlement runDuplicated ?c ?m) = [1]"
    using once [THEN conjunct2, THEN conjunct2, THEN conjunct2, THEN conjunct1]
    unfolding fs by simp
  from once have "(\<forall>i \<in> indexIds ?m. \<exists>row p. betsTbl (storage runDuplicated) i = Some row \<and>
          playersTbl (storage runDuplicated) (playerId row) = Some p) \<and>
        fits (storage runDuplicated) ?c ?fs \<longrightarrow>
      (\<forall>q p. playersTbl (storage runDuplicated) q = Some p \<longrightarrow>
         playersTbl (storage (resolveBets runDuplicated)) q =
           Some (settledWith ?c (ownedBy (storage runDuplicated) q ?fs) p))"
    unfolding fs by blast
  with h5 ft pl have "playersTbl (storage (resolveBets runDuplicated)) 1 =
      Some (settledWith ?c (ownedBy (storage runDuplicated) 1 ?fs) ?p)" by blast
  then have after: "playersTbl (storage (resolveBets runDuplicated)) 1 =
      Some \<lparr>p_userId = 7, p_socketId = ''A'', p_name = ''ann'', p_chips = 950,
            totalWins = 0, totalLosses = 1\<rparr>"
    unfolding ob sw by simp
  have ov: "(\<exists>p st'. resolveBet (storage runDuplicated) 1 True 2147482697 =
        Inr (Some (1, p), st') \<and> p_chips p = 2147483647 \<and> totalWins p = 1) \<and>
      resolveBet (storage runDuplicated) 1 True 2147482698 = Inl (outOfRange 2147483648) \<and>
      (\<exists>p st'. resolveBet (storage runDuplicated) 1 False 2147483647 =
        Inr (Some (1, p), st') \<and> p_chips p = 950 \<and> totalLosses p = 1) \<and>
      resolveBet (storage runDuplicated) 1 False 2147483648 = Inl (outOfRange 2147483648) \<and>
      resolveBet (storage runDuplicated) 1 False (- 2147483649) =
        Inl (outOfRange (- 2147483649))"
    by (simp add: resolveBet_def int4_def runDuplicated_val runBet_val Let_def)
  from h1 ix pl ft after pr ov show ?thesis by blast
qed

subsection \<open>Leaving the room and cancelling\<close>

text \<open>What the shared cancel loop does, in one step.\<close>

lemma spliced_Nil: "spliced sock [] ab = ab"
  by (simp add: spliced_def update_triv split: option.splits)

lemma spliced_Cons:
  "spliced sock (i # ids) ab = spliced sock ids (spliced sock [i] ab)"
  by (simp add: spliced_def update_conv' split: option.splits)

lemma cancelOne_effect:
  "cancelOne sock b (gm, r) =
     (gm\<lparr>storage := deleteBet (storage gm) (betId b),
         globalRoom := (globalRoom gm)
           \<lparr>activeBets := spliced sock [betId b] (activeBets (globalRoom gm))\<rparr>\<rparr>,
      r + amount b)"
  by (simp add: cancelOne_def Let_def spliced_def split: option.splits)

lemma fold_cancelOne:
  "fold (cancelOne sock) bets (gm, r) =
     (gm\<lparr>storage := (storage gm)
           \<lparr>betsTbl := (\<lambda>i. if i \<in> betId ` set bets then None else betsTbl (storage gm) i)\<rparr>,
         globalRoom := (globalRoom gm)
           \<lparr>activeBets := spliced sock (map betId bets) (activeBets (globalRoom gm))\<rparr>\<rparr>,
      r + sum_list (map amount bets))"
proof (induction bets arbitrary: gm r)
  case Nil
  then show ?case by (simp add: spliced_Nil)
next
  case (Cons b bets)
  have tbl: "(\<lambda>i. if i \<in> betId ` set bets then None
                  else if i = betId b then None else betsTbl (storage gm) i) =
             (\<lambda>i. if i = betId b \<or> i \<in> betId ` set bets then None else betsTbl (storage gm) i)"
    by auto
  show ?case
    by (simp add: cancelOne_effect Cons.IH tbl spliced_Cons [of sock "betId b" "map betId bets"]
        deleteBet_def add.assoc cong del: if_weak_cong)
qed

lemma cancelLoop_effect:
  "cancelLoop sock bets gm =
     (gm\<lparr>storage := (storage gm)
           \<lparr>betsTbl := (\<lambda>i. if i \<in> betId ` set bets then None else betsTbl (storage gm) i)\<rparr>,
         globalRoom := (globalRoom gm)
           \<lparr>activeBets := spliced sock (map betId bets) (activeBets (globalRoom gm))\<rparr>\<rparr>,
      sum_list (map amount bets))"
  by (simp add: cancelLoop_def fold_cancelOne)


lemma findPlayer_playerRooms [simp]:
  "findPlayer (globalRoom (gm\<lparr>playerRooms := x\<rparr>)) sock = findPlayer (globalRoom gm) sock"
  by (simp add: findPlayer_def)

text \<open>Runs of events, and the example round with two unlocked bets, evaluated.\<close>

lemma runInputs_append:
  "runInputs (xs @ ys) gm = (case runInputs xs gm of Inl e \<Rightarrow> Inl e | Inr gm' \<Rightarrow> runInputs ys gm')"
  by (induction xs arbitrary: gm) (simp_all split: sum.splits)

lemma runInputs_ticks: "runInputs (replicate n (Tick 0 0 0 0)) gm = runTicks n gm"
  by (induction n arbitrary: gm) (simp_all add: dispatch_def split: sum.splits)

lemma runTwoBets_val:
  "runTwoBets = runBet
     \<lparr>globalRoom := (globalRoom runBet)
        \<lparr>players := [\<lparr>socketId = ''A'', name = ''ann'', chips = 900, dbId = Some 1\<rparr>],
         activeBets := Some [(''A'', [\<lparr>a_id = 1, a_betType = ''red'', a_betAmount = 50\<rparr>,
           \<lparr>a_id = 2, a_betType = ''black'', a_betAmount = 50\<rparr>])]\<rparr>,
      unlockedBets := [''A'' \<mapsto> [\<lparr>betType = ''red'', amount = 50, betId = 1\<rparr>,
        \<lparr>betType = ''black'', amount = 50, betId = 2\<rparr>]],
      storage := (storage runBet)
        \<lparr>playersTbl := [1 \<mapsto> \<lparr>p_userId = 7, p_socketId = ''A'', p_name = ''ann'',
           p_chips = 900, totalWins = 0, totalLosses = 0\<rparr>],
         betsTbl := [1 \<mapsto> \<lparr>gameId = 1, playerId = 1, betAmount = 50, b_betType = ''red'',
             betValue = ''red'', won = False, winAmount = 0\<rparr>,
           2 \<mapsto> \<lparr>gameId = 1, playerId = 1, betAmount = 50, b_betType = ''black'',
             betValue = ''black'', won = False, winAmount = 0\<rparr>],
         nextBetId := 3\<rparr>\<rparr>"
  by (simp add: runTwoBets_def runBet_val handlePlaceBet_def findPlayer_def authId_def truthy_def
      getPlayer_def validBetTypes_def placeBet_def setChips_def Let_def)

lemma runTwoBets_ticks:
  "runTicks 30 runTwoBets = Inr (runTwoBets
     \<lparr>globalRoom := (globalRoom runTwoBets)
        \<lparr>players := [\<lparr>socketId = ''A'', name = ''ann'', chips = 1000, dbId = Some 1\<rparr>],
         status := Playing,
         currentCard := Some \<lparr>number = 1, suit = Hearts, color = Red, revealed = True\<rparr>,
         countdownTime := 0, activeBets := Some [],
         houseStats := Some \<lparr>totalWagered = 100, totalPaidOut = 100, houseProfitThisRound = 0,
           houseProfitTotal = 0, roundCount = 1\<rparr>\<rparr>,
      storage := (storage runTwoBets)
        \<lparr>playersTbl := [1 \<mapsto> \<lparr>p_userId = 7, p_socketId = ''A'', p_name = ''ann'',
           p_chips = 1000, totalWins = 1, totalLosses = 1\<rparr>],
         betsTbl := [1 \<mapsto> \<lparr>gameId = 1, playerId = 1, betAmount = 50, b_betType = ''red'',
             betValue = ''red'', won = True, winAmount = 100\<rparr>,
           2 \<mapsto> \<lparr>gameId = 1, playerId = 1, betAmount = 50, b_betType = ''black'',
             betValue = ''black'', won = False, winAmount = 0\<rparr>],
         gamesTbl := [1 \<mapsto> \<lparr>cardNumber = 1, cardColor = ''red'', totalPlayers = 0,
           g_status = ''completed''\<rparr>]\<rparr>\<rparr>)"
  (is "_ = Inr ?won")
proof -
  let ?at11 = "runTwoBets\<lparr>globalRoom := (globalRoom runTwoBets)\<lparr>countdownTime := 11\<rparr>\<rparr>"
  let ?closed = "runTwoBets\<lparr>globalRoom := (globalRoom runTwoBets)\<lparr>countdownTime := 10,
     currentCard := Some \<lparr>number = 1, suit = Hearts, color = Red, revealed = False\<rparr>\<rparr>\<rparr>"
  let ?at1 = "?closed\<lparr>globalRoom := (globalRoom ?closed)\<lparr>countdownTime := 1\<rparr>\<rparr>"
  have a: "runTicks 19 runTwoBets = Inr ?at11"
    using runTicks_noReveal [of runTwoBets 19] by (simp add: runTwoBets_val runBet_val)
  have b: "runTicks 1 ?at11 = Inr ?closed"
    by (simp add: runTwoBets_val runBet_val countdownTick_def Let_def card_defs tieSeed_def
        orZero_def)
  have c: "runTicks 9 ?closed = Inr ?at1"
    using runTicks_withCard [of ?closed 9] by (simp add: runTwoBets_val runBet_val)
  have d: "runTicks 1 ?at1 = Inr ?won"
    by (simp add: runTwoBets_val runBet_val countdownTick_def Let_def settle_defs)
  have "runTicks (19 + (1 + (9 + 1))) runTwoBets = Inr ?won"
    unfolding runTicks_add a using b c d by simp
  then show ?thesis by simp
qed

lemma runWon_val:
  "runWon = runTwoBets
     \<lparr>globalRoom := (globalRoom runTwoBets)
        \<lparr>players := [\<lparr>socketId = ''A'', name = ''ann'', chips = 1000, dbId = Some 1\<rparr>],
         status := Playing,
         currentCard := Some \<lparr>number = 1, suit = Hearts, color = Red, revealed = True\<rparr>,
         countdownTime := 0, activeBets := Some [],
         houseStats := Some \<lparr>totalWagered = 100, totalPaidOut = 100, houseProfitThisRound = 0,
           houseProfitTotal = 0, roundCount = 1\<rparr>\<rparr>,
      storage := (storage runTwoBets)
        \<lparr>playersTbl := [1 \<mapsto> \<lparr>p_userId = 7, p_socketId = ''A'', p_name = ''ann'',
           p_chips = 1000, totalWins = 1, totalLosses = 1\<rparr>],
         betsTbl := [1 \<mapsto> \<lparr>gameId = 1, playerId = 1, betAmount = 50, b_betType = ''red'',
             betValue = ''red'', won = True, winAmount = 100\<rparr>,
           2 \<mapsto> \<lparr>gameId = 1, playerId = 1, betAmount = 50, b_betType = ''black'',
             betValue = ''black'', won = False, winAmount = 0\<rparr>],
         gamesTbl := [1 \<mapsto> \<lparr>cardNumber = 1, cardColor = ''red'', totalPlayers = 0,
           g_status = ''completed''\<rparr>]\<rparr>\<rparr>"
  by (simp add: runWon_def afterTicks_def runTwoBets_ticks)

lemma disconnectAfterReveal_run:
  "runInputs disconnectAfterReveal (newGameManager store0) = Inr (fst (leaveRoom runWon ''A''))"
proof -
  have a: "runInputs [StartGame 1000, Join ''A'', UpdatePlayerAuth ''A'' 7 ''ann'',
      PlaceBet ''A'' ''red'' ''red'' 50, PlaceBet ''A'' ''black'' ''black'' 50]
      (newGameManager store0) = Inr runTwoBets"
    by (simp add: dispatch_def runTwoBets_def runBet_def runAuthed_def runJoined_def
        runStarted_def)
  have b: "runInputs (replicate 30 (Tick 0 0 0 0)) runTwoBets = Inr runWon"
    unfolding runInputs_ticks by (simp add: runTwoBets_ticks runWon_val)
  have c: "runInputs [Disconnect ''A''] runWon = Inr (fst (leaveRoom runWon ''A''))"
    by (simp add: dispatch_def)
  show ?thesis
    unfolding disconnectAfterReveal_def runInputs_append a using b c by simp
qed

lemmas leave_defs = leaveRoom_def cancelLoop_def cancelOne_def deleteBet_def dropEmptyEntry_def
  getPlayer_def updatePlayerChips_def int4_def findPlayer_def authId_def truthy_def Let_def
  AList.delete_eq sanitizeRoomForBroadcast_def

lemma runLeft_val:
  "runLeft = runLocked\<lparr>globalRoom := (globalRoom runLocked)\<lparr>players := []\<rparr>,
     playerRooms := Map.empty\<rparr>"
  by (simp add: runLeft_def runLocked_val runBet_val leaveRoom_def Let_def findPlayer_def
      sanitizeRoomForBroadcast_def)

lemma runLeft_ticks:
  "runTicks 30 runLeft = Inr (runLeft
     \<lparr>globalRoom := (globalRoom runLeft)
        \<lparr>status := Playing,
         currentCard := Some \<lparr>number = 1, suit = Spades, color = Black, revealed = True\<rparr>,
         countdownTime := 0, activeBets := Some [],
         houseStats := Some \<lparr>totalWagered = 50, totalPaidOut = 0, houseProfitThisRound = 50,
           houseProfitTotal = 50, roundCount = 1\<rparr>\<rparr>,
      lockedBets := Map.empty,
      storage := (storage runLeft)
        \<lparr>playersTbl := [1 \<mapsto> \<lparr>p_userId = 7, p_socketId = ''A'', p_name = ''ann'',
           p_chips = 950, totalWins = 0, totalLosses = 1\<rparr>],
         gamesTbl := [1 \<mapsto> \<lparr>cardNumber = 1, cardColor = ''black'', totalPlayers = 0,
           g_status = ''completed''\<rparr>]\<rparr>\<rparr>)"
  (is "_ = Inr ?settled")
proof -
  let ?at11 = "runLeft\<lparr>globalRoom := (globalRoom runLeft)\<lparr>countdownTime := 11\<rparr>\<rparr>"
  let ?closed = "runLeft\<lparr>globalRoom := (globalRoom runLeft)\<lparr>countdownTime := 10,
     currentCard := Some \<lparr>number = 1, suit = Spades, color = Black, revealed = False\<rparr>\<rparr>\<rparr>"
  let ?at1 = "?closed\<lparr>globalRoom := (globalRoom ?closed)\<lparr>countdownTime := 1\<rparr>\<rparr>"
  have a: "runTicks 19 runLeft = Inr ?at11"
    using runTicks_noReveal [of runLeft 19] by (simp add: runLeft_val runLocked_val runBet_val)
  have b: "runTicks 1 ?at11 = Inr ?closed"
    by (simp add: runLeft_val runLocked_val runBet_val countdownTick_def Let_def card_defs
        tieSeed_def orZero_def)
  have c: "runTicks 9 ?closed = Inr ?at1"
    using runTicks_withCard [of ?closed 9] by (simp add: runLeft_val runLocked_val runBet_val)
  have d: "runTicks 1 ?at1 = Inr ?settled"
    by (simp add: runLeft_val runLocked_val runBet_val countdownTick_def Let_def settle_defs)
  have "runTicks (19 + (1 + (9 + 1))) runLeft = Inr ?settled"
    unfolding runTicks_add a using b c d by simp
  then show ?thesis by simp
qed

text \<open>
  Claim C5 fails on the code where it says the refund restores the pre-bet balance of a
  wager for which no settlement entry remains: \<open>leaveRoom\<close> never looks at the status of
  the round, and settlement leaves the unlocked partition as it is. In the example round
  the account starts with 1000 chips and stakes 50 on red and 50 on black without locking.
  The card revealed is red: the bet on red is settled as won and paid 100, the bet on
  black is settled as lost, and the balance is 1000 again. When the socket disconnects
  before the next round starts, both settled bets are deleted and their stakes refunded:
  the balance is 1100. With the single bet on red, settled as lost, the disconnect pays
  the lost stake back. And the refund goes to the account the socket is authenticated as
  when it disconnects: after the socket has authenticated again as another user, the
  stake is credited to that user's account and the account debited stays at 950. A
  disconnect before the reveal does otherwise what the claim says, and a locked bet stays
  in the index when its owner leaves and is settled once at the reveal. A balance is
  written where it fits the column, up to 2147483647.
\<close>

theorem C5_disconnect_after_reveal:
  "runInputs disconnectAfterReveal (newGameManager store0) =
     Inr (fst (leaveRoom runWon ''A'')) \<and>
   map_option p_chips (playersTbl store0 1) = Some 1000 \<and>
   status (globalRoom runWon) = Playing \<and> pendingWagers (globalRoom runWon) = [] \<and>
   map_option (\<lambda>b. (won b, winAmount b)) (betsTbl (storage runWon) 1) = Some (True, 100) \<and>
   map_option (\<lambda>b. (won b, winAmount b)) (betsTbl (storage runWon) 2) = Some (False, 0) \<and>
   map_option (\<lambda>p. (p_chips p, totalWins p, totalLosses p)) (playersTbl (storage runWon) 1) =
     Some (1000, 1, 1) \<and>
   unlockedOf runWon ''A'' = [\<lparr>betType = ''red'', amount = 50, betId = 1\<rparr>,
     \<lparr>betType = ''black'', amount = 50, betId = 2\<rparr>] \<and>
   map_option (\<lambda>p. (p_chips p, totalWins p, totalLosses p))
     (playersTbl (storage (fst (leaveRoom runWon ''A''))) 1) = Some (1100, 1, 1) \<and>
   betsTbl (storage (fst (leaveRoom runWon ''A''))) 1 = None \<and>
   betsTbl (storage (fst (leaveRoom runWon ''A''))) 2 = None \<and>
   map_option (\<lambda>p. (p_chips p, totalWins p, totalLosses p))
     (playersTbl (storage runRevealed) 1) = Some (950, 0, 1) \<and>
   map_option (\<lambda>p. (p_chips p, totalWins p, totalLosses p))
     (playersTbl (storage (fst (leaveRoom runRevealed ''A''))) 1) = Some (1000, 0, 1) \<and>
   map_option p_chips (playersTbl (storage runSwitched) 1) = Some 950 \<and>
   map_option p_chips (playersTbl (storage runSwitched) 2) = Some 0 \<and>
   map_option p_chips (playersTbl (storage (fst (leaveRoom runSwitched ''A''))) 1) = Some 950 \<and>
   map_option p_chips (playersTbl (storage (fst (leaveRoom runSwitched ''A''))) 2) = Some 50 \<and>
   status (globalRoom runBet) = Countdown \<and>
   map_option (\<lambda>p. (p_chips p, totalWins p, totalLosses p))
     (playersTbl (storage (fst (leaveRoom runBet ''A''))) 1) = Some (1000, 0, 0) \<and>
   betsTbl (storage (fst (leaveRoom runBet ''A''))) 1 = None \<and>
   pendingWagers (globalRoom (fst (leaveRoom runBet ''A''))) = [] \<and>
   lockedBets runLeft 1 = Some [\<lparr>betType = ''red'', amount = 50, betId = 1\<rparr>] \<and>
   pendingWagers (globalRoom runLeft) = [\<lparr>a_id = 1, a_betType = ''red'', a_betAmount = 50\<rparr>] \<and>
   map_option (\<lambda>p. (p_chips p, totalWins p, totalLosses p))
     (playersTbl (storage runLeft) 1) = Some (950, 0, 0) \<and>
   map_option (\<lambda>p. (p_chips p, totalWins p, totalLosses p))
     (playersTbl (storage (afterTicks 30 runLeft)) 1) = Some (950, 0, 1) \<and>
   pendingWagers (globalRoom (afterTicks 30 runLeft)) = [] \<and>
   (\<exists>st'. updatePlayerChips (storage runBet) 1 2147483647 = Inr st' \<and>
      map_option p_chips (playersTbl st' 1) = Some 2147483647) \<and>
   updatePlayerChips (storage runBet) 1 2147483648 = Inl (outOfRange 2147483648)"
proof -
  have won: "fst (leaveRoom runWon ''A'') = runWon
     \<lparr>globalRoom := (globalRoom runWon)\<lparr>players := []\<rparr>,
      playerRooms := Map.empty, unlockedBets := Map.empty,
      storage := (storage runWon)
        \<lparr>playersTbl := [1 \<mapsto> \<lparr>p_userId = 7, p_socketId = ''A'', p_name = ''ann'',
           p_chips = 1100, totalWins = 1, totalLosses = 1\<rparr>],
         betsTbl := Map.empty\<rparr>\<rparr>"
    by (simp add: runWon_val runTwoBets_val runBet_val leave_defs)
  have lost: "map_option (\<lambda>p. (p_chips p, totalWins p, totalLosses p))
     (playersTbl (storage (fst (leaveRoom runRevealed ''A''))) 1) = Some (1000, 0, 1)"
    by (simp add: runRevealed_val runBet_val leave_defs)
  have switched: "map_option p_chips (playersTbl (storage runSwitched) 1) = Some 950 \<and>
     map_option p_chips (playersTbl (storage runSwitched) 2) = Some 0 \<and>
     map_option p_chips (playersTbl (storage (fst (leaveRoom runSwitched ''A''))) 1) = Some 950 \<and>
     map_option p_chips (playersTbl (storage (fst (leaveRoom runSwitched ''A''))) 2) = Some 50"
    by (simp add: runSwitched_def runBet_val handlePlayerAuth_def
        createOrUpdatePlayerByUserId_def getPlayerByUserId_def upt_conv_Cons leave_defs)
  have before: "fst (leaveRoom runBet ''A'') = runBet
     \<lparr>globalRoom := (globalRoom runBet)\<lparr>players := [], activeBets := Some []\<rparr>,
      playerRooms := Map.empty, unlockedBets := Map.empty,
      storage := (storage runBet)
        \<lparr>playersTbl := [1 \<mapsto> \<lparr>p_userId = 7, p_socketId = ''A'', p_name = ''ann'',
           p_chips = 1000, totalWins = 0, totalLosses = 0\<rparr>],
         betsTbl := Map.empty\<rparr>\<rparr>"
    by (simp add: runBet_val leave_defs)
  have settled: "afterTicks 30 runLeft = runLeft
     \<lparr>globalRoom := (globalRoom runLeft)
        \<lparr>status := Playing,
         currentCard := Some \<lparr>number = 1, suit = Spades, color = Black, revealed = True\<rparr>,
         countdownTime := 0, activeBets := Some [],
         houseStats := Some \<lparr>totalWagered = 50, totalPaidOut = 0, houseProfitThisRound = 50,
           houseProfitTotal = 50, roundCount = 1\<rparr>\<rparr>,
      lockedBets := Map.empty,
      storage := (storage runLeft)
        \<lparr>playersTbl := [1 \<mapsto> \<lparr>p_userId = 7, p_socketId = ''A'', p_name = ''ann'',
           p_chips = 950, totalWins = 0, totalLosses = 1\<rparr>],
         gamesTbl := [1 \<mapsto> \<lparr>cardNumber = 1, cardColor = ''black'', totalPlayers = 0,
           g_status = ''completed''\<rparr>]\<rparr>\<rparr>"
    by (simp add: afterTicks_def runLeft_ticks)
  have bound: "(\<exists>st'. updatePlayerChips (storage runBet) 1 2147483647 = Inr st' \<and>
      map_option p_chips (playersTbl st' 1) = Some 2147483647) \<and>
    updatePlayerChips (storage runBet) 1 2147483648 = Inl (outOfRange 2147483648)"
    by (simp add: updatePlayerChips_def int4_def runBet_val)
  show ?thesis
    unfolding won before settled disconnectAfterReveal_run
    using lost switched bound
    by (simp add: runWon_val runTwoBets_val runRevealed_val runLeft_val runLocked_val runBet_val
        store0_def emptyStorage_def pendingWagers_def flatten_def unlockedOf_def)
qed

theorem C5_disconnect_after_reveal_witness:
  "map_option (\<lambda>p. (p_chips p, totalWins p, totalLosses p))
     (playersTbl (storage (fst (leaveRoom runWon ''A''))) 1) = Some (1100, 1, 1) \<and>
   map_option (\<lambda>p. (p_chips p, totalWins p, totalLosses p))
     (playersTbl (storage (fst (leaveRoom runRevealed ''A''))) 1) = Some (1000, 0, 1)"
  using C5_disconnect_after_reveal by simp

text \<open>
  Claim C8 fails on the code where it says an unlocked cancellation is rejected once the
  betting window is closed: \<open>handleCancelBet\<close> never looks at the status or the
  countdown. With 10 seconds remaining, the card generated and betting closed, the
  cancellation of the unlocked 50-chip bet goes through and the balance is back at 1000.
  After the reveal, with the bet settled as lost, the same request still goes through and
  pays the lost stake back.
\<close>

theorem C8_cancel_after_close:
  "status (globalRoom runClosed) = Countdown \<and> countdownTime (globalRoom runClosed) = 10 \<and>
   currentCard (globalRoom runClosed) \<noteq> None \<and>
   (\<exists>msg. handlePlaceBet runClosed ''A'' ''red'' ''red'' 50 =
      (runClosed, [ToSocket ''A'' (BetError msg)])) \<and>
   snd (handleCancelBet runClosed ''A'' False) = [ToSocket ''A'' (BetsCancelled 1 1000)] \<and>
   map_option p_chips (playersTbl (storage (fst (handleCancelBet runClosed ''A'' False))) 1) =
     Some 1000 \<and>
   betsTbl (storage (fst (handleCancelBet runClosed ''A'' False))) 1 = None \<and>
   activeBets (globalRoom (fst (handleCancelBet runClosed ''A'' False))) = Some [] \<and>
   status (globalRoom runRevealed) = Playing \<and>
   map_option (\<lambda>p. (p_chips p, totalLosses p)) (playersTbl (storage runRevealed) 1) =
     Some (950, 1) \<and>
   snd (handleCancelBet runRevealed ''A'' False) = [ToSocket ''A'' (BetsCancelled 1 1000)] \<and>
   map_option (\<lambda>p. (p_chips p, totalLosses p))
     (playersTbl (storage (fst (handleCancelBet runRevealed ''A'' False))) 1) = Some (1000, 1)"
  by (simp add: runClosed_val runRevealed_val runBet_val handlePlaceBet_def handleCancelBet_def
      cancelAndRefund_def cancelLoop_def cancelOne_def deleteBet_def dropEmptyEntry_def
      getPlayer_def updatePlayerChips_def int4_def setChips_def playerChips_def findPlayer_def
      authId_def truthy_def Let_def AList.delete_eq)

theorem C8_cancel_after_close_witness:
  "betsTbl (storage (fst (handleCancelBet runClosed ''A'' False))) 1 = None \<and>
   snd (handleCancelBet runRevealed ''A'' False) = [ToSocket ''A'' (BetsCancelled 1 1000)]"
  using C8_cancel_after_close by simp

subsection \<open>Where a card numbered 7 can come from\<close>

text \<open>Where the card of the room comes from: only the countdown tick and the reveal set
  one.\<close>

lemma dropEmptyEntry_card [simp]: "currentCard (dropEmptyEntry sock room) = currentCard room"
  by (simp add: dropEmptyEntry_def split: option.splits)

lemma setChips_card [simp]: "currentCard (setChips sock c room) = currentCard room"
  by (simp add: setChips_def)

lemma leaveRoom_card: "currentCard (globalRoom (fst (leaveRoom gm sock))) = currentCard (globalRoom gm)"
  by (simp add: leaveRoom_def Let_def cancelLoop_effect split: option.splits sum.splits)

lemma joinRoom_card: "currentCard (globalRoom (fst (joinRoom gm sock))) = currentCard (globalRoom gm)"
  by (simp add: joinRoom_def Let_def leaveRoom_card)

lemma handlePlayerAuth_card:
  "currentCard (globalRoom (fst (handlePlayerAuth gm sock uid nm))) = currentCard (globalRoom gm)"
  by (simp add: handlePlayerAuth_def Let_def split: option.splits)

lemma handlePlaceBet_card:
  "currentCard (globalRoom (fst (handlePlaceBet gm sock bt bv amt))) = currentCard (globalRoom gm)"
  by (simp add: handlePlaceBet_def Let_def split: option.splits sum.splits)

lemma handleLockBet_card:
  "currentCard (globalRoom (fst (handleLockBet gm sock))) = currentCard (globalRoom gm)"
  by (simp add: handleLockBet_def Let_def split: option.splits)

lemma cancelAndRefund_card:
  "cancelAndRefund gm sock d bets = Inr gm' \<Longrightarrow>
   currentCard (globalRoom gm') = currentCard (globalRoom gm)"
  by (auto simp: cancelAndRefund_def Let_def cancelLoop_effect split: option.splits sum.splits)

lemma handleCancelLockedBets_card:
  "currentCard (globalRoom (fst (handleCancelLockedBets gm sock))) = currentCard (globalRoom gm)"
  by (auto simp: handleCancelLockedBets_def Let_def cancelLoop_effect
      dest: cancelAndRefund_card split: option.splits sum.splits)

lemma handleCancelBet_card:
  "currentCard (globalRoom (fst (handleCancelBet gm sock cl))) = currentCard (globalRoom gm)"
  by (auto simp: handleCancelBet_def Let_def cancelLoop_effect handleCancelLockedBets_card
      dest: cancelAndRefund_card split: option.splits sum.splits)

lemma startGame_card:
  "currentCard (globalRoom (fst (startGame gm now))) = None \<or>
   currentCard (globalRoom (fst (startGame gm now))) = currentCard (globalRoom gm)"
  by (simp add: startGame_def Let_def)

lemma startNextRound_card: "currentCard (globalRoom (fst (startNextRound gm now))) = None"
  by (simp add: startNextRound_def startGame_def Let_def)


lemma revealCard_seven:
  assumes "revealCard gm r1 r2 = Inr res" "currentCard (globalRoom (fst res)) = Some c"
    "number c = 7"
  shows "(\<exists>c0. currentCard (globalRoom gm) = Some c0 \<and> number c0 = 7) \<or>
         (\<exists>g. currentGameId (globalRoom gm) = Some g \<and> adminOverrides gm g = Some ''lucky7'')"
proof (cases "currentCard (globalRoom gm)")
  case None
  then have "revealCard gm r1 r2 = Inr (gm, [])" by (rule revealCard_no_card)
  with assms(1) have "fst res = gm" by auto
  with assms(2) None show ?thesis by simp
next
  case (Some c0)
  from revealCard_with_card [OF Some, of r1 r2] obtain gm' c' where
    r: "revealCard gm r1 r2 = Inr (gm', [ToRoom (CardRevealed (Some c') (globalRoom gm'))])"
    and c': "currentCard (globalRoom gm') = Some c'"
    and src: "number c' = number c0 \<or>
           (\<exists>g ov c1. currentGameId (globalRoom gm) = Some g \<and> adminOverrides gm g = Some ov \<and>
              generateCardForResult ov r1 r2 = Inr c1 \<and> number c' = number c1)"
    by blast
  from r assms(1) have "fst res = gm'" by auto
  with c' assms(2) have cc: "c = c'" by simp
  from src show ?thesis
  proof
    assume "number c' = number c0"
    with cc assms(3) Some show ?thesis by simp
  next
    assume "\<exists>g ov c1. currentGameId (globalRoom gm) = Some g \<and> adminOverrides gm g = Some ov \<and>
              generateCardForResult ov r1 r2 = Inr c1 \<and> number c' = number c1"
    then obtain g ov c1 where g: "currentGameId (globalRoom gm) = Some g"
      "adminOverrides gm g = Some ov" "generateCardForResult ov r1 r2 = Inr c1"
      "number c' = number c1" by blast
    from generateCardForResult_ok [of ov r1 r2] g(3) have "number c1 = 7 \<longleftrightarrow> ov = ''lucky7''"
      by auto
    with g cc assms(3) show ?thesis by auto
  qed
qed

lemma countdownTick_seven:
  assumes "countdownTick sha gm r1 r2 r3 r4 = Inr res"
    "currentCard (globalRoom (fst res)) = Some c" "number c = 7"
  shows "(\<exists>c0. currentCard (globalRoom gm) = Some c0 \<and> number c0 = 7) \<or>
         (\<exists>g. currentGameId (globalRoom gm) = Some g \<and> adminOverrides gm g = Some ''lucky7'')"
proof (cases "countdownTime (globalRoom gm) - 1 = 10 \<and> currentCard (globalRoom gm) = None")
  case True
  let ?room1 = "(globalRoom gm)\<lparr>countdownTime := countdownTime (globalRoom gm) - 1\<rparr>"
  from generateSmartCard_ok [of sha ?room1 r1 r2] obtain c1 where
    c1: "generateSmartCard sha ?room1 r1 r2 = Inr c1" "number c1 \<noteq> 7" by blast
  with True assms(1) have "currentCard (globalRoom (fst res)) = Some c1"
    by (auto simp: countdownTick_def Let_def)
  with assms(2,3) c1 show ?thesis by simp
next
  case False
  let ?gm2 = "gm\<lparr>globalRoom := (globalRoom gm)\<lparr>countdownTime := countdownTime (globalRoom gm) - 1\<rparr>\<rparr>"
  show ?thesis
  proof (cases "countdownTime (globalRoom gm) - 1 \<le> 0")
    case True
    with False assms(1) obtain res' where r: "revealCard ?gm2 r3 r4 = Inr res'" "fst res = fst res'"
      by (auto simp: countdownTick_def Let_def split: sum.splits if_splits)
    from revealCard_seven [OF r(1)] assms(2,3) r(2) show ?thesis by simp
  next
    case nr: False
    with False assms(1) have "fst res = ?gm2"
      by (auto simp: countdownTick_def Let_def split: sum.splits if_splits)
    with assms(2,3) show ?thesis by simp
  qed
qed

lemma dispatch_seven:
  assumes "dispatch sha i gm = Inr res" "currentCard (globalRoom (fst res)) = Some c"
    "number c = 7"
  shows "(\<exists>c0. currentCard (globalRoom gm) = Some c0 \<and> number c0 = 7) \<or>
         (\<exists>g. currentGameId (globalRoom gm) = Some g \<and> adminOverrides gm g = Some ''lucky7'')"
proof (cases i)
  case (Tick r1 r2 r3 r4)
  with assms(1) have "countdownTick sha gm r1 r2 r3 r4 = Inr res" by (simp add: dispatch_def)
  from countdownTick_seven [OF this assms(2,3)] show ?thesis .
next
  case (Join sock)
  with assms show ?thesis using joinRoom_card [of gm sock] by (auto simp: dispatch_def)
next
  case (Disconnect sock)
  with assms show ?thesis using leaveRoom_card [of gm sock] by (auto simp: dispatch_def)
next
  case (UpdatePlayerAuth sock uid nm)
  with assms show ?thesis using handlePlayerAuth_card [of gm sock uid nm]
    by (auto simp: dispatch_def)
next
  case (PlaceBet sock bt bv amt)
  with assms show ?thesis using handlePlaceBet_card [of gm sock bt bv amt]
    by (auto simp: dispatch_def)
next
  case (LockBet sock)
  with assms show ?thesis using handleLockBet_card [of gm sock] by (auto simp: dispatch_def)
next
  case (CancelBet sock cl)
  with assms show ?thesis using handleCancelBet_card [of gm sock cl] by (auto simp: dispatch_def)
next
  case (StartGame now)
  with assms show ?thesis using startGame_card [of gm now] by (auto simp: dispatch_def)
next
  case (NextRound now)
  with assms show ?thesis using startNextRound_card [of gm now] by (auto simp: dispatch_def)
qed

lemma runForced_val:
  "runForced = runClosed\<lparr>globalRoom := (globalRoom runClosed)\<lparr>countdownTime := 1\<rparr>,
      adminOverrides := [1 \<mapsto> ''lucky7'']\<rparr>"
proof -
  let ?ov = "fst (setAdminOverride runClosed 1 ''lucky7'')"
  have ov: "?ov = runClosed\<lparr>adminOverrides := [1 \<mapsto> ''lucky7'']\<rparr>"
    by (simp add: setAdminOverride_def runClosed_val runBet_val)
  have "runTicks 9 ?ov = Inr (?ov\<lparr>globalRoom := (globalRoom ?ov)\<lparr>countdownTime := 1\<rparr>\<rparr>)"
    using runTicks_withCard [of ?ov 9] unfolding ov by (simp add: runClosed_val runBet_val)
  then show ?thesis unfolding runForced_def afterTicks_def ov by simp
qed

lemma forced_tick:
  "\<exists>gm' out. dispatch (\<lambda>s. 0) (Tick 0 0 0 0) runForced = Inr (gm', out) \<and>
     currentCard (globalRoom gm') =
       Some \<lparr>number = 7, suit = Spades, color = Black, revealed = True\<rparr>"
  by (simp add: dispatch_def runForced_val runClosed_val runBet_val countdownTick_def Let_def
      settle_defs generateCardForResult_def at_def randomInt_def colorOfSuit_def)

text \<open>
  Claim C1. For every room and every random draw, \<open>generateSmartCard\<close> returns a card, and
  its number is not 7: in the branch without bets and in the payout-minimizing branch
  alike. \<open>generateCardForResult\<close> returns a card numbered 7 exactly for the result
  \<open>lucky7\<close>. And in the engine as a whole: when a step leaves a card numbered 7 in the
  room, either a card numbered 7 was there before the step, or the administrator's
  override of the current game was \<open>lucky7\<close>.
\<close>

theorem C1_seven_only_by_override:
  "(\<exists>c. generateSmartCard sha room r1 r2 = Inr c \<and> number c \<noteq> 7 \<and> \<not> revealed c) \<and>
   (\<exists>c. generateCardForResult result r1 r2 = Inr c \<and> (number c = 7 \<longleftrightarrow> result = ''lucky7'')) \<and>
   (dispatch sha i gm = Inr res \<and> currentCard (globalRoom (fst res)) = Some c7 \<and> number c7 = 7 \<longrightarrow>
      (\<exists>c0. currentCard (globalRoom gm) = Some c0 \<and> number c0 = 7) \<or>
      (\<exists>g. currentGameId (globalRoom gm) = Some g \<and> adminOverrides gm g = Some ''lucky7''))"
  using generateSmartCard_ok [of sha room r1 r2] generateCardForResult_ok [of result r1 r2]
    dispatch_seven [of sha i gm res c7]
  by blast

theorem C1_seven_only_by_override_witness:
  "(\<exists>c. generateSmartCard (\<lambda>s. 0) exampleStakes 3 1 = Inr c \<and> number c \<noteq> 7 \<and> \<not> revealed c) \<and>
   (\<exists>c. generateCardForResult ''lucky7'' 3 1 = Inr c \<and> number c = 7) \<and>
   (\<exists>c. generateCardForResult ''high'' 3 1 = Inr c \<and> number c \<noteq> 7) \<and>
   (\<exists>res c7. dispatch (\<lambda>s. 0) (Tick 0 0 0 0) runForced = Inr res \<and>
      currentCard (globalRoom (fst res)) = Some c7 \<and> number c7 = 7) \<and>
   currentCard (globalRoom runForced) =
     Some \<lparr>number = 1, suit = Spades, color = Black, revealed = False\<rparr> \<and>
   currentGameId (globalRoom runForced) = Some 1 \<and>
   adminOverrides runForced 1 = Some ''lucky7''"
proof -
  from forced_tick obtain gm' out where
    t: "dispatch (\<lambda>s. 0) (Tick 0 0 0 0) runForced = Inr (gm', out)"
       "currentCard (globalRoom gm') =
          Some \<lparr>number = 7, suit = Spades, color = Black, revealed = True\<rparr>"
    by blast
  have before: "currentCard (globalRoom runForced) =
      Some \<lparr>number = 1, suit = Spades, color = Black, revealed = False\<rparr>"
    "currentGameId (globalRoom runForced) = Some 1"
    by (simp_all add: runForced_val runClosed_val runBet_val)
  from C1_seven_only_by_override [of "\<lambda>s. 0" exampleStakes 3 1 "''lucky7''" "Tick 0 0 0 0"
      runForced "(gm', out)" "\<lparr>number = 7, suit = Spades, color = Black, revealed = True\<rparr>"]
    C1_seven_only_by_override [of "\<lambda>s. 0" exampleStakes 3 1 "''high''" "Tick 0 0 0 0"
      runForced "(gm', out)" "\<lparr>number = 7, suit = Spades, color = Black, revealed = True\<rparr>"]
    t before
  show ?thesis by auto
qed

subsection \<open>Reveal time\<close>

text \<open>The handlers of socket events leave the round as it is, keep the index in place, and
  hold no bets afterwards where none were held and no game id is set.\<close>

lemma sameRound_refl [simp]: "sameRound gm gm"
  by (simp add: sameRound_def)

lemma dropEmptyEntry_frame [simp]:
  "currentCard (dropEmptyEntry sock room) = currentCard room"
  "countdownTime (dropEmptyEntry sock room) = countdownTime room"
  "status (dropEmptyEntry sock room) = status room"
  "currentGameId (dropEmptyEntry sock room) = currentGameId room"
  "houseStats (dropEmptyEntry sock room) = houseStats room"
  "(\<exists>m. activeBets (dropEmptyEntry sock room) = Some m) = (\<exists>m. activeBets room = Some m)"
  by (simp_all add: dropEmptyEntry_def split: option.splits)

lemma setChips_frame [simp]:
  "countdownTime (setChips sock c room) = countdownTime room"
  "status (setChips sock c room) = status room"
  "currentGameId (setChips sock c room) = currentGameId room"
  "houseStats (setChips sock c room) = houseStats room"
  "activeBets (setChips sock c room) = activeBets room"
  by (simp_all add: setChips_def)

lemma spliced_Some [simp]: "(\<exists>m. spliced sock ids ab = Some m) = (\<exists>m. ab = Some m)"
  by (simp add: spliced_def split: option.splits)














































end
